theory Spec2Isabelle
  imports Main "HOL-Library.Word"
begin

section \<open>The NetTask datagram module\<close>

text \<open>
  A shallow embedding of the NetTask module: the datagram base class with its public and
  private header, the handshake variants (Rejected, Register, RegisterChallenge,
  RegisterChallenge2) and the encrypted variants (PushSchemas, Metric).

  A Node \<open>Buffer\<close> is a list of bytes, a JavaScript \<open>number\<close> that the module uses as an
  unsigned count is a \<open>nat\<close>, a JavaScript string is the list of its UTF-16 code units.
  Every \<open>throw\<close> of the module is a value \<open>Inl e\<close>; a method that assigns to \<open>this\<close>
  returns the updated object next to its result.
\<close>

subsection \<open>Bytes and errors\<close>

type_synonym byte = "8 word"
type_synonym bytes = "byte list"
type_synonym jsstring = "16 word list"

text \<open>
  The module throws plain \<open>Error\<close> objects that differ in their message only. Each throw
  site is one constructor, named after the entry of the error taxonomy it belongs to:
  \<^item> \<open>InvalidSignature\<close>: raised by the receiving caller when \<open>verifySignature\<close> is false;
  \<^item> \<open>TruncatedFrame\<close>: a read past the end of a buffer;
  \<^item> \<open>ValueOutOfRange\<close>: a fixed-width write of a value that does not fit;
  \<^item> \<open>InvalidCryptoMark\<close>: "Invalid crypto mark" in \<open>deserializePublicHeader\<close>;
  \<^item> \<open>InvalidVersion\<close>: "Invalid Version" in \<open>deserializePrivateHeader\<close>;
  \<^item> \<open>WrongType\<close>: "Not a ... datagram" in each \<open>deserialize\<close>;
  \<^item> \<open>NotLinked\<close>: "Datagram not linked against an ECDHE instance" in \<open>serialize\<close>;
  \<^item> \<open>CryptoFailure\<close>: "Serialization Error: Crypto error", the \<open>catch\<close> around the envelope;
  \<^item> \<open>MalformedPayload\<close>: "Malformed schema payload", the \<open>catch\<close> around the payload parse;
  \<^item> \<open>CollaboratorFailure\<close>: an exception of an ECDHE or SPACK function called outside
    every \<open>try\<close> block, which leaves the module unchanged;
  \<^item> \<open>UnknownTask\<close>: an entry of the taxonomy; no throw site of the module produces it.
\<close>

datatype error =
    InvalidSignature
  | TruncatedFrame
  | ValueOutOfRange
  | InvalidCryptoMark
  | InvalidVersion
  | WrongType
  | NotLinked
  | CryptoFailure
  | MalformedPayload
  | CollaboratorFailure
  | UnknownTask

text \<open>Sequencing of two fallible steps: the second runs only when the first returned.\<close>

definition and_then :: "error + 'a \<Rightarrow> ('a \<Rightarrow> error + 'b) \<Rightarrow> error + 'b" where
  "and_then m f = (case m of Inl e \<Rightarrow> Inl e | Inr x \<Rightarrow> f x)"

text \<open>
  A \<open>try { ... } catch (e) { throw new Error(msg, { cause: e }) }\<close> block: whatever the body
  throws is replaced by the one error of the handler.
\<close>

definition try_catch :: "error + 'a \<Rightarrow> error \<Rightarrow> error + 'a" where
  "try_catch body handler = (case body of Inl e \<Rightarrow> Inl handler | Inr x \<Rightarrow> Inr x)"

text \<open>
  A call of a collaborator (ECDHE, SPACK) outside every \<open>try\<close> block. The collaborator is
  a function to \<open>option\<close>, \<open>None\<close> when it throws.
\<close>

definition uncaught :: "'a option \<Rightarrow> error + 'a" where
  "uncaught r = (case r of None \<Rightarrow> Inl CollaboratorFailure | Some x \<Rightarrow> Inr x)"

subsection \<open>Big-endian integers\<close>

text \<open>The \<open>k\<close> low bytes of \<open>n\<close>, most significant first.\<close>

fun uint_be :: "nat \<Rightarrow> nat \<Rightarrow> bytes" where
  "uint_be 0 n = []"
| "uint_be (Suc k) n = uint_be k (n div 256) @ [of_nat n]"

definition be_nat :: "bytes \<Rightarrow> nat" where
  "be_nat bs = foldl (\<lambda>acc b. acc * 256 + unat b) 0 bs"

definition u32be :: "nat \<Rightarrow> bytes" where
  "u32be n = uint_be 4 n"

subsection \<open>The buffer codec\<close>

text \<open>
  Modelled from the spec: the classes \<open>BufferReader\<close> and \<open>BufferWriter\<close> of
  \<open>$common/util/buffer.js\<close> are not among the sources. "A positional reader tracks a
  cursor into an immutable byte buffer; \<open>read(n)\<close> advances by \<open>n\<close> and returns a view;
  \<open>readUIntN\<close> reads big-endian. A writer appends; \<open>finish\<close> returns the accumulated
  bytes. Out-of-bounds reads fail with \<open>TruncatedFrame\<close>." A write of a value that does
  not fit its width fails with \<open>ValueOutOfRange\<close>, as \<open>Buffer.writeUInt32BE\<close> does.
\<close>

record BufferReader =
  buffer :: bytes
  cursor :: nat

definition BufferReader_new :: "bytes \<Rightarrow> BufferReader" where
  "BufferReader_new bs = \<lparr>buffer = bs, cursor = 0\<rparr>"

definition BufferReader_read :: "nat \<Rightarrow> BufferReader \<Rightarrow> error + (bytes \<times> BufferReader)" where
  "BufferReader_read n r =
     (if cursor r + n \<le> length (buffer r)
      then Inr (take n (drop (cursor r) (buffer r)), r\<lparr>cursor := cursor r + n\<rparr>)
      else Inl TruncatedFrame)"

definition BufferReader_readUInt32 :: "BufferReader \<Rightarrow> error + (nat \<times> BufferReader)" where
  "BufferReader_readUInt32 r =
     and_then (BufferReader_read 4 r) (\<lambda>(bs, r'). Inr (be_nat bs, r'))"

definition BufferReader_readInt8 :: "BufferReader \<Rightarrow> error + (int \<times> BufferReader)" where
  "BufferReader_readInt8 r =
     and_then (BufferReader_read 1 r) (\<lambda>(bs, r'). Inr (sint (hd bs), r'))"

type_synonym BufferWriter = bytes

definition BufferWriter_new :: BufferWriter where
  "BufferWriter_new = []"

definition BufferWriter_write :: "BufferWriter \<Rightarrow> bytes \<Rightarrow> BufferWriter" where
  "BufferWriter_write w bs = w @ bs"

definition BufferWriter_writeUInt32 :: "BufferWriter \<Rightarrow> nat \<Rightarrow> error + BufferWriter" where
  "BufferWriter_writeUInt32 w n =
     (if n < 2 ^ 32 then Inr (w @ u32be n) else Inl ValueOutOfRange)"

definition BufferWriter_writeUInt8 :: "BufferWriter \<Rightarrow> nat \<Rightarrow> error + BufferWriter" where
  "BufferWriter_writeUInt8 w n =
     (if n < 2 ^ 8 then Inr (w @ uint_be 1 n) else Inl ValueOutOfRange)"

definition BufferWriter_finish :: "BufferWriter \<Rightarrow> bytes" where
  "BufferWriter_finish w = w"

subsection \<open>Constants\<close>

definition NET_TASK_VERSION :: nat where
  "NET_TASK_VERSION = 1"

text \<open>\<open>Buffer.from("NTTK", "utf8")\<close>, \<open>Buffer.from("CC", "utf8")\<close>, \<open>Buffer.from("NC", "utf8")\<close>.\<close>

definition NET_TASK_SIGNATURE :: bytes where
  "NET_TASK_SIGNATURE = [0x4E, 0x54, 0x54, 0x4B]"

definition NET_TASK_CRYPTO :: bytes where
  "NET_TASK_CRYPTO = [0x43, 0x43]"

definition NET_TASK_NOCRYPTO :: bytes where
  "NET_TASK_NOCRYPTO = [0x4E, 0x43]"

text \<open>The enum \<open>NetTaskDatagramType\<close>; at run time a member is its number.\<close>

definition REQUEST_REGISTER :: nat where "REQUEST_REGISTER = 0"
definition REGISTER_CHALLENGE :: nat where "REGISTER_CHALLENGE = 1"
definition REGISTER_CHALLENGE2 :: nat where "REGISTER_CHALLENGE2 = 2"
definition CONNECTION_REJECTED :: nat where "CONNECTION_REJECTED = 3"
definition PUSH_SCHEMAS :: nat where "PUSH_SCHEMAS = 4"
definition SEND_METRICS :: nat where "SEND_METRICS = 5"

subsection \<open>The datagram base class\<close>

record NetTaskPublicHeader =
  ph_cryptoMark :: bytes
  ph_sessionId :: bytes
  ph_payloadSize :: nat

record NetTask =
  sessionId :: bytes
  cryptoMark :: bytes
  version :: nat
  sequenceNumber :: nat
  fragmented :: bool
  acknowledgementNumber :: nat
  type :: nat
  payloadSize :: nat

definition NetTask_new ::
  "bytes \<Rightarrow> bytes \<Rightarrow> nat \<Rightarrow> nat \<Rightarrow> bool \<Rightarrow> nat \<Rightarrow> nat \<Rightarrow> NetTask" where
  "NetTask_new sid mark seqNo ackNo frag ty psize =
     \<lparr>sessionId = sid, cryptoMark = mark, version = NET_TASK_VERSION,
      sequenceNumber = seqNo, fragmented = frag, acknowledgementNumber = ackNo,
      type = ty, payloadSize = psize\<rparr>"

definition NetTask_isEncrypted :: "'a NetTask_scheme \<Rightarrow> bool" where
  "NetTask_isEncrypted nt = (NET_TASK_CRYPTO = cryptoMark nt)"

definition NetTask_isEncrypted_header :: "NetTaskPublicHeader \<Rightarrow> bool" where
  "NetTask_isEncrypted_header pheader = (NET_TASK_CRYPTO = ph_cryptoMark pheader)"

definition NetTask_verifySignature :: "BufferReader \<Rightarrow> error + (bool \<times> BufferReader)" where
  "NetTask_verifySignature reader =
     and_then (BufferReader_read 4 reader) (\<lambda>(sig, r). Inr (NET_TASK_SIGNATURE = sig, r))"

definition NetTask_serializePublicHeader :: "'a NetTask_scheme \<Rightarrow> error + bytes" where
  "NetTask_serializePublicHeader this =
     (let w = BufferWriter_write BufferWriter_new NET_TASK_SIGNATURE;
          w = BufferWriter_write w (sessionId this);
          w = BufferWriter_write w (cryptoMark this)
      in and_then (BufferWriter_writeUInt32 w (payloadSize this)) (\<lambda>w.
         Inr (BufferWriter_finish w)))"

definition NetTask_serializePrivateHeader :: "'a NetTask_scheme \<Rightarrow> error + bytes" where
  "NetTask_serializePrivateHeader this =
     and_then (BufferWriter_writeUInt32 BufferWriter_new (version this)) (\<lambda>w.
     and_then (BufferWriter_writeUInt32 w (sequenceNumber this)) (\<lambda>w.
     and_then (BufferWriter_writeUInt32 w (acknowledgementNumber this)) (\<lambda>w.
     and_then (BufferWriter_writeUInt8 w (if fragmented this then 1 else 0)) (\<lambda>w.
     and_then (BufferWriter_writeUInt32 w (type this)) (\<lambda>w.
     Inr (BufferWriter_finish w))))))"

text \<open>\<open>HASH_LEN\<close> is imported from the ECDHE module; it is a parameter here.\<close>

definition NetTask_deserializePublicHeader ::
  "nat \<Rightarrow> BufferReader \<Rightarrow> error + (NetTaskPublicHeader \<times> BufferReader)" where
  "NetTask_deserializePublicHeader HASH_LEN reader =
     and_then (BufferReader_read HASH_LEN reader) (\<lambda>(sid, r).
     and_then (BufferReader_read (length NET_TASK_CRYPTO) r) (\<lambda>(mark, r).
     if NET_TASK_CRYPTO \<noteq> mark \<and> NET_TASK_NOCRYPTO \<noteq> mark then Inl InvalidCryptoMark
     else
     and_then (BufferReader_readUInt32 r) (\<lambda>(psize, r).
     Inr (\<lparr>ph_cryptoMark = mark, ph_sessionId = sid, ph_payloadSize = psize\<rparr>, r))))"

definition NetTask_deserializePrivateHeader ::
  "BufferReader \<Rightarrow> NetTaskPublicHeader \<Rightarrow> error + (NetTask \<times> BufferReader)" where
  "NetTask_deserializePrivateHeader reader partialHeader =
     and_then (BufferReader_readUInt32 reader) (\<lambda>(ver, r).
     if ver \<noteq> NET_TASK_VERSION then Inl InvalidVersion
     else
     and_then (BufferReader_readUInt32 r) (\<lambda>(seqNo, r).
     and_then (BufferReader_readUInt32 r) (\<lambda>(ackNo, r).
     and_then (BufferReader_readInt8 r) (\<lambda>(fragmentedBool, r).
     and_then (BufferReader_readUInt32 r) (\<lambda>(ty, r).
     Inr (NetTask_new (ph_sessionId partialHeader) (ph_cryptoMark partialHeader)
            seqNo ackNo (fragmentedBool \<noteq> 0) ty (ph_payloadSize partialHeader), r))))))"

subsection \<open>Strings\<close>

text \<open>
  \<open>Buffer.from(s, "utf8")\<close> and \<open>buf.toString("utf8")\<close> are built into the platform. A
  string is the list of its UTF-16 code units, \<open>s.length\<close> is the length of that list.
  The encoder joins a surrogate pair into one code point of four bytes and writes U+FFFD
  (\<open>EF BF BD\<close>) for a lone surrogate. The decoder is the UTF-8 decoder of the Encoding
  Standard without byte-order-mark handling: an ill-formed sequence gives U+FFFD and the
  offending byte is processed again.
\<close>

definition utf8_pair :: "nat \<Rightarrow> nat \<Rightarrow> bytes" where
  "utf8_pair hi lo =
     (let cp = 65536 + (hi - 55296) * 1024 + (lo - 56320)
      in [of_nat (240 + cp div 262144), of_nat (128 + cp div 4096 mod 64),
          of_nat (128 + cp div 64 mod 64), of_nat (128 + cp mod 64)])"

fun utf8_encode :: "jsstring \<Rightarrow> bytes" where
  "utf8_encode [] = []"
| "utf8_encode (u # us) =
     (if unat u < 128 then of_nat (unat u) # utf8_encode us
      else if unat u < 2048 then
        of_nat (192 + unat u div 64) # of_nat (128 + unat u mod 64) # utf8_encode us
      else if 55296 \<le> unat u \<and> unat u < 56320 then
        (case us of
           [] \<Rightarrow> [239, 191, 189]
         | v # vs \<Rightarrow>
             if 56320 \<le> unat v \<and> unat v < 57344
             then utf8_pair (unat u) (unat v) @ utf8_encode vs
             else 239 # 191 # 189 # utf8_encode us)
      else if 56320 \<le> unat u \<and> unat u < 57344 then
        239 # 191 # 189 # utf8_encode us
      else
        of_nat (224 + unat u div 4096) # of_nat (128 + unat u div 64 mod 64)
          # of_nat (128 + unat u mod 64) # utf8_encode us)"

definition code_units :: "nat \<Rightarrow> jsstring" where
  "code_units cp =
     (if cp < 65536 then [of_nat cp]
      else [of_nat (55296 + (cp - 65536) div 1024), of_nat (56320 + (cp - 65536) mod 1024)])"

text \<open>
  \<open>utf8_dec need cp lo hi bs\<close>: \<open>need\<close> continuation bytes are still expected (0 at the
  start of a character), \<open>cp\<close> is the code point collected so far and \<open>lo..hi\<close> the
  range allowed for the next byte.
\<close>

fun utf8_dec :: "nat \<Rightarrow> nat \<Rightarrow> nat \<Rightarrow> nat \<Rightarrow> bytes \<Rightarrow> jsstring" where
  "utf8_dec need cp lo hi [] = (if need = 0 then [] else [65533])"
| "utf8_dec need cp lo hi (b # bs) =
     (if need = 0 then
        (if unat b < 128 then of_nat (unat b) # utf8_dec 0 0 128 191 bs
         else if 194 \<le> unat b \<and> unat b \<le> 223 then utf8_dec 1 (unat b mod 32) 128 191 bs
         else if 224 \<le> unat b \<and> unat b \<le> 239 then
           utf8_dec 2 (unat b mod 16) (if unat b = 224 then 160 else 128)
             (if unat b = 237 then 159 else 191) bs
         else if 240 \<le> unat b \<and> unat b \<le> 244 then
           utf8_dec 3 (unat b mod 8) (if unat b = 240 then 144 else 128)
             (if unat b = 244 then 143 else 191) bs
         else 65533 # utf8_dec 0 0 128 191 bs)
      else if \<not> (lo \<le> unat b \<and> unat b \<le> hi) then 65533 # utf8_dec 0 0 128 191 (b # bs)
      else if need = 1 then code_units (cp * 64 + unat b mod 64) @ utf8_dec 0 0 128 191 bs
      else utf8_dec (need - 1) (cp * 64 + unat b mod 64) 128 191 bs)"

definition utf8_decode :: "bytes \<Rightarrow> jsstring" where
  "utf8_decode bs = utf8_dec 0 0 128 191 bs"

text \<open>\<open>Buffer.alloc(4)\<close> followed by \<open>writeUInt32BE(n)\<close>, which throws when \<open>n\<close> is no u32.\<close>

definition Buffer_writeUInt32BE :: "nat \<Rightarrow> error + bytes" where
  "Buffer_writeUInt32BE n = (if n < 2 ^ 32 then Inr (u32be n) else Inl ValueOutOfRange)"

text \<open>\<open>buf.readUInt32BE()\<close> at offset 0, which throws when the buffer has fewer than 4 bytes.\<close>

definition Buffer_readUInt32BE :: "bytes \<Rightarrow> error + nat" where
  "Buffer_readUInt32BE bs = (if 4 \<le> length bs then Inr (be_nat (take 4 bs)) else Inl TruncatedFrame)"

text \<open>\<open>buf.subarray(from, to)\<close> for \<open>from \<le> to\<close>: the indices are clamped, it never throws.\<close>

definition Buffer_subarray :: "bytes \<Rightarrow> nat \<Rightarrow> nat \<Rightarrow> bytes" where
  "Buffer_subarray bs from to = take (to - from) (drop from bs)"

subsection \<open>Collaborators\<close>

text \<open>
  Modelled from the spec: the ECDHE class of \<open>$common/protocol/ecdhe.js\<close> is not among the
  sources. "\<open>encrypt(plain) \<rightarrow> {iv, tag, ciphertext}\<close>; \<open>decrypt(record) \<rightarrow> plain\<close>;
  \<open>envelope(plain) \<rightarrow> {iv, tag, ciphertext}\<close>; \<open>openEnvelope(record) \<rightarrow> plain\<close>;
  \<open>serializeEncryptedMessage(record) \<rightarrow> bytes\<close>, \<open>deserializeEncryptedMessage(bytes) \<rightarrow> record\<close>."
  An instance is the four functions it offers, the two static functions are a record of
  their own. Nothing is assumed about what they compute; \<open>None\<close> is a thrown exception.
\<close>

record EncryptedMessage =
  iv :: bytes
  tag :: bytes
  ciphertext :: bytes

record ECDHE =
  encrypt :: "bytes \<Rightarrow> EncryptedMessage option"
  decrypt :: "EncryptedMessage \<Rightarrow> bytes option"
  envelope :: "bytes \<Rightarrow> EncryptedMessage option"
  openEnvelope :: "EncryptedMessage \<Rightarrow> bytes option"

record ECDHE_static =
  serializeEncryptedMessage :: "EncryptedMessage \<Rightarrow> bytes option"
  deserializeEncryptedMessage :: "bytes \<Rightarrow> EncryptedMessage option"

text \<open>
  Modelled from the spec: the functions of \<open>./spack.js\<close> are not among the sources.
  "\<open>serializeSPACK(obj) \<rightarrow> bytes\<close>, \<open>deserializeSPACK(bytes) \<rightarrow> obj\<close>; \<open>packTaskSchemas(map)\<close>,
  \<open>unpackTaskSchemas(packed) \<rightarrow> map\<close>; \<open>serializeTaskMetric(metric, taskDescriptor) \<rightarrow> bytes\<close>,
  \<open>deserializeTaskMetric(bytes, taskDescriptor) \<rightarrow> metric\<close>; \<open>isSPACKTaskCollection(x)\<close>,
  predicate telling whether a PushSchemas input is already packed or still an unpacked
  task map." The types are parameters: \<open>'p\<close> is \<open>SPACKPacked\<close>, \<open>'t\<close> is \<open>SPACKTask\<close>,
  \<open>'k\<close> is the task descriptor, \<open>'m\<close> is \<open>SPACKTaskMetric\<close>. A descriptor argument is an
  \<open>option\<close>, \<open>None\<close> being \<open>undefined\<close>.
\<close>

datatype ('p, 't) schemas = Packed 'p | TaskCollection "(jsstring \<times> 't) list"

definition isSPACKTaskCollection :: "('p, 't) schemas \<Rightarrow> bool" where
  "isSPACKTaskCollection x = (case x of Packed p \<Rightarrow> False | TaskCollection entries \<Rightarrow> True)"

record ('p, 't, 'k, 'm) SPACK =
  serializeSPACK :: "'p \<Rightarrow> bytes option"
  deserializeSPACK :: "bytes \<Rightarrow> 'p option"
  getUnpacked :: "'t \<Rightarrow> 'k option"
  packTaskSchemas :: "(jsstring \<times> 'k) list \<Rightarrow> 'p option"
  unpackTaskSchemas :: "'p \<Rightarrow> (jsstring \<times> 't) list option"
  serializeTaskMetric :: "'m \<Rightarrow> 'k option \<Rightarrow> bytes option"
  deserializeTaskMetric :: "bytes \<Rightarrow> 'k option \<Rightarrow> 'm option"

text \<open>
  \<open>Object.fromEntries(Object.entries(o).map(([k, v]) => [k, f(v)]))\<close>: an object is the
  list of its entries; the first \<open>f\<close> that throws ends the traversal.
\<close>

fun mapEntries :: "('a \<Rightarrow> 'b option) \<Rightarrow> (jsstring \<times> 'a) list \<Rightarrow> (jsstring \<times> 'b) list option" where
  "mapEntries f [] = Some []"
| "mapEntries f ((k, v) # kvs) =
     (case f v of
        None \<Rightarrow> None
      | Some v' \<Rightarrow> (case mapEntries f kvs of None \<Rightarrow> None | Some kvs' \<Rightarrow> Some ((k, v') # kvs')))"

subsection \<open>The handshake variants\<close>

text \<open>
  A subclass is a record extending \<open>NetTask\<close>; its private fields carry the class name,
  since two classes declare \<open>_publicKey\<close> and three declare \<open>ecdhe\<close>. \<open>serialize\<close> assigns
  \<open>this.payloadSize\<close>, so it returns the bytes together with the updated object.
\<close>

definition NetTaskRejected_new :: "bytes \<Rightarrow> nat \<Rightarrow> nat \<Rightarrow> NetTask" where
  "NetTaskRejected_new sid seqNo ackNo =
     NetTask_new sid NET_TASK_NOCRYPTO seqNo ackNo False CONNECTION_REJECTED 0"

definition NetTaskRejected_serialize :: "NetTask \<Rightarrow> error + (bytes \<times> NetTask)" where
  "NetTaskRejected_serialize this =
     and_then (NetTask_serializePrivateHeader this) (\<lambda>privHeader.
     let this = this\<lparr>payloadSize := length privHeader\<rparr> in
     and_then (NetTask_serializePublicHeader this) (\<lambda>pubHeader.
     let newWriter = BufferWriter_write BufferWriter_new pubHeader;
         newWriter = BufferWriter_write newWriter privHeader
     in Inr (BufferWriter_finish newWriter, this)))"

record NetTaskRegister = NetTask +
  Register_publicKey :: bytes

definition NetTaskRegister_new :: "bytes \<Rightarrow> nat \<Rightarrow> nat \<Rightarrow> bool \<Rightarrow> bytes \<Rightarrow> NetTaskRegister" where
  "NetTaskRegister_new sid seqNo ackNo frag pk =
     NetTask.extend (NetTask_new sid NET_TASK_NOCRYPTO seqNo ackNo frag REQUEST_REGISTER 0)
       (NetTaskRegister.fields pk)"

definition NetTaskRegister_serialize :: "NetTaskRegister \<Rightarrow> error + (bytes \<times> NetTaskRegister)" where
  "NetTaskRegister_serialize this =
     and_then (NetTask_serializePrivateHeader this) (\<lambda>privHeader.
     let this = this\<lparr>payloadSize := length privHeader + 4 + length (Register_publicKey this)\<rparr> in
     and_then (NetTask_serializePublicHeader this) (\<lambda>pubHeader.
     let newWriter = BufferWriter_write BufferWriter_new pubHeader;
         newWriter = BufferWriter_write newWriter privHeader
     in
     and_then (BufferWriter_writeUInt32 newWriter (length (Register_publicKey this))) (\<lambda>newWriter.
     let newWriter = BufferWriter_write newWriter (Register_publicKey this)
     in Inr (BufferWriter_finish newWriter, this))))"

definition NetTaskRegister_deserialize ::
  "BufferReader \<Rightarrow> NetTask \<Rightarrow> error + (NetTaskRegister \<times> BufferReader)" where
  "NetTaskRegister_deserialize reader dg =
     (if type dg \<noteq> REQUEST_REGISTER then Inl WrongType
      else
      and_then (BufferReader_readUInt32 reader) (\<lambda>(publicKeyLen, r).
      and_then (BufferReader_read publicKeyLen r) (\<lambda>(publicKey, r).
      Inr (NetTaskRegister_new (sessionId dg) (sequenceNumber dg) (acknowledgementNumber dg)
             (fragmented dg) publicKey, r))))"

record NetTaskRegisterChallenge = NetTask +
  RegisterChallenge_publicKey :: bytes
  RegisterChallenge_challenge :: bytes
  RegisterChallenge_salt :: bytes

definition NetTaskRegisterChallenge_new ::
  "bytes \<Rightarrow> nat \<Rightarrow> nat \<Rightarrow> bool \<Rightarrow> bytes \<Rightarrow> bytes \<Rightarrow> bytes \<Rightarrow> NetTaskRegisterChallenge" where
  "NetTaskRegisterChallenge_new sid seqNo ackNo frag pk ch slt =
     NetTask.extend (NetTask_new sid NET_TASK_NOCRYPTO seqNo ackNo frag REGISTER_CHALLENGE 0)
       (NetTaskRegisterChallenge.fields pk ch slt)"

definition NetTaskRegisterChallenge_serialize ::
  "NetTaskRegisterChallenge \<Rightarrow> error + (bytes \<times> NetTaskRegisterChallenge)" where
  "NetTaskRegisterChallenge_serialize this =
     and_then (NetTask_serializePrivateHeader this) (\<lambda>privHeader.
     let this = this\<lparr>payloadSize := length privHeader
                   + length (RegisterChallenge_publicKey this)
                   + length (RegisterChallenge_challenge this)
                   + length (RegisterChallenge_salt this)
                   + 4 * 3\<rparr> in
     and_then (NetTask_serializePublicHeader this) (\<lambda>pubHeader.
     let newWriter = BufferWriter_write BufferWriter_new pubHeader;
         newWriter = BufferWriter_write newWriter privHeader
     in
     and_then (BufferWriter_writeUInt32 newWriter (length (RegisterChallenge_publicKey this))) (\<lambda>newWriter.
     let newWriter = BufferWriter_write newWriter (RegisterChallenge_publicKey this) in
     and_then (BufferWriter_writeUInt32 newWriter (length (RegisterChallenge_challenge this))) (\<lambda>newWriter.
     let newWriter = BufferWriter_write newWriter (RegisterChallenge_challenge this) in
     and_then (BufferWriter_writeUInt32 newWriter (length (RegisterChallenge_salt this))) (\<lambda>newWriter.
     let newWriter = BufferWriter_write newWriter (RegisterChallenge_salt this)
     in Inr (BufferWriter_finish newWriter, this))))))"

definition NetTaskRegisterChallenge_deserialize ::
  "BufferReader \<Rightarrow> NetTask \<Rightarrow> error + (NetTaskRegisterChallenge \<times> BufferReader)" where
  "NetTaskRegisterChallenge_deserialize reader dg =
     (if type dg \<noteq> REGISTER_CHALLENGE then Inl WrongType
      else
      and_then (BufferReader_readUInt32 reader) (\<lambda>(publicKeyLen, r).
      and_then (BufferReader_read publicKeyLen r) (\<lambda>(publicKey, r).
      and_then (BufferReader_readUInt32 r) (\<lambda>(challengeLen, r).
      and_then (BufferReader_read challengeLen r) (\<lambda>(challenge, r).
      and_then (BufferReader_readUInt32 r) (\<lambda>(saltLen, r).
      and_then (BufferReader_read saltLen r) (\<lambda>(salt, r).
      Inr (NetTaskRegisterChallenge_new (sessionId dg) (sequenceNumber dg)
             (acknowledgementNumber dg) (fragmented dg) publicKey challenge salt, r))))))))"

record NetTaskRegisterChallenge2 = NetTask +
  RegisterChallenge2_challenge :: bytes
  RegisterChallenge2_ecdhe :: "ECDHE option"

definition NetTaskRegisterChallenge2_new ::
  "bytes \<Rightarrow> nat \<Rightarrow> nat \<Rightarrow> bool \<Rightarrow> bytes \<Rightarrow> NetTaskRegisterChallenge2" where
  "NetTaskRegisterChallenge2_new sid seqNo ackNo frag ch =
     NetTask.extend (NetTask_new sid NET_TASK_NOCRYPTO seqNo ackNo frag REGISTER_CHALLENGE2 0)
       (NetTaskRegisterChallenge2.fields ch None)"

definition NetTaskRegisterChallenge2_link ::
  "NetTaskRegisterChallenge2 \<Rightarrow> ECDHE \<Rightarrow> NetTaskRegisterChallenge2" where
  "NetTaskRegisterChallenge2_link this ecdhe = this\<lparr>RegisterChallenge2_ecdhe := Some ecdhe\<rparr>"

definition NetTaskRegisterChallenge2_serialize ::
  "NetTaskRegisterChallenge2 \<Rightarrow> error + (bytes \<times> NetTaskRegisterChallenge2)" where
  "NetTaskRegisterChallenge2_serialize this =
     (case RegisterChallenge2_ecdhe this of
        None \<Rightarrow> Inl NotLinked
      | Some ecdhe \<Rightarrow>
          and_then (NetTask_serializePrivateHeader this) (\<lambda>privHeader.
          let this = this\<lparr>payloadSize :=
                       length privHeader + length (RegisterChallenge2_challenge this) + 4\<rparr> in
          and_then (NetTask_serializePublicHeader this) (\<lambda>pubHeader.
          let dgramWriter = BufferWriter_write BufferWriter_new pubHeader;
              dgramWriter = BufferWriter_write dgramWriter privHeader
          in
          and_then (BufferWriter_writeUInt32 dgramWriter (length (RegisterChallenge2_challenge this))) (\<lambda>dgramWriter.
          let dgramWriter = BufferWriter_write dgramWriter (RegisterChallenge2_challenge this)
          in Inr (BufferWriter_finish dgramWriter, this)))))"

definition NetTaskRegisterChallenge2_deserialize ::
  "BufferReader \<Rightarrow> NetTask \<Rightarrow> error + (NetTaskRegisterChallenge2 \<times> BufferReader)" where
  "NetTaskRegisterChallenge2_deserialize reader dg =
     (if type dg \<noteq> REGISTER_CHALLENGE2 then Inl WrongType
      else
      and_then (BufferReader_readUInt32 reader) (\<lambda>(challengeLen, r).
      and_then (BufferReader_read challengeLen r) (\<lambda>(challenge, r).
      Inr (NetTaskRegisterChallenge2_new (sessionId dg) (sequenceNumber dg)
             (acknowledgementNumber dg) (fragmented dg) challenge, r))))"

subsection \<open>The encrypted variants\<close>

record ('p, 't) NetTaskPushSchemas = NetTask +
  PushSchemas_spack :: "('p, 't) schemas"
  PushSchemas_ecdhe :: "ECDHE option"

definition NetTaskPushSchemas_new ::
  "bytes \<Rightarrow> nat \<Rightarrow> nat \<Rightarrow> bool \<Rightarrow> ('p, 't) schemas \<Rightarrow> ('p, 't) NetTaskPushSchemas" where
  "NetTaskPushSchemas_new sid seqNo ackNo frag spack =
     NetTask.extend (NetTask_new sid NET_TASK_CRYPTO seqNo ackNo frag PUSH_SCHEMAS 0)
       (NetTaskPushSchemas.fields spack None)"

definition NetTaskPushSchemas_link ::
  "('p, 't) NetTaskPushSchemas \<Rightarrow> ECDHE \<Rightarrow> ('p, 't) NetTaskPushSchemas" where
  "NetTaskPushSchemas_link this ecdhe = this\<lparr>PushSchemas_ecdhe := Some ecdhe\<rparr>"

text \<open>
  The variable \<open>pack\<close> of \<open>NetTaskPushSchemas.serialize\<close>. The test
  \<open>isSPACKTaskCollection(this.spack)\<close> is the case distinction on the union: the first
  branch is taken exactly when \<open>isSPACKTaskCollection\<close> holds.
\<close>

definition NetTaskPushSchemas_pack ::
  "('p, 't, 'k, 'm) SPACK \<Rightarrow> ('p, 't) schemas \<Rightarrow> error + bytes" where
  "NetTaskPushSchemas_pack S spack =
     (case spack of
        TaskCollection entries \<Rightarrow>
          and_then (uncaught (mapEntries (getUnpacked S) entries)) (\<lambda>unpacked.
          and_then (uncaught (packTaskSchemas S unpacked)) (\<lambda>packed.
          uncaught (serializeSPACK S packed)))
      | Packed p \<Rightarrow> uncaught (serializeSPACK S p))"

text \<open>
  The second half of both encrypted \<open>serialize\<close> methods, the same statements in both:
  encrypt the compound, frame it behind the private header, envelope the frame, set
  \<open>payloadSize\<close>, write the public header and the envelope.
\<close>

definition encrypted_serialize ::
  "ECDHE_static \<Rightarrow> ECDHE \<Rightarrow> bytes \<Rightarrow> 'a NetTask_scheme \<Rightarrow> error + (bytes \<times> 'a NetTask_scheme)" where
  "encrypted_serialize E ecdhe packCompound this =
     and_then (uncaught (encrypt ecdhe packCompound)) (\<lambda>enc.
     and_then (uncaught (serializeEncryptedMessage E enc)) (\<lambda>serENC.
     and_then (NetTask_serializePrivateHeader this) (\<lambda>privHeader.
     let payloadWriter = BufferWriter_write BufferWriter_new privHeader in
     and_then (BufferWriter_writeUInt32 payloadWriter (length serENC)) (\<lambda>payloadWriter.
     let payloadWriter = BufferWriter_write payloadWriter serENC in
     and_then (try_catch
                 (and_then (uncaught (envelope ecdhe (BufferWriter_finish payloadWriter))) (\<lambda>msg.
                  uncaught (serializeEncryptedMessage E msg)))
                 CryptoFailure) (\<lambda>envelope_bytes.
     let this = this\<lparr>payloadSize := length envelope_bytes\<rparr> in
     and_then (NetTask_serializePublicHeader this) (\<lambda>pubHeader.
     let dgramWriter = BufferWriter_write BufferWriter_new pubHeader;
         dgramWriter = BufferWriter_write dgramWriter envelope_bytes
     in Inr (BufferWriter_finish dgramWriter, this)))))))"

definition NetTaskPushSchemas_serialize ::
  "ECDHE_static \<Rightarrow> ('p, 't, 'k, 'm) SPACK \<Rightarrow> ('p, 't) NetTaskPushSchemas
     \<Rightarrow> error + (bytes \<times> ('p, 't) NetTaskPushSchemas)" where
  "NetTaskPushSchemas_serialize E S this =
     (case PushSchemas_ecdhe this of
        None \<Rightarrow> Inl NotLinked
      | Some ecdhe \<Rightarrow>
          and_then (NetTaskPushSchemas_pack S (PushSchemas_spack this)) (\<lambda>pack.
          and_then (Buffer_writeUInt32BE (length pack)) (\<lambda>packLen.
          let packCompound = packLen @ pack in
          encrypted_serialize E ecdhe packCompound this)))"

definition NetTaskPushSchemas_deserialize ::
  "ECDHE_static \<Rightarrow> ('p, 't, 'k, 'm) SPACK \<Rightarrow> BufferReader \<Rightarrow> ECDHE \<Rightarrow> NetTask
     \<Rightarrow> error + (('p, 't) NetTaskPushSchemas \<times> BufferReader)" where
  "NetTaskPushSchemas_deserialize E S reader ecdhe dg =
     (if type dg \<noteq> PUSH_SCHEMAS then Inl WrongType
      else
      and_then (BufferReader_readUInt32 reader) (\<lambda>(serEncLen, r).
      and_then (BufferReader_read serEncLen r) (\<lambda>(serEnc, r).
      and_then (uncaught (deserializeEncryptedMessage E serEnc)) (\<lambda>desMessage.
      and_then (uncaught (decrypt ecdhe desMessage)) (\<lambda>message.
      and_then (try_catch
                  (and_then (Buffer_readUInt32BE message) (\<lambda>spackLen.
                   let rawSpack = Buffer_subarray message 4 (spackLen + 4) in
                   and_then (uncaught (deserializeSPACK S rawSpack)) (\<lambda>spack.
                   uncaught (unpackTaskSchemas S spack))))
                  MalformedPayload) (\<lambda>tasks.
      Inr (NetTaskPushSchemas_new (sessionId dg) 123123 123123 True (TaskCollection tasks), r)))))))"

record ('m, 'k) NetTaskMetric = NetTask +
  Metric_spack :: 'm
  Metric_ecdhe :: "ECDHE option"
  Metric_taskId :: jsstring
  Metric_task :: "'k option"

definition NetTaskMetric_new ::
  "bytes \<Rightarrow> nat \<Rightarrow> nat \<Rightarrow> bool \<Rightarrow> 'm \<Rightarrow> jsstring \<Rightarrow> 'k option \<Rightarrow> ('m, 'k) NetTaskMetric" where
  "NetTaskMetric_new sid seqNo ackNo frag spack taskId task =
     NetTask.extend (NetTask_new sid NET_TASK_CRYPTO seqNo ackNo frag SEND_METRICS 0)
       (NetTaskMetric.fields spack None taskId task)"

definition NetTaskMetric_link :: "('m, 'k) NetTaskMetric \<Rightarrow> ECDHE \<Rightarrow> ('m, 'k) NetTaskMetric" where
  "NetTaskMetric_link this ecdhe = this\<lparr>Metric_ecdhe := Some ecdhe\<rparr>"

text \<open>
  The variable \<open>packCompound\<close> of \<open>NetTaskMetric.serialize\<close>: \<open>taskLen\<close> holds
  \<open>this.taskId.length\<close>, the bytes after it are \<open>Buffer.from(this.taskId, "utf8")\<close>.
\<close>

definition NetTaskMetric_packCompound :: "jsstring \<Rightarrow> bytes \<Rightarrow> error + bytes" where
  "NetTaskMetric_packCompound taskId pack =
     and_then (Buffer_writeUInt32BE (length taskId)) (\<lambda>taskLen.
     and_then (Buffer_writeUInt32BE (length pack)) (\<lambda>packLen.
     Inr (taskLen @ utf8_encode taskId @ packLen @ pack)))"

definition NetTaskMetric_serialize ::
  "ECDHE_static \<Rightarrow> ('p, 't, 'k, 'm) SPACK \<Rightarrow> ('m, 'k) NetTaskMetric
     \<Rightarrow> error + (bytes \<times> ('m, 'k) NetTaskMetric)" where
  "NetTaskMetric_serialize E S this =
     (case Metric_ecdhe this of
        None \<Rightarrow> Inl NotLinked
      | Some ecdhe \<Rightarrow>
          and_then (uncaught (serializeTaskMetric S (Metric_spack this) (Metric_task this))) (\<lambda>pack.
          and_then (NetTaskMetric_packCompound (Metric_taskId this) pack) (\<lambda>packCompound.
          encrypted_serialize E ecdhe packCompound this)))"

text \<open>
  The body of the \<open>try\<close> block of \<open>NetTaskMetric.deserialize\<close>, on the decrypted message:
  it fills \<open>metric.taskId\<close> and \<open>metric.metrics\<close>. \<open>configTasks\<close> is the property lookup
  \<open>configTasks[taskId]\<close>, \<open>None\<close> when it gives \<open>undefined\<close>.
\<close>

definition NetTaskMetric_parseMessage ::
  "('p, 't, 'k, 'm) SPACK \<Rightarrow> (jsstring \<Rightarrow> 'k option) \<Rightarrow> bytes \<Rightarrow> error + (jsstring \<times> 'm)" where
  "NetTaskMetric_parseMessage S configTasks message =
     (let messageReader = BufferReader_new message in
      and_then (BufferReader_readUInt32 messageReader) (\<lambda>(taskIdLen, mr).
      and_then (BufferReader_read taskIdLen mr) (\<lambda>(rawTaskId, mr).
      let taskId = utf8_decode rawTaskId in
      and_then (BufferReader_readUInt32 mr) (\<lambda>(spackLen, mr).
      and_then (BufferReader_read spackLen mr) (\<lambda>(rawSpack, mr).
      and_then (uncaught (deserializeTaskMetric S rawSpack (configTasks taskId))) (\<lambda>metrics.
      Inr (taskId, metrics)))))))"

definition NetTaskMetric_deserialize ::
  "ECDHE_static \<Rightarrow> ('p, 't, 'k, 'm) SPACK \<Rightarrow> BufferReader \<Rightarrow> ECDHE \<Rightarrow> NetTask
     \<Rightarrow> (jsstring \<Rightarrow> 'k option) \<Rightarrow> error + (('m, 'k) NetTaskMetric \<times> BufferReader)" where
  "NetTaskMetric_deserialize E S reader ecdhe dg configTasks =
     (if type dg \<noteq> SEND_METRICS then Inl WrongType
      else
      and_then (BufferReader_readUInt32 reader) (\<lambda>(serEncLen, r).
      and_then (BufferReader_read serEncLen r) (\<lambda>(serEnc, r).
      and_then (uncaught (deserializeEncryptedMessage E serEnc)) (\<lambda>desMessage.
      and_then (uncaught (decrypt ecdhe desMessage)) (\<lambda>message.
      and_then (try_catch (NetTaskMetric_parseMessage S configTasks message) MalformedPayload)
        (\<lambda>(taskId, metrics).
      Inr (NetTaskMetric_new (sessionId dg) (sequenceNumber dg) (acknowledgementNumber dg)
             True metrics taskId (configTasks taskId), r)))))))"

subsection \<open>The receiving side\<close>

text \<open>
  Modelled from the spec: the caller that receives a datagram is not among the sources.
  "The caller awaits bytes, hands them to \<open>verifySignature\<close>/\<open>deserializePublicHeader\<close>/
  \<open>deserializePrivateHeader\<close>, then dispatches by \<open>type\<close>." For an encrypted datagram
  "deserialization reverses exactly: open the outer envelope, read the PrivateHeader from
  the plaintext, read the inner encrypted record, decrypt it, then parse the SPACK
  object(s)." \<open>receive_header\<close> returns the base datagram and the reader positioned
  behind the private header.
\<close>

definition receive_header ::
  "nat \<Rightarrow> ECDHE_static \<Rightarrow> ECDHE option \<Rightarrow> bytes \<Rightarrow> error + (NetTask \<times> BufferReader)" where
  "receive_header HASH_LEN E session bs =
     and_then (NetTask_verifySignature (BufferReader_new bs)) (\<lambda>(ok, r).
     if \<not> ok then Inl InvalidSignature
     else
     and_then (NetTask_deserializePublicHeader HASH_LEN r) (\<lambda>(pheader, r).
     if NetTask_isEncrypted_header pheader then
       (case session of
          None \<Rightarrow> Inl NotLinked
        | Some ecdhe \<Rightarrow>
            and_then (BufferReader_read (ph_payloadSize pheader) r) (\<lambda>(outerEnc, r).
            and_then (uncaught (deserializeEncryptedMessage E outerEnc)) (\<lambda>msg.
            and_then (uncaught (openEnvelope ecdhe msg)) (\<lambda>payload.
            NetTask_deserializePrivateHeader (BufferReader_new payload) pheader))))
     else NetTask_deserializePrivateHeader r pheader))"

definition receive_Register :: "nat \<Rightarrow> ECDHE_static \<Rightarrow> bytes \<Rightarrow> error + NetTaskRegister" where
  "receive_Register HASH_LEN E bs =
     and_then (receive_header HASH_LEN E None bs) (\<lambda>(dg, r).
     and_then (NetTaskRegister_deserialize r dg) (\<lambda>(x, r). Inr x))"

definition receive_RegisterChallenge ::
  "nat \<Rightarrow> ECDHE_static \<Rightarrow> bytes \<Rightarrow> error + NetTaskRegisterChallenge" where
  "receive_RegisterChallenge HASH_LEN E bs =
     and_then (receive_header HASH_LEN E None bs) (\<lambda>(dg, r).
     and_then (NetTaskRegisterChallenge_deserialize r dg) (\<lambda>(x, r). Inr x))"

definition receive_RegisterChallenge2 ::
  "nat \<Rightarrow> ECDHE_static \<Rightarrow> bytes \<Rightarrow> error + NetTaskRegisterChallenge2" where
  "receive_RegisterChallenge2 HASH_LEN E bs =
     and_then (receive_header HASH_LEN E None bs) (\<lambda>(dg, r).
     and_then (NetTaskRegisterChallenge2_deserialize r dg) (\<lambda>(x, r). Inr x))"

definition receive_PushSchemas ::
  "nat \<Rightarrow> ECDHE_static \<Rightarrow> ('p, 't, 'k, 'm) SPACK \<Rightarrow> ECDHE \<Rightarrow> bytes
     \<Rightarrow> error + ('p, 't) NetTaskPushSchemas" where
  "receive_PushSchemas HASH_LEN E S ecdhe bs =
     and_then (receive_header HASH_LEN E (Some ecdhe) bs) (\<lambda>(dg, r).
     and_then (NetTaskPushSchemas_deserialize E S r ecdhe dg) (\<lambda>(x, r). Inr x))"

definition receive_Metric ::
  "nat \<Rightarrow> ECDHE_static \<Rightarrow> ('p, 't, 'k, 'm) SPACK \<Rightarrow> ECDHE \<Rightarrow> (jsstring \<Rightarrow> 'k option) \<Rightarrow> bytes
     \<Rightarrow> error + ('m, 'k) NetTaskMetric" where
  "receive_Metric HASH_LEN E S ecdhe configTasks bs =
     and_then (receive_header HASH_LEN E (Some ecdhe) bs) (\<lambda>(dg, r).
     and_then (NetTaskMetric_deserialize E S r ecdhe dg configTasks) (\<lambda>(x, r). Inr x))"

subsection \<open>Reader positions\<close>

text \<open>
  \<open>reader_at r rest\<close>: the cursor of \<open>r\<close> is inside its buffer and \<open>rest\<close> are the bytes
  from the cursor to the end.
\<close>

definition reader_at :: "BufferReader \<Rightarrow> bytes \<Rightarrow> bool" where
  "reader_at r rest = (cursor r \<le> length (buffer r) \<and> drop (cursor r) (buffer r) = rest)"


subsection \<open>The payload size on the wire\<close>

text \<open>
  \<open>payloadSize_exact HASH_LEN res\<close>: when \<open>serialize\<close> returned the bytes \<open>bs\<close> and the
  updated object, the bytes hold a whole public header (4 + \<open>HASH_LEN\<close> + 2 + 4 bytes),
  the u32 at offset 4 + \<open>HASH_LEN\<close> + 2 is the number of bytes behind the public header,
  and so is the field \<open>payloadSize\<close> of the object.
\<close>

definition payloadSize_exact :: "nat \<Rightarrow> error + (bytes \<times> 'a NetTask_scheme) \<Rightarrow> bool" where
  "payloadSize_exact HASH_LEN res =
     (case res of
        Inl e \<Rightarrow> True
      | Inr (bs, this) \<Rightarrow>
          4 + HASH_LEN + 2 + 4 \<le> length bs
          \<and> be_nat (take 4 (drop (4 + HASH_LEN + 2) bs)) = length bs - (4 + HASH_LEN + 2 + 4)
          \<and> payloadSize this = length bs - (4 + HASH_LEN + 2 + 4))"

subsection \<open>Stand-ins for the collaborators\<close>

text \<open>
  Collaborators for the examples. The record format is \<open>iv\<close> (1 byte), \<open>tag\<close> (1 byte),
  \<open>ciphertext\<close>; \<open>encrypt\<close> adds 1 to every byte and \<open>envelope\<close> adds 2, each under a tag of
  its own that the inverse checks. The SPACK stand-in keeps packed values as their bytes
  and needs a task descriptor for a metric.
\<close>

definition example_static :: ECDHE_static where
  "example_static =
     \<lparr>serializeEncryptedMessage = (\<lambda>m. Some (iv m @ tag m @ ciphertext m)),
      deserializeEncryptedMessage =
        (\<lambda>bs. case bs of
                 i # t # c \<Rightarrow> Some \<lparr>iv = [i], tag = [t], ciphertext = c\<rparr>
               | _ \<Rightarrow> None)\<rparr>"

definition example_ecdhe :: ECDHE where
  "example_ecdhe =
     \<lparr>encrypt = (\<lambda>p. Some \<lparr>iv = [1], tag = [2], ciphertext = map (\<lambda>b. b + 1) p\<rparr>),
      decrypt = (\<lambda>m. if tag m = [2] then Some (map (\<lambda>b. b - 1) (ciphertext m)) else None),
      envelope = (\<lambda>p. Some \<lparr>iv = [3], tag = [4], ciphertext = map (\<lambda>b. b + 2) p\<rparr>),
      openEnvelope = (\<lambda>m. if tag m = [4] then Some (map (\<lambda>b. b - 2) (ciphertext m)) else None)\<rparr>"

definition example_SPACK :: "(bytes, bytes, nat, bytes) SPACK" where
  "example_SPACK =
     \<lparr>serializeSPACK = (\<lambda>p. Some p),
      deserializeSPACK = (\<lambda>bs. Some bs),
      getUnpacked = (\<lambda>t. Some (length t)),
      packTaskSchemas = (\<lambda>kvs. Some (concat (map (\<lambda>(k, v). utf8_encode k) kvs))),
      unpackTaskSchemas = (\<lambda>p. Some [(utf8_decode p, p)]),
      serializeTaskMetric = (\<lambda>m task. case task of None \<Rightarrow> None | Some k \<Rightarrow> Some m),
      deserializeTaskMetric = (\<lambda>bs task. case task of None \<Rightarrow> None | Some k \<Rightarrow> Some bs)\<rparr>"

text \<open>
  The lookup of a task configuration whose only defined property is \<open>"cpu"\<close> (an object
  without prototype): \<open>configTasks[taskId]\<close> is undefined for every other \<open>taskId\<close>.
\<close>

definition example_config :: "jsstring \<Rightarrow> nat option" where
  "example_config taskId = (if taskId = [0x63, 0x70, 0x75] then Some 0 else None)"

section \<open>Properties\<close>

subsection \<open>Sequencing, integers and the buffer codec\<close>

lemma and_then_Inr [simp]: "and_then (Inr x) f = f x"
  by (simp add: and_then_def)

lemma and_then_Inl [simp]: "and_then (Inl e) f = Inl e"
  by (simp add: and_then_def)

lemma and_then_eq_Inr: "(and_then m f = Inr y) = (\<exists>x. m = Inr x \<and> f x = Inr y)"
  by (cases m) simp_all

lemma and_then_eq_Inl: "(and_then m f = Inl e) = (m = Inl e \<or> (\<exists>x. m = Inr x \<and> f x = Inl e))"
  by (cases m) simp_all

lemma uncaught_simps [simp]:
  "uncaught None = Inl CollaboratorFailure" "uncaught (Some x) = Inr x"
  by (simp_all add: uncaught_def)

lemma uncaught_eq_Inr [simp]: "(uncaught r = Inr x) = (r = Some x)"
  by (cases r) simp_all

lemma try_catch_simps [simp]:
  "try_catch (Inl e) h = Inl h" "try_catch (Inr x) h = Inr x"
  by (simp_all add: try_catch_def)

lemma try_catch_eq_Inr [simp]: "(try_catch m h = Inr x) = (m = Inr x)"
  by (cases m) simp_all

lemma be_nat_snoc: "be_nat (bs @ [b]) = be_nat bs * 256 + unat b"
  by (simp add: be_nat_def)

lemma length_uint_be [simp]: "length (uint_be k n) = k"
  by (induction k arbitrary: n) simp_all

lemma be_nat_uint_be: "be_nat (uint_be k n) = n mod 256 ^ k"
proof (induction k arbitrary: n)
  case 0
  show ?case by (simp add: be_nat_def)
next
  case (Suc k)
  have "be_nat (uint_be (Suc k) n) = (n div 256) mod 256 ^ k * 256 + n mod 256"
    by (simp add: be_nat_snoc Suc unat_of_nat)
  also have "\<dots> = n mod 256 ^ Suc k"
    by (simp add: mod_mult2_eq)
  finally show ?case .
qed

lemma length_u32be [simp]: "length (u32be n) = 4"
  by (simp add: u32be_def)

lemma be_nat_u32be [simp]: "n < 2 ^ 32 \<Longrightarrow> be_nat (u32be n) = n"
  by (simp add: u32be_def be_nat_uint_be)

lemma reader_at_new [simp]: "reader_at (BufferReader_new bs) bs"
  by (simp add: reader_at_def BufferReader_new_def)

lemma read_ok:
  assumes "reader_at r (xs @ rest)" and "length xs = n"
  shows "\<exists>r'. BufferReader_read n r = Inr (xs, r') \<and> reader_at r' rest"
proof -
  from assms have c: "cursor r \<le> length (buffer r)" and d: "drop (cursor r) (buffer r) = xs @ rest"
    by (simp_all add: reader_at_def)
  from d have "length (buffer r) - cursor r = n + length rest"
    using assms(2) by (metis length_append length_drop)
  with c have le: "cursor r + n \<le> length (buffer r)" by simp
  have t: "take n (drop (cursor r) (buffer r)) = xs"
    using d assms(2) by simp
  have "drop (cursor r + n) (buffer r) = drop n (drop (cursor r) (buffer r))"
    by (simp add: add.commute)
  then have r: "drop (cursor r + n) (buffer r) = rest"
    using d assms(2) by simp
  show ?thesis
    using le t r by (simp add: BufferReader_read_def reader_at_def)
qed

lemma read_short:
  assumes "reader_at r xs" and "length xs < n"
  shows "BufferReader_read n r = Inl TruncatedFrame"
  using assms by (auto simp: BufferReader_read_def reader_at_def)

lemma readUInt32_ok:
  assumes "reader_at r (u32be n @ rest)" and "n < 2 ^ 32"
  shows "\<exists>r'. BufferReader_readUInt32 r = Inr (n, r') \<and> reader_at r' rest"
proof -
  from read_ok [OF assms(1)] obtain r' where
    "BufferReader_read 4 r = Inr (u32be n, r')" "reader_at r' rest" by auto
  then show ?thesis using assms(2) by (simp add: BufferReader_readUInt32_def)
qed

lemma readInt8_ok:
  assumes "reader_at r (b # rest)"
  shows "\<exists>r'. BufferReader_readInt8 r = Inr (sint b, r') \<and> reader_at r' rest"
proof -
  from assms have "reader_at r ([b] @ rest)" by simp
  from read_ok [OF this] obtain r' where
    "BufferReader_read 1 r = Inr ([b], r')" "reader_at r' rest" by auto
  then show ?thesis by (simp add: BufferReader_readInt8_def)
qed

lemma writeUInt32_eq_Inr:
  "(BufferWriter_writeUInt32 w n = Inr w') = (n < 2 ^ 32 \<and> w' = w @ u32be n)"
  by (auto simp: BufferWriter_writeUInt32_def)

lemma Buffer_writeUInt32BE_eq_Inr:
  "(Buffer_writeUInt32BE n = Inr b) = (n < 2 ^ 32 \<and> b = u32be n)"
  by (auto simp: Buffer_writeUInt32BE_def)

lemma writeUInt8_flag [simp]:
  "BufferWriter_writeUInt8 w (if f then 1 else 0) = Inr (w @ [if f then 1 else 0])"
  by (simp add: BufferWriter_writeUInt8_def)

lemma serializePrivateHeader_eq_Inr:
  "(NetTask_serializePrivateHeader this = Inr ph) =
     (version this < 2 ^ 32 \<and> sequenceNumber this < 2 ^ 32
      \<and> acknowledgementNumber this < 2 ^ 32 \<and> type this < 2 ^ 32
      \<and> ph = u32be (version this) @ u32be (sequenceNumber this)
             @ u32be (acknowledgementNumber this) @ [if fragmented this then 1 else 0]
             @ u32be (type this))"
  by (auto simp: NetTask_serializePrivateHeader_def and_then_eq_Inr writeUInt32_eq_Inr
      BufferWriter_new_def BufferWriter_finish_def)

lemma serializePrivateHeader_length:
  "NetTask_serializePrivateHeader this = Inr ph \<Longrightarrow> length ph = 17"
  by (auto simp: serializePrivateHeader_eq_Inr)

lemma serializePrivateHeader_payloadSize [simp]:
  "NetTask_serializePrivateHeader (this\<lparr>payloadSize := p\<rparr>) = NetTask_serializePrivateHeader this"
  by (simp add: NetTask_serializePrivateHeader_def)

lemma serializePublicHeader_eq_Inr:
  "(NetTask_serializePublicHeader this = Inr h) =
     (payloadSize this < 2 ^ 32
      \<and> h = NET_TASK_SIGNATURE @ sessionId this @ cryptoMark this @ u32be (payloadSize this))"
  by (auto simp: NetTask_serializePublicHeader_def and_then_eq_Inr writeUInt32_eq_Inr
      BufferWriter_new_def BufferWriter_finish_def BufferWriter_write_def Let_def)

lemma readUInt32_eq_Inr:
  "(BufferReader_readUInt32 r = Inr (n, r')) =
     (\<exists>bs. BufferReader_read 4 r = Inr (bs, r') \<and> n = be_nat bs)"
  by (auto simp: BufferReader_readUInt32_def and_then_eq_Inr)

subsection \<open>Header parsing\<close>

text \<open>
  Claim C6. \<open>deserializePrivateHeader(reader, publicHeader)\<close> fails with \<open>InvalidVersion\<close>
  exactly when the u32 version it reads differs from 1: the error is returned if and only
  if the first \<open>readUInt32\<close> returns a value other than 1. When the reader stands before a
  private header with version 1 (17 bytes: version, sequence number, acknowledgement
  number, fragmented byte, type), it returns the base datagram that carries the public
  header's \<open>sessionId\<close>, \<open>cryptoMark\<close> and \<open>payloadSize\<close> together with the parsed sequence
  number, acknowledgement number, fragmented flag (byte other than 0) and type, and the
  reader stands behind the header.
\<close>

theorem C6_deserializePrivateHeader:
  "((NetTask_deserializePrivateHeader reader ph = Inl InvalidVersion)
      = (\<exists>v r. BufferReader_readUInt32 reader = Inr (v, r) \<and> v \<noteq> 1))
   \<and> (reader_at reader (u32be 1 @ u32be seqNo @ u32be ackNo @ [f] @ u32be ty @ rest)
        \<and> seqNo < 2 ^ 32 \<and> ackNo < 2 ^ 32 \<and> ty < 2 ^ 32
      \<longrightarrow> (\<exists>r'. NetTask_deserializePrivateHeader reader ph =
                 Inr (\<lparr>sessionId = ph_sessionId ph, cryptoMark = ph_cryptoMark ph,
                       version = 1, sequenceNumber = seqNo, fragmented = (f \<noteq> 0),
                       acknowledgementNumber = ackNo, type = ty,
                       payloadSize = ph_payloadSize ph\<rparr>, r')
               \<and> reader_at r' rest))"
proof (intro conjI impI)
  have no_trunc: "BufferReader_read n r \<noteq> Inl InvalidVersion" for n r
    by (simp add: BufferReader_read_def)
  have u32: "BufferReader_readUInt32 r \<noteq> Inl InvalidVersion" for r
    by (auto simp: BufferReader_readUInt32_def and_then_eq_Inl no_trunc)
  have i8: "BufferReader_readInt8 r \<noteq> Inl InvalidVersion" for r
    by (auto simp: BufferReader_readInt8_def and_then_eq_Inl no_trunc)
  show "(NetTask_deserializePrivateHeader reader ph = Inl InvalidVersion)
      = (\<exists>v r. BufferReader_readUInt32 reader = Inr (v, r) \<and> v \<noteq> 1)"
    by (auto simp: NetTask_deserializePrivateHeader_def and_then_eq_Inl u32 i8
        NET_TASK_VERSION_def split: if_splits)
next
  assume a: "reader_at reader (u32be 1 @ u32be seqNo @ u32be ackNo @ [f] @ u32be ty @ rest)
        \<and> seqNo < 2 ^ 32 \<and> ackNo < 2 ^ 32 \<and> ty < 2 ^ 32"
  then obtain r1 where r1: "BufferReader_readUInt32 reader = Inr (1, r1)"
      "reader_at r1 (u32be seqNo @ u32be ackNo @ [f] @ u32be ty @ rest)"
    using readUInt32_ok [of reader 1] by auto
  from a r1(2) obtain r2 where r2: "BufferReader_readUInt32 r1 = Inr (seqNo, r2)"
      "reader_at r2 (u32be ackNo @ [f] @ u32be ty @ rest)"
    using readUInt32_ok [of r1 seqNo] by blast
  from a r2(2) obtain r3 where r3: "BufferReader_readUInt32 r2 = Inr (ackNo, r3)"
      "reader_at r3 ([f] @ u32be ty @ rest)"
    using readUInt32_ok [of r2 ackNo] by blast
  from r3(2) obtain r4 where r4: "BufferReader_readInt8 r3 = Inr (sint f, r4)"
      "reader_at r4 (u32be ty @ rest)"
    using readInt8_ok [of r3 f] by auto
  from a r4(2) obtain r5 where r5: "BufferReader_readUInt32 r4 = Inr (ty, r5)"
      "reader_at r5 rest"
    using readUInt32_ok [of r4 ty] by blast
  show "\<exists>r'. NetTask_deserializePrivateHeader reader ph =
                 Inr (\<lparr>sessionId = ph_sessionId ph, cryptoMark = ph_cryptoMark ph,
                       version = 1, sequenceNumber = seqNo, fragmented = (f \<noteq> 0),
                       acknowledgementNumber = ackNo, type = ty,
                       payloadSize = ph_payloadSize ph\<rparr>, r')
               \<and> reader_at r' rest"
    using r1(1) r2(1) r3(1) r4(1) r5
    by (simp add: NetTask_deserializePrivateHeader_def NET_TASK_VERSION_def NetTask_new_def signed_eq_0_iff)
qed

text \<open>
  The private header of a datagram with sequence number 7, acknowledgement number 9,
  fragmented, of type \<open>PUSH_SCHEMAS\<close>.
\<close>

theorem C6_deserializePrivateHeader_witness:
  "reader_at (BufferReader_new (u32be 1 @ u32be 7 @ u32be 9 @ [1] @ u32be 4 @ []))
      (u32be 1 @ u32be 7 @ u32be 9 @ [1] @ u32be 4 @ [])
   \<and> (\<exists>r'. NetTask_deserializePrivateHeader
             (BufferReader_new (u32be 1 @ u32be 7 @ u32be 9 @ [1] @ u32be 4 @ []))
             \<lparr>ph_cryptoMark = NET_TASK_NOCRYPTO, ph_sessionId = replicate 32 0, ph_payloadSize = 17\<rparr>
           = Inr (\<lparr>sessionId = replicate 32 0, cryptoMark = NET_TASK_NOCRYPTO,
                  version = 1, sequenceNumber = 7, fragmented = True,
                  acknowledgementNumber = 9, type = 4, payloadSize = 17\<rparr>, r')
         \<and> reader_at r' [])"
  using C6_deserializePrivateHeader
    [of "BufferReader_new (u32be 1 @ u32be 7 @ u32be 9 @ [1] @ u32be 4 @ [])"
        "\<lparr>ph_cryptoMark = NET_TASK_NOCRYPTO, ph_sessionId = replicate 32 0, ph_payloadSize = 17\<rparr>"
        7 9 1 4 "[]"]
  by simp

text \<open>
  Claim C7. \<open>deserializePublicHeader(reader)\<close> returns the record \<open>{sessionId, cryptoMark,
  payloadSize}\<close> whenever the 2-byte mark read after the \<open>HASH_LEN\<close>-byte \<open>sessionId\<close> is
  \<open>"CC"\<close> or \<open>"NC"\<close> (and the four bytes of \<open>payloadSize\<close> follow), and fails with
  \<open>InvalidCryptoMark\<close> for every other 2-byte value; \<open>InvalidCryptoMark\<close> is returned in
  no other case.
\<close>

theorem C7_deserializePublicHeader:
  "((NetTask_deserializePublicHeader HASH_LEN reader = Inl InvalidCryptoMark)
      = (\<exists>sid r1 mark r2. BufferReader_read HASH_LEN reader = Inr (sid, r1)
            \<and> BufferReader_read 2 r1 = Inr (mark, r2)
            \<and> mark \<noteq> [0x43, 0x43] \<and> mark \<noteq> [0x4E, 0x43]))
   \<and> (reader_at reader (sid @ mark @ u32be psize @ rest) \<and> length sid = HASH_LEN
        \<and> (mark = [0x43, 0x43] \<or> mark = [0x4E, 0x43]) \<and> psize < 2 ^ 32
      \<longrightarrow> (\<exists>r'. NetTask_deserializePublicHeader HASH_LEN reader =
                 Inr (\<lparr>ph_cryptoMark = mark, ph_sessionId = sid, ph_payloadSize = psize\<rparr>, r')
               \<and> reader_at r' rest))
   \<and> (reader_at reader (sid @ mark @ rest) \<and> length sid = HASH_LEN \<and> length mark = 2
        \<and> mark \<noteq> [0x43, 0x43] \<and> mark \<noteq> [0x4E, 0x43]
      \<longrightarrow> NetTask_deserializePublicHeader HASH_LEN reader = Inl InvalidCryptoMark)"
proof -
  have l2: "length NET_TASK_CRYPTO = 2"
    by (simp add: NET_TASK_CRYPTO_def)
  show ?thesis
  proof (intro conjI impI)
  have rd: "BufferReader_read n r \<noteq> Inl InvalidCryptoMark" for n r
    by (simp add: BufferReader_read_def)
  have u32: "BufferReader_readUInt32 r \<noteq> Inl InvalidCryptoMark" for r
    by (auto simp: BufferReader_readUInt32_def and_then_eq_Inl rd)
  show "(NetTask_deserializePublicHeader HASH_LEN reader = Inl InvalidCryptoMark)
      = (\<exists>sid r1 mark r2. BufferReader_read HASH_LEN reader = Inr (sid, r1)
            \<and> BufferReader_read 2 r1 = Inr (mark, r2)
            \<and> mark \<noteq> [0x43, 0x43] \<and> mark \<noteq> [0x4E, 0x43])"
    unfolding NetTask_deserializePublicHeader_def l2
    by (auto simp: and_then_eq_Inl rd u32 NET_TASK_CRYPTO_def NET_TASK_NOCRYPTO_def
        split: if_splits)
next
  assume a: "reader_at reader (sid @ mark @ u32be psize @ rest) \<and> length sid = HASH_LEN
        \<and> (mark = [0x43, 0x43] \<or> mark = [0x4E, 0x43]) \<and> psize < 2 ^ 32"
  then have lm: "length mark = 2" by auto
  from a obtain r1 where r1: "BufferReader_read HASH_LEN reader = Inr (sid, r1)"
      "reader_at r1 (mark @ u32be psize @ rest)"
    using read_ok [of reader sid _ HASH_LEN] by blast
  from r1(2) lm obtain r2 where r2: "BufferReader_read 2 r1 = Inr (mark, r2)"
      "reader_at r2 (u32be psize @ rest)"
    using read_ok [of r1 mark _ 2] by blast
  from a r2(2) obtain r3 where r3: "BufferReader_readUInt32 r2 = Inr (psize, r3)"
      "reader_at r3 rest"
    using readUInt32_ok [of r2 psize] by blast
  show "\<exists>r'. NetTask_deserializePublicHeader HASH_LEN reader =
                 Inr (\<lparr>ph_cryptoMark = mark, ph_sessionId = sid, ph_payloadSize = psize\<rparr>, r')
               \<and> reader_at r' rest"
    using a r1(1) r2(1) r3 unfolding NetTask_deserializePublicHeader_def l2
    by (auto simp: NET_TASK_CRYPTO_def NET_TASK_NOCRYPTO_def)
next
  assume a: "reader_at reader (sid @ mark @ rest) \<and> length sid = HASH_LEN \<and> length mark = 2
        \<and> mark \<noteq> [0x43, 0x43] \<and> mark \<noteq> [0x4E, 0x43]"
  from a obtain r1 where r1: "BufferReader_read HASH_LEN reader = Inr (sid, r1)"
      "reader_at r1 (mark @ rest)"
    using read_ok [of reader sid _ HASH_LEN] by blast
  from r1(2) a obtain r2 where r2: "BufferReader_read 2 r1 = Inr (mark, r2)"
    using read_ok [of r1 mark _ 2] by blast
  show "NetTask_deserializePublicHeader HASH_LEN reader = Inl InvalidCryptoMark"
    using a r1(1) r2 unfolding NetTask_deserializePublicHeader_def l2
    by (auto simp: NET_TASK_CRYPTO_def NET_TASK_NOCRYPTO_def)
  qed
qed

text \<open>
  A public header with a zero session id of 32 bytes, mark \<open>"CC"\<close> and payload size 17, and
  a header with the mark \<open>"XX"\<close>.
\<close>

theorem C7_deserializePublicHeader_witness:
  "(reader_at (BufferReader_new (replicate 32 0 @ [0x43, 0x43] @ u32be 17 @ []))
       (replicate 32 0 @ [0x43, 0x43] @ u32be 17 @ [])
    \<and> (\<exists>r'. NetTask_deserializePublicHeader 32
              (BufferReader_new (replicate 32 0 @ [0x43, 0x43] @ u32be 17 @ []))
            = Inr (\<lparr>ph_cryptoMark = [0x43, 0x43], ph_sessionId = replicate 32 0,
                   ph_payloadSize = 17\<rparr>, r')
          \<and> reader_at r' []))
   \<and> (reader_at (BufferReader_new (replicate 32 0 @ [0x58, 0x58] @ []))
       (replicate 32 0 @ [0x58, 0x58] @ [])
    \<and> NetTask_deserializePublicHeader 32 (BufferReader_new (replicate 32 0 @ [0x58, 0x58] @ []))
        = Inl InvalidCryptoMark)"
  using C7_deserializePublicHeader
    [of 32 "BufferReader_new (replicate 32 0 @ [0x43, 0x43] @ u32be 17 @ [])"
        "replicate 32 0" "[0x43, 0x43]" 17 "[]"]
    C7_deserializePublicHeader
    [of 32 "BufferReader_new (replicate 32 0 @ [0x58, 0x58] @ [])"
        "replicate 32 0" "[0x58, 0x58]" _ "[]"]
  by simp

subsection \<open>Constructors\<close>

lemmas variant_new_defs =
  NetTaskRejected_new_def NetTaskRegister_new_def NetTaskRegisterChallenge_new_def
  NetTaskRegisterChallenge2_new_def NetTaskPushSchemas_new_def NetTaskMetric_new_def
  NetTask_new_def NetTask.defs NetTaskRegister.defs NetTaskRegisterChallenge.defs
  NetTaskRegisterChallenge2.defs NetTaskPushSchemas.defs NetTaskMetric.defs

lemmas constant_defs =
  NET_TASK_VERSION_def NET_TASK_SIGNATURE_def NET_TASK_CRYPTO_def NET_TASK_NOCRYPTO_def
  REQUEST_REGISTER_def REGISTER_CHALLENGE_def REGISTER_CHALLENGE2_def
  CONNECTION_REJECTED_def PUSH_SCHEMAS_def SEND_METRICS_def

text \<open>
  Claim C4. For every datagram built by a variant constructor, \<open>cryptoMark\<close> equals
  \<open>"CC"\<close> if and only if the type is \<open>PUSH_SCHEMAS\<close> or \<open>SEND_METRICS\<close>; the four handshake
  variants (\<open>REQUEST_REGISTER\<close>, \<open>REGISTER_CHALLENGE\<close>, \<open>REGISTER_CHALLENGE2\<close>,
  \<open>CONNECTION_REJECTED\<close>) carry \<open>"NC"\<close>.
\<close>

theorem C4_cryptoMark_discipline:
  "((cryptoMark (NetTaskRejected_new sid1 seq1 ack1) = [0x43, 0x43])
      = (type (NetTaskRejected_new sid1 seq1 ack1) \<in> {PUSH_SCHEMAS, SEND_METRICS}))
   \<and> ((cryptoMark (NetTaskRegister_new sid2 seq2 ack2 frag2 pk2) = [0x43, 0x43])
      = (type (NetTaskRegister_new sid2 seq2 ack2 frag2 pk2) \<in> {PUSH_SCHEMAS, SEND_METRICS}))
   \<and> ((cryptoMark (NetTaskRegisterChallenge_new sid3 seq3 ack3 frag3 pk3 ch3 salt3) = [0x43, 0x43])
      = (type (NetTaskRegisterChallenge_new sid3 seq3 ack3 frag3 pk3 ch3 salt3)
           \<in> {PUSH_SCHEMAS, SEND_METRICS}))
   \<and> ((cryptoMark (NetTaskRegisterChallenge2_new sid4 seq4 ack4 frag4 ch4) = [0x43, 0x43])
      = (type (NetTaskRegisterChallenge2_new sid4 seq4 ack4 frag4 ch4) \<in> {PUSH_SCHEMAS, SEND_METRICS}))
   \<and> ((cryptoMark (NetTaskPushSchemas_new sid5 seq5 ack5 frag5 spack5) = [0x43, 0x43])
      = (type (NetTaskPushSchemas_new sid5 seq5 ack5 frag5 spack5) \<in> {PUSH_SCHEMAS, SEND_METRICS}))
   \<and> ((cryptoMark (NetTaskMetric_new sid6 seq6 ack6 frag6 spack6 taskId6 task6) = [0x43, 0x43])
      = (type (NetTaskMetric_new sid6 seq6 ack6 frag6 spack6 taskId6 task6)
           \<in> {PUSH_SCHEMAS, SEND_METRICS}))
   \<and> type (NetTaskRejected_new sid1 seq1 ack1) = CONNECTION_REJECTED
   \<and> cryptoMark (NetTaskRejected_new sid1 seq1 ack1) = [0x4E, 0x43]
   \<and> type (NetTaskRegister_new sid2 seq2 ack2 frag2 pk2) = REQUEST_REGISTER
   \<and> cryptoMark (NetTaskRegister_new sid2 seq2 ack2 frag2 pk2) = [0x4E, 0x43]
   \<and> type (NetTaskRegisterChallenge_new sid3 seq3 ack3 frag3 pk3 ch3 salt3) = REGISTER_CHALLENGE
   \<and> cryptoMark (NetTaskRegisterChallenge_new sid3 seq3 ack3 frag3 pk3 ch3 salt3) = [0x4E, 0x43]
   \<and> type (NetTaskRegisterChallenge2_new sid4 seq4 ack4 frag4 ch4) = REGISTER_CHALLENGE2
   \<and> cryptoMark (NetTaskRegisterChallenge2_new sid4 seq4 ack4 frag4 ch4) = [0x4E, 0x43]
   \<and> type (NetTaskPushSchemas_new sid5 seq5 ack5 frag5 spack5) = PUSH_SCHEMAS
   \<and> type (NetTaskMetric_new sid6 seq6 ack6 frag6 spack6 taskId6 task6) = SEND_METRICS"
  by (simp add: variant_new_defs constant_defs)

text \<open>
  Claim C8. For the encrypted variants (\<open>NetTaskPushSchemas\<close>, \<open>NetTaskMetric\<close>) on which
  \<open>link(ecdhe)\<close> has never been called, \<open>serialize()\<close> raises \<open>NotLinked\<close>. The result is
  the error alone, for every ECDHE and SPACK implementation: no collaborator is consulted,
  nothing is encrypted and no bytes are produced.
\<close>

theorem C8_serialize_not_linked:
  "NetTaskPushSchemas_serialize E S (NetTaskPushSchemas_new sid seqNo ackNo frag spack)
     = Inl NotLinked
   \<and> NetTaskMetric_serialize E' S' (NetTaskMetric_new sid' seqNo' ackNo' frag' metrics taskId task)
     = Inl NotLinked"
  by (simp add: NetTaskPushSchemas_serialize_def NetTaskMetric_serialize_def variant_new_defs)

subsection \<open>Serialization\<close>

lemma Rejected_serialize_eq_Inr:
  "(NetTaskRejected_serialize this = Inr (bs, this')) =
     (\<exists>priv. NetTask_serializePrivateHeader this = Inr priv
        \<and> this' = this\<lparr>payloadSize := 17\<rparr>
        \<and> bs = NET_TASK_SIGNATURE @ sessionId this @ cryptoMark this @ u32be 17 @ priv)"
  by (auto simp: NetTaskRejected_serialize_def and_then_eq_Inr Let_def
      serializePublicHeader_eq_Inr BufferWriter_new_def BufferWriter_write_def
      BufferWriter_finish_def serializePrivateHeader_length)

lemma Register_serialize_eq_Inr:
  "(NetTaskRegister_serialize this = Inr (bs, this')) =
     (\<exists>priv. NetTask_serializePrivateHeader this = Inr priv
        \<and> 17 + 4 + length (Register_publicKey this) < 2 ^ 32
        \<and> this' = this\<lparr>payloadSize := 17 + 4 + length (Register_publicKey this)\<rparr>
        \<and> bs = NET_TASK_SIGNATURE @ sessionId this @ cryptoMark this
               @ u32be (17 + 4 + length (Register_publicKey this)) @ priv
               @ u32be (length (Register_publicKey this)) @ Register_publicKey this)"
  by (auto simp: NetTaskRegister_serialize_def and_then_eq_Inr Let_def
      serializePublicHeader_eq_Inr writeUInt32_eq_Inr BufferWriter_new_def BufferWriter_write_def
      BufferWriter_finish_def serializePrivateHeader_length)

lemma RegisterChallenge_serialize_eq_Inr:
  "(NetTaskRegisterChallenge_serialize this = Inr (bs, this')) =
     (\<exists>priv. NetTask_serializePrivateHeader this = Inr priv
        \<and> 17 + length (RegisterChallenge_publicKey this)
             + length (RegisterChallenge_challenge this)
             + length (RegisterChallenge_salt this) + 12 < 2 ^ 32
        \<and> this' = this\<lparr>payloadSize := 17 + length (RegisterChallenge_publicKey this)
             + length (RegisterChallenge_challenge this)
             + length (RegisterChallenge_salt this) + 12\<rparr>
        \<and> bs = NET_TASK_SIGNATURE @ sessionId this @ cryptoMark this
               @ u32be (17 + length (RegisterChallenge_publicKey this)
                         + length (RegisterChallenge_challenge this)
                         + length (RegisterChallenge_salt this) + 12) @ priv
               @ u32be (length (RegisterChallenge_publicKey this)) @ RegisterChallenge_publicKey this
               @ u32be (length (RegisterChallenge_challenge this)) @ RegisterChallenge_challenge this
               @ u32be (length (RegisterChallenge_salt this)) @ RegisterChallenge_salt this)"
  by (auto simp: NetTaskRegisterChallenge_serialize_def and_then_eq_Inr Let_def
      serializePublicHeader_eq_Inr writeUInt32_eq_Inr BufferWriter_new_def BufferWriter_write_def
      BufferWriter_finish_def serializePrivateHeader_length)

lemma RegisterChallenge2_serialize_eq_Inr:
  "(NetTaskRegisterChallenge2_serialize this = Inr (bs, this')) =
     (\<exists>ecdhe priv. RegisterChallenge2_ecdhe this = Some ecdhe
        \<and> NetTask_serializePrivateHeader this = Inr priv
        \<and> 17 + length (RegisterChallenge2_challenge this) + 4 < 2 ^ 32
        \<and> this' = this\<lparr>payloadSize := 17 + length (RegisterChallenge2_challenge this) + 4\<rparr>
        \<and> bs = NET_TASK_SIGNATURE @ sessionId this @ cryptoMark this
               @ u32be (17 + length (RegisterChallenge2_challenge this) + 4) @ priv
               @ u32be (length (RegisterChallenge2_challenge this))
               @ RegisterChallenge2_challenge this)"
  by (auto simp: NetTaskRegisterChallenge2_serialize_def and_then_eq_Inr Let_def
      serializePublicHeader_eq_Inr writeUInt32_eq_Inr BufferWriter_new_def BufferWriter_write_def
      BufferWriter_finish_def serializePrivateHeader_length split: option.splits)

lemma encrypted_serialize_eq_Inr:
  "(encrypted_serialize E ecdhe packCompound this = Inr (bs, this')) =
     (\<exists>enc innerEnc priv msg outerEnc.
        encrypt ecdhe packCompound = Some enc
        \<and> serializeEncryptedMessage E enc = Some innerEnc
        \<and> NetTask_serializePrivateHeader this = Inr priv
        \<and> length innerEnc < 2 ^ 32
        \<and> envelope ecdhe (priv @ u32be (length innerEnc) @ innerEnc) = Some msg
        \<and> serializeEncryptedMessage E msg = Some outerEnc
        \<and> length outerEnc < 2 ^ 32
        \<and> this' = this\<lparr>payloadSize := length outerEnc\<rparr>
        \<and> bs = NET_TASK_SIGNATURE @ sessionId this @ cryptoMark this
               @ u32be (length outerEnc) @ outerEnc)"
  by (auto simp: encrypted_serialize_def and_then_eq_Inr Let_def
      serializePublicHeader_eq_Inr writeUInt32_eq_Inr BufferWriter_new_def BufferWriter_write_def
      BufferWriter_finish_def)

lemma payloadSize_exactI:
  assumes "length sid = HASH_LEN" and "length mark = 2" and "p < 2 ^ 32"
    and "bs = NET_TASK_SIGNATURE @ sid @ mark @ u32be p @ rest" and "length rest = p"
    and "payloadSize this = p"
  shows "payloadSize_exact HASH_LEN (Inr (bs, this))"
proof -
  define pre where "pre = NET_TASK_SIGNATURE @ sid @ mark"
  have lp: "length pre = 4 + HASH_LEN + 2"
    using assms(1,2) by (simp add: pre_def NET_TASK_SIGNATURE_def)
  have bs: "bs = pre @ u32be p @ rest"
    using assms(4) by (simp add: pre_def)
  have "drop (4 + HASH_LEN + 2) bs = u32be p @ rest"
    unfolding bs lp [symmetric] by simp
  then have "take 4 (drop (4 + HASH_LEN + 2) bs) = u32be p"
    by simp
  moreover have "length bs = 4 + HASH_LEN + 2 + 4 + p"
    using lp assms(5) by (simp add: bs)
  ultimately show ?thesis
    using assms(3,6) by (simp add: payloadSize_exact_def)
qed

lemma new_fields [simp]:
  "sessionId (NetTaskRejected_new sid seqNo ackNo) = sid"
  "cryptoMark (NetTaskRejected_new sid seqNo ackNo) = NET_TASK_NOCRYPTO"
  "sessionId (NetTaskRegister_new sid seqNo ackNo frag pk) = sid"
  "cryptoMark (NetTaskRegister_new sid seqNo ackNo frag pk) = NET_TASK_NOCRYPTO"
  "sessionId (NetTaskRegisterChallenge_new sid seqNo ackNo frag pk ch slt) = sid"
  "cryptoMark (NetTaskRegisterChallenge_new sid seqNo ackNo frag pk ch slt) = NET_TASK_NOCRYPTO"
  "sessionId (NetTaskRegisterChallenge2_new sid seqNo ackNo frag ch) = sid"
  "cryptoMark (NetTaskRegisterChallenge2_new sid seqNo ackNo frag ch) = NET_TASK_NOCRYPTO"
  "sessionId (NetTaskPushSchemas_new sid seqNo ackNo frag spack) = sid"
  "cryptoMark (NetTaskPushSchemas_new sid seqNo ackNo frag spack) = NET_TASK_CRYPTO"
  "sessionId (NetTaskMetric_new sid seqNo ackNo frag metrics taskId task) = sid"
  "cryptoMark (NetTaskMetric_new sid seqNo ackNo frag metrics taskId task) = NET_TASK_CRYPTO"
  by (simp_all add: variant_new_defs)

lemma link_fields [simp]:
  "sessionId (NetTaskRegisterChallenge2_link x2 ecdhe) = sessionId x2"
  "cryptoMark (NetTaskRegisterChallenge2_link x2 ecdhe) = cryptoMark x2"
  "sessionId (NetTaskPushSchemas_link x5 ecdhe) = sessionId x5"
  "cryptoMark (NetTaskPushSchemas_link x5 ecdhe) = cryptoMark x5"
  "sessionId (NetTaskMetric_link x6 ecdhe) = sessionId x6"
  "cryptoMark (NetTaskMetric_link x6 ecdhe) = cryptoMark x6"
  by (simp_all add: NetTaskRegisterChallenge2_link_def NetTaskPushSchemas_link_def
      NetTaskMetric_link_def)

lemma length_marks [simp]: "length NET_TASK_CRYPTO = 2" "length NET_TASK_NOCRYPTO = 2"
  by (simp_all add: NET_TASK_CRYPTO_def NET_TASK_NOCRYPTO_def)

lemma payloadSize_exact_Inl [simp]: "payloadSize_exact HASH_LEN (Inl e)"
  by (simp add: payloadSize_exact_def)

lemma Rejected_exact:
  assumes "length (sessionId this) = HASH_LEN" and "length (cryptoMark this) = 2"
  shows "payloadSize_exact HASH_LEN (NetTaskRejected_serialize this)"
proof (cases "NetTaskRejected_serialize this")
  case (Inl e)
  then show ?thesis by simp
next
  case (Inr res)
  obtain bs this' where res: "res = (bs, this')" by (cases res)
  from Inr [unfolded res Rejected_serialize_eq_Inr] obtain priv where
    p: "NetTask_serializePrivateHeader this = Inr priv" "this' = this\<lparr>payloadSize := 17\<rparr>"
      "bs = NET_TASK_SIGNATURE @ sessionId this @ cryptoMark this @ u32be 17 @ priv"
    by blast
  show ?thesis
    unfolding Inr res
    by (rule payloadSize_exactI [OF assms _ p(3)])
      (simp_all add: p(2) serializePrivateHeader_length [OF p(1)])
qed

lemma Register_exact:
  assumes "length (sessionId this) = HASH_LEN" and "length (cryptoMark this) = 2"
  shows "payloadSize_exact HASH_LEN (NetTaskRegister_serialize this)"
proof (cases "NetTaskRegister_serialize this")
  case (Inl e)
  then show ?thesis by simp
next
  case (Inr res)
  obtain bs this' where res: "res = (bs, this')" by (cases res)
  from Inr [unfolded res Register_serialize_eq_Inr] obtain priv where
    p: "NetTask_serializePrivateHeader this = Inr priv"
      "17 + 4 + length (Register_publicKey this) < 2 ^ 32"
      "this' = this\<lparr>payloadSize := 17 + 4 + length (Register_publicKey this)\<rparr>"
      "bs = NET_TASK_SIGNATURE @ sessionId this @ cryptoMark this
               @ u32be (17 + 4 + length (Register_publicKey this)) @ priv
               @ u32be (length (Register_publicKey this)) @ Register_publicKey this"
    by blast
  show ?thesis
    unfolding Inr res
    by (rule payloadSize_exactI [OF assms p(2) p(4)])
      (simp_all add: p(3) serializePrivateHeader_length [OF p(1)])
qed

lemma RegisterChallenge_exact:
  assumes "length (sessionId this) = HASH_LEN" and "length (cryptoMark this) = 2"
  shows "payloadSize_exact HASH_LEN (NetTaskRegisterChallenge_serialize this)"
proof (cases "NetTaskRegisterChallenge_serialize this")
  case (Inl e)
  then show ?thesis by simp
next
  case (Inr res)
  obtain bs this' where res: "res = (bs, this')" by (cases res)
  from Inr [unfolded res RegisterChallenge_serialize_eq_Inr] obtain priv where
    p: "NetTask_serializePrivateHeader this = Inr priv"
      "17 + length (RegisterChallenge_publicKey this)
             + length (RegisterChallenge_challenge this)
             + length (RegisterChallenge_salt this) + 12 < 2 ^ 32"
      "this' = this\<lparr>payloadSize := 17 + length (RegisterChallenge_publicKey this)
             + length (RegisterChallenge_challenge this)
             + length (RegisterChallenge_salt this) + 12\<rparr>"
      "bs = NET_TASK_SIGNATURE @ sessionId this @ cryptoMark this
               @ u32be (17 + length (RegisterChallenge_publicKey this)
                         + length (RegisterChallenge_challenge this)
                         + length (RegisterChallenge_salt this) + 12) @ priv
               @ u32be (length (RegisterChallenge_publicKey this)) @ RegisterChallenge_publicKey this
               @ u32be (length (RegisterChallenge_challenge this)) @ RegisterChallenge_challenge this
               @ u32be (length (RegisterChallenge_salt this)) @ RegisterChallenge_salt this"
    by blast
  show ?thesis
    unfolding Inr res
    by (rule payloadSize_exactI [OF assms p(2) p(4)])
      (simp_all add: p(3) serializePrivateHeader_length [OF p(1)])
qed

lemma RegisterChallenge2_exact:
  assumes "length (sessionId this) = HASH_LEN" and "length (cryptoMark this) = 2"
  shows "payloadSize_exact HASH_LEN (NetTaskRegisterChallenge2_serialize this)"
proof (cases "NetTaskRegisterChallenge2_serialize this")
  case (Inl e)
  then show ?thesis by simp
next
  case (Inr res)
  obtain bs this' where res: "res = (bs, this')" by (cases res)
  from Inr [unfolded res RegisterChallenge2_serialize_eq_Inr] obtain priv where
    p: "NetTask_serializePrivateHeader this = Inr priv"
      "17 + length (RegisterChallenge2_challenge this) + 4 < 2 ^ 32"
      "this' = this\<lparr>payloadSize := 17 + length (RegisterChallenge2_challenge this) + 4\<rparr>"
      "bs = NET_TASK_SIGNATURE @ sessionId this @ cryptoMark this
               @ u32be (17 + length (RegisterChallenge2_challenge this) + 4) @ priv
               @ u32be (length (RegisterChallenge2_challenge this))
               @ RegisterChallenge2_challenge this"
    by blast
  show ?thesis
    unfolding Inr res
    by (rule payloadSize_exactI [OF assms p(2) p(4)])
      (simp_all add: p(3) serializePrivateHeader_length [OF p(1)])
qed

lemma encrypted_exact:
  assumes "length (sessionId this) = HASH_LEN" and "length (cryptoMark this) = 2"
  shows "payloadSize_exact HASH_LEN (encrypted_serialize E ecdhe packCompound this)"
proof (cases "encrypted_serialize E ecdhe packCompound this")
  case (Inl e)
  then show ?thesis by simp
next
  case (Inr res)
  obtain bs this' where res: "res = (bs, this')" by (cases res)
  from Inr [unfolded res encrypted_serialize_eq_Inr] obtain outerEnc where
    p: "length outerEnc < 2 ^ 32" "this' = this\<lparr>payloadSize := length outerEnc\<rparr>"
      "bs = NET_TASK_SIGNATURE @ sessionId this @ cryptoMark this
               @ u32be (length outerEnc) @ outerEnc"
    by blast
  show ?thesis
    unfolding Inr res
    by (rule payloadSize_exactI [OF assms p(1) p(3)]) (simp_all add: p(2))
qed

lemma PushSchemas_exact:
  assumes "length (sessionId this) = HASH_LEN" and "length (cryptoMark this) = 2"
  shows "payloadSize_exact HASH_LEN (NetTaskPushSchemas_serialize E S this)"
proof (cases "PushSchemas_ecdhe this")
  case None
  then show ?thesis by (simp add: NetTaskPushSchemas_serialize_def)
next
  case (Some ecdhe)
  show ?thesis
  proof (cases "NetTaskPushSchemas_pack S (PushSchemas_spack this)")
    case (Inl e)
    then show ?thesis using Some by (simp add: NetTaskPushSchemas_serialize_def)
  next
    case (Inr pack)
    show ?thesis
      using Some Inr encrypted_exact [OF assms]
      by (simp add: NetTaskPushSchemas_serialize_def Buffer_writeUInt32BE_def)
  qed
qed

lemma Metric_exact:
  assumes "length (sessionId this) = HASH_LEN" and "length (cryptoMark this) = 2"
  shows "payloadSize_exact HASH_LEN (NetTaskMetric_serialize E S this)"
proof (cases "Metric_ecdhe this")
  case None
  then show ?thesis by (simp add: NetTaskMetric_serialize_def)
next
  case (Some ecdhe)
  show ?thesis
  proof (cases "serializeTaskMetric S (Metric_spack this) (Metric_task this)")
    case None
    then show ?thesis using Some by (simp add: NetTaskMetric_serialize_def)
  next
    case (Some pack)
    show ?thesis
    proof (cases "NetTaskMetric_packCompound (Metric_taskId this) pack")
      case (Inl e)
      then show ?thesis
        using Some \<open>Metric_ecdhe this = Some ecdhe\<close> by (simp add: NetTaskMetric_serialize_def)
    next
      case (Inr packCompound)
      then show ?thesis
        using Some \<open>Metric_ecdhe this = Some ecdhe\<close> encrypted_exact [OF assms]
        by (simp add: NetTaskMetric_serialize_def)
    qed
  qed
qed

text \<open>
  Claim C2. For every variant (Rejected, Register, RegisterChallenge, RegisterChallenge2,
  PushSchemas, Metric) built by its constructor with a session id of \<open>HASH_LEN\<close> bytes
  (and linked, where the variant has \<open>link\<close>): after \<open>serialize()\<close> returns, the u32
  \<open>payloadSize\<close> in the public header equals the byte length of everything behind the
  public header, that is the total length minus (4 + \<open>HASH_LEN\<close> + 2 + 4), and it is the
  value that \<open>serialize\<close> stored in \<open>this.payloadSize\<close> before it wrote the header.
\<close>

theorem C2_payloadSize_exact:
  assumes "length sid = HASH_LEN"
  shows "payloadSize_exact HASH_LEN (NetTaskRejected_serialize (NetTaskRejected_new sid seq1 ack1))
   \<and> payloadSize_exact HASH_LEN
       (NetTaskRegister_serialize (NetTaskRegister_new sid seq2 ack2 frag2 pk2))
   \<and> payloadSize_exact HASH_LEN
       (NetTaskRegisterChallenge_serialize
          (NetTaskRegisterChallenge_new sid seq3 ack3 frag3 pk3 ch3 salt3))
   \<and> payloadSize_exact HASH_LEN
       (NetTaskRegisterChallenge2_serialize
          (NetTaskRegisterChallenge2_link (NetTaskRegisterChallenge2_new sid seq4 ack4 frag4 ch4) e4))
   \<and> payloadSize_exact HASH_LEN
       (NetTaskPushSchemas_serialize E S5
          (NetTaskPushSchemas_link (NetTaskPushSchemas_new sid seq5 ack5 frag5 spack5) e5))
   \<and> payloadSize_exact HASH_LEN
       (NetTaskMetric_serialize E S6
          (NetTaskMetric_link (NetTaskMetric_new sid seq6 ack6 frag6 spack6 taskId6 task6) e6))"
  using assms
  by (intro conjI Rejected_exact Register_exact RegisterChallenge_exact RegisterChallenge2_exact
      PushSchemas_exact Metric_exact) simp_all

lemma serializePrivateHeader_new:
  assumes "version this = 1"
  shows "(NetTask_serializePrivateHeader this = Inr priv) =
     (sequenceNumber this < 2 ^ 32 \<and> acknowledgementNumber this < 2 ^ 32 \<and> type this < 2 ^ 32
      \<and> priv = u32be 1 @ u32be (sequenceNumber this) @ u32be (acknowledgementNumber this)
               @ [if fragmented this then 1 else 0] @ u32be (type this))"
  using assms by (auto simp: serializePrivateHeader_eq_Inr)

text \<open>
  Claim C10. \<open>NetTaskRegisterChallenge2.serialize()\<close> raises the not-linked error when
  \<open>link(ecdhe)\<close> has not been called, although the variant carries \<open>cryptoMark\<close> \<open>"NC"\<close>.
  With an ECDHE linked and field values that fit a u32 it emits the cleartext layout
  PublicHeader, PrivateHeader, u32 challengeLen, challenge; the bytes do not depend on the
  ECDHE instance, nothing is encrypted.
\<close>

theorem C10_RegisterChallenge2_serialize:
  "NetTaskRegisterChallenge2_serialize (NetTaskRegisterChallenge2_new sid seqNo ackNo frag ch)
     = Inl NotLinked
   \<and> cryptoMark (NetTaskRegisterChallenge2_new sid seqNo ackNo frag ch) = [0x4E, 0x43]
   \<and> (seqNo < 2 ^ 32 \<and> ackNo < 2 ^ 32 \<and> 17 + length ch + 4 < 2 ^ 32
      \<longrightarrow> NetTaskRegisterChallenge2_serialize
            (NetTaskRegisterChallenge2_link
               (NetTaskRegisterChallenge2_new sid seqNo ackNo frag ch) ecdhe)
          = Inr ([0x4E, 0x54, 0x54, 0x4B] @ sid @ [0x4E, 0x43] @ u32be (17 + length ch + 4)
                   @ (u32be 1 @ u32be seqNo @ u32be ackNo @ [if frag then 1 else 0] @ u32be 2)
                   @ u32be (length ch) @ ch,
                 (NetTaskRegisterChallenge2_link
                    (NetTaskRegisterChallenge2_new sid seqNo ackNo frag ch) ecdhe)
                 \<lparr>payloadSize := 17 + length ch + 4\<rparr>))"
proof (intro conjI impI)
  show "NetTaskRegisterChallenge2_serialize (NetTaskRegisterChallenge2_new sid seqNo ackNo frag ch)
     = Inl NotLinked"
    by (simp add: NetTaskRegisterChallenge2_serialize_def variant_new_defs)
  show "cryptoMark (NetTaskRegisterChallenge2_new sid seqNo ackNo frag ch) = [0x4E, 0x43]"
    by (simp add: variant_new_defs constant_defs)
  assume a: "seqNo < 2 ^ 32 \<and> ackNo < 2 ^ 32 \<and> 17 + length ch + 4 < 2 ^ 32"
  define x where "x = NetTaskRegisterChallenge2_link
               (NetTaskRegisterChallenge2_new sid seqNo ackNo frag ch) ecdhe"
  have f: "version x = 1" "sequenceNumber x = seqNo" "acknowledgementNumber x = ackNo"
    "fragmented x = frag" "type x = 2" "sessionId x = sid" "cryptoMark x = [0x4E, 0x43]"
    "RegisterChallenge2_challenge x = ch" "RegisterChallenge2_ecdhe x = Some ecdhe"
    by (simp_all add: x_def NetTaskRegisterChallenge2_link_def variant_new_defs constant_defs)
  have "NetTaskRegisterChallenge2_serialize x
          = Inr ([0x4E, 0x54, 0x54, 0x4B] @ sid @ [0x4E, 0x43] @ u32be (17 + length ch + 4)
                   @ (u32be 1 @ u32be seqNo @ u32be ackNo @ [if frag then 1 else 0] @ u32be 2)
                   @ u32be (length ch) @ ch, x\<lparr>payloadSize := 17 + length ch + 4\<rparr>)"
    unfolding RegisterChallenge2_serialize_eq_Inr serializePrivateHeader_new [OF f(1)]
    using a by (simp add: f NET_TASK_SIGNATURE_def)
  then show "NetTaskRegisterChallenge2_serialize
            (NetTaskRegisterChallenge2_link
               (NetTaskRegisterChallenge2_new sid seqNo ackNo frag ch) ecdhe)
          = Inr ([0x4E, 0x54, 0x54, 0x4B] @ sid @ [0x4E, 0x43] @ u32be (17 + length ch + 4)
                   @ (u32be 1 @ u32be seqNo @ u32be ackNo @ [if frag then 1 else 0] @ u32be 2)
                   @ u32be (length ch) @ ch,
                 (NetTaskRegisterChallenge2_link
                    (NetTaskRegisterChallenge2_new sid seqNo ackNo frag ch) ecdhe)
                 \<lparr>payloadSize := 17 + length ch + 4\<rparr>)"
    by (simp add: x_def)
qed

text \<open>A RegisterChallenge2 with a challenge of two bytes, linked to the stand-in ECDHE.\<close>

theorem C10_RegisterChallenge2_serialize_witness:
  "((7::nat) < 2 ^ 32 \<and> (9::nat) < 2 ^ 32 \<and> 17 + length [0xAA, 0xBB :: byte] + 4 < (2::nat) ^ 32)
   \<and> NetTaskRegisterChallenge2_serialize
        (NetTaskRegisterChallenge2_link
           (NetTaskRegisterChallenge2_new (replicate 32 0) 7 9 False [0xAA, 0xBB]) example_ecdhe)
      = Inr ([0x4E, 0x54, 0x54, 0x4B] @ replicate 32 0 @ [0x4E, 0x43]
               @ u32be (17 + length [0xAA, 0xBB :: byte] + 4)
               @ (u32be 1 @ u32be 7 @ u32be 9 @ [if False then 1 else 0] @ u32be 2)
               @ u32be (length [0xAA, 0xBB :: byte]) @ [0xAA, 0xBB],
             (NetTaskRegisterChallenge2_link
                (NetTaskRegisterChallenge2_new (replicate 32 0) 7 9 False [0xAA, 0xBB]) example_ecdhe)
             \<lparr>payloadSize := 17 + length [0xAA, 0xBB :: byte] + 4\<rparr>)"
  using C10_RegisterChallenge2_serialize [of "replicate 32 0" 7 9 False "[0xAA, 0xBB]" example_ecdhe]
  by (simp add: NET_TASK_NOCRYPTO_def)

lemma packCompound_eq_Inr:
  "(NetTaskMetric_packCompound taskId pack = Inr c) =
     (length taskId < 2 ^ 32 \<and> length pack < 2 ^ 32
      \<and> c = u32be (length taskId) @ utf8_encode taskId @ u32be (length pack) @ pack)"
  by (auto simp: NetTaskMetric_packCompound_def and_then_eq_Inr Buffer_writeUInt32BE_eq_Inr)

lemma PushSchemas_serialize_eq_Inr:
  "(NetTaskPushSchemas_serialize E S this = Inr (bs, this')) =
     (\<exists>ecdhe pack. PushSchemas_ecdhe this = Some ecdhe
        \<and> NetTaskPushSchemas_pack S (PushSchemas_spack this) = Inr pack
        \<and> length pack < 2 ^ 32
        \<and> encrypted_serialize E ecdhe (u32be (length pack) @ pack) this = Inr (bs, this'))"
  by (auto simp: NetTaskPushSchemas_serialize_def and_then_eq_Inr Buffer_writeUInt32BE_eq_Inr
      Let_def split: option.splits)

lemma Metric_serialize_eq_Inr:
  "(NetTaskMetric_serialize E S this = Inr (bs, this')) =
     (\<exists>ecdhe pack. Metric_ecdhe this = Some ecdhe
        \<and> serializeTaskMetric S (Metric_spack this) (Metric_task this) = Some pack
        \<and> length (Metric_taskId this) < 2 ^ 32 \<and> length pack < 2 ^ 32
        \<and> encrypted_serialize E ecdhe
             (u32be (length (Metric_taskId this)) @ utf8_encode (Metric_taskId this)
                @ u32be (length pack) @ pack) this = Inr (bs, this'))"
  by (auto simp: NetTaskMetric_serialize_def and_then_eq_Inr packCompound_eq_Inr
      split: option.splits)

lemma mapEntries_eq_Some:
  "(mapEntries f kvs = Some out)
     = list_all2 (\<lambda>(k, v) (k', u). k' = k \<and> f v = Some u) kvs out"
proof (induction kvs arbitrary: out)
  case Nil
  show ?case by auto
next
  case (Cons kv kvs)
  obtain k v where kv: "kv = (k, v)" by (cases kv)
  show ?case
    unfolding kv
    by (cases out) (auto simp: Cons [symmetric] split: option.splits)
qed

lemma pack_Packed_eq_Inr:
  "(NetTaskPushSchemas_pack S (Packed p) = Inr spack) = (serializeSPACK S p = Some spack)"
  by (simp add: NetTaskPushSchemas_pack_def)

lemma pack_TaskCollection_eq_Inr:
  "(NetTaskPushSchemas_pack S (TaskCollection entries) = Inr spack)
     = (\<exists>unpacked packed.
          list_all2 (\<lambda>(k, v) (k', u). k' = k \<and> getUnpacked S v = Some u) entries unpacked
        \<and> packTaskSchemas S unpacked = Some packed
        \<and> serializeSPACK S packed = Some spack)"
  by (simp add: NetTaskPushSchemas_pack_def and_then_eq_Inr mapEntries_eq_Some)

lemma Metric_serialize_layout:
  "((NetTaskMetric_serialize E S
       (NetTaskMetric_link
                    (NetTaskMetric_new sid seqNo ackNo frag spack taskId task) ecdhe)
       = Inr (bs, this'))
    = (\<exists>rawPack inner innerEnc_record innerEnc payload outerEnc_record outerEnc.
         serializeTaskMetric S spack task = Some rawPack
       \<and> length taskId < 2 ^ 32
       \<and> length rawPack < 2 ^ 32
       \<and> inner = u32be (length taskId) @ utf8_encode taskId @ u32be (length rawPack) @ rawPack
       \<and> encrypt ecdhe inner = Some innerEnc_record
       \<and> serializeEncryptedMessage E innerEnc_record = Some innerEnc
       \<and> length innerEnc < 2 ^ 32 \<and> seqNo < 2 ^ 32 \<and> ackNo < 2 ^ 32
       \<and> payload = (u32be 1 @ u32be seqNo @ u32be ackNo @ [if frag then 1 else 0] @ u32be 5)
                     @ u32be (length innerEnc) @ innerEnc
       \<and> envelope ecdhe payload = Some outerEnc_record
       \<and> serializeEncryptedMessage E outerEnc_record = Some outerEnc
       \<and> length outerEnc < 2 ^ 32
       \<and> this' = (NetTaskMetric_link
                    (NetTaskMetric_new sid seqNo ackNo frag spack taskId task) ecdhe)
                 \<lparr>payloadSize := length outerEnc\<rparr>
       \<and> bs = ([0x4E, 0x54, 0x54, 0x4B] @ sid @ [0x43, 0x43] @ u32be (length outerEnc))
               @ outerEnc))"
proof -
  define x where "x = (NetTaskMetric_link
                    (NetTaskMetric_new sid seqNo ackNo frag spack taskId task) ecdhe)"
  have f: "version x = 1" "sequenceNumber x = seqNo" "acknowledgementNumber x = ackNo"
    "fragmented x = frag" "type x = 5" "sessionId x = sid" "cryptoMark x = [0x43, 0x43]"
    "Metric_spack x = spack" "Metric_ecdhe x = Some ecdhe" "Metric_taskId x = taskId"
    "Metric_task x = task"
    by (simp_all add: x_def NetTaskMetric_link_def variant_new_defs constant_defs)
  have "((NetTaskMetric_serialize E S
       x
       = Inr (bs, this'))
    = (\<exists>rawPack inner innerEnc_record innerEnc payload outerEnc_record outerEnc.
         serializeTaskMetric S spack task = Some rawPack
       \<and> length taskId < 2 ^ 32
       \<and> length rawPack < 2 ^ 32
       \<and> inner = u32be (length taskId) @ utf8_encode taskId @ u32be (length rawPack) @ rawPack
       \<and> encrypt ecdhe inner = Some innerEnc_record
       \<and> serializeEncryptedMessage E innerEnc_record = Some innerEnc
       \<and> length innerEnc < 2 ^ 32 \<and> seqNo < 2 ^ 32 \<and> ackNo < 2 ^ 32
       \<and> payload = (u32be 1 @ u32be seqNo @ u32be ackNo @ [if frag then 1 else 0] @ u32be 5)
                     @ u32be (length innerEnc) @ innerEnc
       \<and> envelope ecdhe payload = Some outerEnc_record
       \<and> serializeEncryptedMessage E outerEnc_record = Some outerEnc
       \<and> length outerEnc < 2 ^ 32
       \<and> this' = x
                 \<lparr>payloadSize := length outerEnc\<rparr>
       \<and> bs = ([0x4E, 0x54, 0x54, 0x4B] @ sid @ [0x43, 0x43] @ u32be (length outerEnc))
               @ outerEnc))"
    unfolding Metric_serialize_eq_Inr encrypted_serialize_eq_Inr
      serializePrivateHeader_new [OF f(1)] f NET_TASK_SIGNATURE_def
    by auto
  then show ?thesis
    unfolding x_def .
qed

text \<open>
  Claim C3. For a PushSchemas or Metric datagram with a linked ECDHE, \<open>serialize()\<close>
  returns bytes exactly when every step below succeeds, and then the bytes are
  PublicHeader followed by \<open>outerEnc\<close>: \<open>outerEnc\<close> is the serialized record of
  \<open>ecdhe.envelope\<close> applied to PrivateHeader, u32 \<open>innerEncLen\<close>, \<open>innerEnc\<close>; \<open>innerEnc\<close> is the
  serialized record of \<open>ecdhe.encrypt\<close> applied to the inner cleartext; \<open>payloadSize\<close> is the
  byte length of \<open>outerEnc\<close>. The inner cleartext of PushSchemas is u32 \<open>spackLen\<close>, \<open>spack\<close>,
  where \<open>spack\<close> is \<open>serializeSPACK\<close> of the schemas if they are packed already, and
  otherwise \<open>serializeSPACK\<close> of \<open>packTaskSchemas\<close> of the task collection in which every value
  is replaced by its \<open>getUnpacked()\<close> (same keys, same order). The inner cleartext of Metric is
  u32 \<open>taskIdLen\<close>, \<open>taskId\<close>, u32 \<open>spackLen\<close>, \<open>spack\<close>, where \<open>taskIdLen\<close> is \<open>taskId.length\<close>,
  \<open>taskId\<close> is written in UTF-8 and \<open>spack\<close> is \<open>serializeTaskMetric\<close> of the metric and its
  task. The PrivateHeader is passed to \<open>envelope\<close> only: the returned bytes are the public
  header and \<open>outerEnc\<close>, nothing else.
\<close>

theorem C3_encrypted_layout:
  "((NetTaskPushSchemas_serialize E (S4 :: ('p, 't, 'k, 'm) SPACK)
       (NetTaskPushSchemas_link
                    (NetTaskPushSchemas_new sid4 seq4 ack4 frag4 (Packed packed4)) ecdhe4)
       = Inr (bs4, this4))
    = (\<exists>spack inner innerEnc_record innerEnc payload outerEnc_record outerEnc.
         serializeSPACK S4 packed4 = Some spack
       \<and> length spack < 2 ^ 32
       \<and> inner = u32be (length spack) @ spack
       \<and> encrypt ecdhe4 inner = Some innerEnc_record
       \<and> serializeEncryptedMessage E innerEnc_record = Some innerEnc
       \<and> length innerEnc < 2 ^ 32 \<and> seq4 < 2 ^ 32 \<and> ack4 < 2 ^ 32
       \<and> payload = (u32be 1 @ u32be seq4 @ u32be ack4 @ [if frag4 then 1 else 0] @ u32be 4)
                     @ u32be (length innerEnc) @ innerEnc
       \<and> envelope ecdhe4 payload = Some outerEnc_record
       \<and> serializeEncryptedMessage E outerEnc_record = Some outerEnc
       \<and> length outerEnc < 2 ^ 32
       \<and> this4 = (NetTaskPushSchemas_link
                    (NetTaskPushSchemas_new sid4 seq4 ack4 frag4 (Packed packed4)) ecdhe4)
                 \<lparr>payloadSize := length outerEnc\<rparr>
       \<and> bs4 = ([0x4E, 0x54, 0x54, 0x4B] @ sid4 @ [0x43, 0x43] @ u32be (length outerEnc))
               @ outerEnc))
   \<and> ((NetTaskPushSchemas_serialize E (S5 :: ('p, 't, 'k, 'm) SPACK)
       (NetTaskPushSchemas_link
                    (NetTaskPushSchemas_new sid5 seq5 ack5 frag5 (TaskCollection entries5)) ecdhe5)
       = Inr (bs5, this5))
    = (\<exists>unpacked packed spack inner innerEnc_record innerEnc payload outerEnc_record outerEnc.
         list_all2 (\<lambda>(k, v) (k', u). k' = k \<and> getUnpacked S5 v = Some u) entries5 unpacked
       \<and> packTaskSchemas S5 unpacked = Some packed
       \<and> serializeSPACK S5 packed = Some spack
       \<and> length spack < 2 ^ 32
       \<and> inner = u32be (length spack) @ spack
       \<and> encrypt ecdhe5 inner = Some innerEnc_record
       \<and> serializeEncryptedMessage E innerEnc_record = Some innerEnc
       \<and> length innerEnc < 2 ^ 32 \<and> seq5 < 2 ^ 32 \<and> ack5 < 2 ^ 32
       \<and> payload = (u32be 1 @ u32be seq5 @ u32be ack5 @ [if frag5 then 1 else 0] @ u32be 4)
                     @ u32be (length innerEnc) @ innerEnc
       \<and> envelope ecdhe5 payload = Some outerEnc_record
       \<and> serializeEncryptedMessage E outerEnc_record = Some outerEnc
       \<and> length outerEnc < 2 ^ 32
       \<and> this5 = (NetTaskPushSchemas_link
                    (NetTaskPushSchemas_new sid5 seq5 ack5 frag5 (TaskCollection entries5)) ecdhe5)
                 \<lparr>payloadSize := length outerEnc\<rparr>
       \<and> bs5 = ([0x4E, 0x54, 0x54, 0x4B] @ sid5 @ [0x43, 0x43] @ u32be (length outerEnc))
               @ outerEnc))
   \<and> ((NetTaskMetric_serialize E S6
       (NetTaskMetric_link
                    (NetTaskMetric_new sid6 seq6 ack6 frag6 metrics6 taskId6 task6) ecdhe6)
       = Inr (bs6, this6))
    = (\<exists>spack inner innerEnc_record innerEnc payload outerEnc_record outerEnc.
         serializeTaskMetric S6 metrics6 task6 = Some spack
       \<and> length taskId6 < 2 ^ 32
       \<and> length spack < 2 ^ 32
       \<and> inner = u32be (length taskId6) @ utf8_encode taskId6 @ u32be (length spack) @ spack
       \<and> encrypt ecdhe6 inner = Some innerEnc_record
       \<and> serializeEncryptedMessage E innerEnc_record = Some innerEnc
       \<and> length innerEnc < 2 ^ 32 \<and> seq6 < 2 ^ 32 \<and> ack6 < 2 ^ 32
       \<and> payload = (u32be 1 @ u32be seq6 @ u32be ack6 @ [if frag6 then 1 else 0] @ u32be 5)
                     @ u32be (length innerEnc) @ innerEnc
       \<and> envelope ecdhe6 payload = Some outerEnc_record
       \<and> serializeEncryptedMessage E outerEnc_record = Some outerEnc
       \<and> length outerEnc < 2 ^ 32
       \<and> this6 = (NetTaskMetric_link
                    (NetTaskMetric_new sid6 seq6 ack6 frag6 metrics6 taskId6 task6) ecdhe6)
                 \<lparr>payloadSize := length outerEnc\<rparr>
       \<and> bs6 = ([0x4E, 0x54, 0x54, 0x4B] @ sid6 @ [0x43, 0x43] @ u32be (length outerEnc))
               @ outerEnc))"
proof (intro conjI)
  define x :: "('p, 't) NetTaskPushSchemas" where "x = (NetTaskPushSchemas_link
                    (NetTaskPushSchemas_new sid4 seq4 ack4 frag4 (Packed packed4)) ecdhe4)"
  have f: "version x = 1" "sequenceNumber x = seq4" "acknowledgementNumber x = ack4"
    "fragmented x = frag4" "type x = 4" "sessionId x = sid4" "cryptoMark x = [0x43, 0x43]"
    "PushSchemas_spack x = Packed packed4" "PushSchemas_ecdhe x = Some ecdhe4"
    by (simp_all add: x_def NetTaskPushSchemas_link_def variant_new_defs constant_defs)
  have "(NetTaskPushSchemas_serialize E (S4 :: ('p, 't, 'k, 'm) SPACK)
       x
       = Inr (bs4, this4))
    = (\<exists>spack inner innerEnc_record innerEnc payload outerEnc_record outerEnc.
         serializeSPACK S4 packed4 = Some spack
       \<and> length spack < 2 ^ 32
       \<and> inner = u32be (length spack) @ spack
       \<and> encrypt ecdhe4 inner = Some innerEnc_record
       \<and> serializeEncryptedMessage E innerEnc_record = Some innerEnc
       \<and> length innerEnc < 2 ^ 32 \<and> seq4 < 2 ^ 32 \<and> ack4 < 2 ^ 32
       \<and> payload = (u32be 1 @ u32be seq4 @ u32be ack4 @ [if frag4 then 1 else 0] @ u32be 4)
                     @ u32be (length innerEnc) @ innerEnc
       \<and> envelope ecdhe4 payload = Some outerEnc_record
       \<and> serializeEncryptedMessage E outerEnc_record = Some outerEnc
       \<and> length outerEnc < 2 ^ 32
       \<and> this4 = x
                 \<lparr>payloadSize := length outerEnc\<rparr>
       \<and> bs4 = ([0x4E, 0x54, 0x54, 0x4B] @ sid4 @ [0x43, 0x43] @ u32be (length outerEnc))
               @ outerEnc)"
    unfolding PushSchemas_serialize_eq_Inr encrypted_serialize_eq_Inr
      serializePrivateHeader_new [OF f(1)] f NET_TASK_SIGNATURE_def pack_Packed_eq_Inr
    by auto
  then show "(NetTaskPushSchemas_serialize E (S4 :: ('p, 't, 'k, 'm) SPACK)
       (NetTaskPushSchemas_link
                    (NetTaskPushSchemas_new sid4 seq4 ack4 frag4 (Packed packed4)) ecdhe4)
       = Inr (bs4, this4))
    = (\<exists>spack inner innerEnc_record innerEnc payload outerEnc_record outerEnc.
         serializeSPACK S4 packed4 = Some spack
       \<and> length spack < 2 ^ 32
       \<and> inner = u32be (length spack) @ spack
       \<and> encrypt ecdhe4 inner = Some innerEnc_record
       \<and> serializeEncryptedMessage E innerEnc_record = Some innerEnc
       \<and> length innerEnc < 2 ^ 32 \<and> seq4 < 2 ^ 32 \<and> ack4 < 2 ^ 32
       \<and> payload = (u32be 1 @ u32be seq4 @ u32be ack4 @ [if frag4 then 1 else 0] @ u32be 4)
                     @ u32be (length innerEnc) @ innerEnc
       \<and> envelope ecdhe4 payload = Some outerEnc_record
       \<and> serializeEncryptedMessage E outerEnc_record = Some outerEnc
       \<and> length outerEnc < 2 ^ 32
       \<and> this4 = (NetTaskPushSchemas_link
                    (NetTaskPushSchemas_new sid4 seq4 ack4 frag4 (Packed packed4)) ecdhe4)
                 \<lparr>payloadSize := length outerEnc\<rparr>
       \<and> bs4 = ([0x4E, 0x54, 0x54, 0x4B] @ sid4 @ [0x43, 0x43] @ u32be (length outerEnc))
               @ outerEnc)"
    unfolding x_def .
next
  define x :: "('p, 't) NetTaskPushSchemas" where "x = (NetTaskPushSchemas_link
                    (NetTaskPushSchemas_new sid5 seq5 ack5 frag5 (TaskCollection entries5)) ecdhe5)"
  have f: "version x = 1" "sequenceNumber x = seq5" "acknowledgementNumber x = ack5"
    "fragmented x = frag5" "type x = 4" "sessionId x = sid5" "cryptoMark x = [0x43, 0x43]"
    "PushSchemas_spack x = TaskCollection entries5" "PushSchemas_ecdhe x = Some ecdhe5"
    by (simp_all add: x_def NetTaskPushSchemas_link_def variant_new_defs constant_defs)
  have "(NetTaskPushSchemas_serialize E (S5 :: ('p, 't, 'k, 'm) SPACK)
       x
       = Inr (bs5, this5))
    = (\<exists>unpacked packed spack inner innerEnc_record innerEnc payload outerEnc_record outerEnc.
         list_all2 (\<lambda>(k, v) (k', u). k' = k \<and> getUnpacked S5 v = Some u) entries5 unpacked
       \<and> packTaskSchemas S5 unpacked = Some packed
       \<and> serializeSPACK S5 packed = Some spack
       \<and> length spack < 2 ^ 32
       \<and> inner = u32be (length spack) @ spack
       \<and> encrypt ecdhe5 inner = Some innerEnc_record
       \<and> serializeEncryptedMessage E innerEnc_record = Some innerEnc
       \<and> length innerEnc < 2 ^ 32 \<and> seq5 < 2 ^ 32 \<and> ack5 < 2 ^ 32
       \<and> payload = (u32be 1 @ u32be seq5 @ u32be ack5 @ [if frag5 then 1 else 0] @ u32be 4)
                     @ u32be (length innerEnc) @ innerEnc
       \<and> envelope ecdhe5 payload = Some outerEnc_record
       \<and> serializeEncryptedMessage E outerEnc_record = Some outerEnc
       \<and> length outerEnc < 2 ^ 32
       \<and> this5 = x
                 \<lparr>payloadSize := length outerEnc\<rparr>
       \<and> bs5 = ([0x4E, 0x54, 0x54, 0x4B] @ sid5 @ [0x43, 0x43] @ u32be (length outerEnc))
               @ outerEnc)"
    unfolding PushSchemas_serialize_eq_Inr encrypted_serialize_eq_Inr
      serializePrivateHeader_new [OF f(1)] f NET_TASK_SIGNATURE_def pack_TaskCollection_eq_Inr
    by auto (blast+)
  then show "(NetTaskPushSchemas_serialize E (S5 :: ('p, 't, 'k, 'm) SPACK)
       (NetTaskPushSchemas_link
                    (NetTaskPushSchemas_new sid5 seq5 ack5 frag5 (TaskCollection entries5)) ecdhe5)
       = Inr (bs5, this5))
    = (\<exists>unpacked packed spack inner innerEnc_record innerEnc payload outerEnc_record outerEnc.
         list_all2 (\<lambda>(k, v) (k', u). k' = k \<and> getUnpacked S5 v = Some u) entries5 unpacked
       \<and> packTaskSchemas S5 unpacked = Some packed
       \<and> serializeSPACK S5 packed = Some spack
       \<and> length spack < 2 ^ 32
       \<and> inner = u32be (length spack) @ spack
       \<and> encrypt ecdhe5 inner = Some innerEnc_record
       \<and> serializeEncryptedMessage E innerEnc_record = Some innerEnc
       \<and> length innerEnc < 2 ^ 32 \<and> seq5 < 2 ^ 32 \<and> ack5 < 2 ^ 32
       \<and> payload = (u32be 1 @ u32be seq5 @ u32be ack5 @ [if frag5 then 1 else 0] @ u32be 4)
                     @ u32be (length innerEnc) @ innerEnc
       \<and> envelope ecdhe5 payload = Some outerEnc_record
       \<and> serializeEncryptedMessage E outerEnc_record = Some outerEnc
       \<and> length outerEnc < 2 ^ 32
       \<and> this5 = (NetTaskPushSchemas_link
                    (NetTaskPushSchemas_new sid5 seq5 ack5 frag5 (TaskCollection entries5)) ecdhe5)
                 \<lparr>payloadSize := length outerEnc\<rparr>
       \<and> bs5 = ([0x4E, 0x54, 0x54, 0x4B] @ sid5 @ [0x43, 0x43] @ u32be (length outerEnc))
               @ outerEnc)"
    unfolding x_def .
next
  show "(NetTaskMetric_serialize E S6
       (NetTaskMetric_link
                    (NetTaskMetric_new sid6 seq6 ack6 frag6 metrics6 taskId6 task6) ecdhe6)
       = Inr (bs6, this6))
    = (\<exists>spack inner innerEnc_record innerEnc payload outerEnc_record outerEnc.
         serializeTaskMetric S6 metrics6 task6 = Some spack
       \<and> length taskId6 < 2 ^ 32
       \<and> length spack < 2 ^ 32
       \<and> inner = u32be (length taskId6) @ utf8_encode taskId6 @ u32be (length spack) @ spack
       \<and> encrypt ecdhe6 inner = Some innerEnc_record
       \<and> serializeEncryptedMessage E innerEnc_record = Some innerEnc
       \<and> length innerEnc < 2 ^ 32 \<and> seq6 < 2 ^ 32 \<and> ack6 < 2 ^ 32
       \<and> payload = (u32be 1 @ u32be seq6 @ u32be ack6 @ [if frag6 then 1 else 0] @ u32be 5)
                     @ u32be (length innerEnc) @ innerEnc
       \<and> envelope ecdhe6 payload = Some outerEnc_record
       \<and> serializeEncryptedMessage E outerEnc_record = Some outerEnc
       \<and> length outerEnc < 2 ^ 32
       \<and> this6 = (NetTaskMetric_link
                    (NetTaskMetric_new sid6 seq6 ack6 frag6 metrics6 taskId6 task6) ecdhe6)
                 \<lparr>payloadSize := length outerEnc\<rparr>
       \<and> bs6 = ([0x4E, 0x54, 0x54, 0x4B] @ sid6 @ [0x43, 0x43] @ u32be (length outerEnc))
               @ outerEnc)"
    by (rule Metric_serialize_layout)
qed

subsection \<open>Examples of serialization\<close>

lemmas example_defs = example_static_def example_ecdhe_def example_SPACK_def

lemma example_handshake_returns:
  "\<exists>bs this'. NetTaskRejected_serialize (NetTaskRejected_new (replicate 32 0) 7 9) = Inr (bs, this')"
  "\<exists>bs this'. NetTaskRegister_serialize (NetTaskRegister_new (replicate 32 0) 7 9 False [1, 2, 3])
      = Inr (bs, this')"
  "\<exists>bs this'. NetTaskRegisterChallenge_serialize
      (NetTaskRegisterChallenge_new (replicate 32 0) 7 9 False [1, 2, 3] [4, 5] [6])
      = Inr (bs, this')"
  "\<exists>bs this'. NetTaskRegisterChallenge2_serialize
      (NetTaskRegisterChallenge2_link
         (NetTaskRegisterChallenge2_new (replicate 32 0) 7 9 False [4, 5]) example_ecdhe)
      = Inr (bs, this')"
  by (simp_all add: Rejected_serialize_eq_Inr Register_serialize_eq_Inr
      RegisterChallenge_serialize_eq_Inr RegisterChallenge2_serialize_eq_Inr
      serializePrivateHeader_eq_Inr NetTaskRegisterChallenge2_link_def
      variant_new_defs constant_defs)

lemma example_encrypted_returns:
  "\<exists>bs this'. NetTaskPushSchemas_serialize example_static example_SPACK
      (NetTaskPushSchemas_link
         (NetTaskPushSchemas_new (replicate 32 0) 7 9 False (Packed [1, 2, 3])) example_ecdhe)
      = Inr (bs, this')"
  "\<exists>bs this'. NetTaskMetric_serialize example_static example_SPACK
      (NetTaskMetric_link
         (NetTaskMetric_new (replicate 32 0) 7 9 False [1, 2, 3] [0x63, 0x70, 0x75] (Some 0))
         example_ecdhe)
      = Inr (bs, this')"
  by (simp_all add: PushSchemas_serialize_eq_Inr Metric_serialize_eq_Inr
      encrypted_serialize_eq_Inr serializePrivateHeader_eq_Inr NetTaskPushSchemas_link_def
      NetTaskMetric_link_def NetTaskPushSchemas_pack_def
      variant_new_defs constant_defs example_defs)

lemma u32be_bytes:
  "u32be n = [of_nat (n div 256 div 256 div 256), of_nat (n div 256 div 256),
              of_nat (n div 256), of_nat n]"
proof -
  have "uint_be (Suc (Suc (Suc (Suc 0)))) n =
        [of_nat (n div 256 div 256 div 256), of_nat (n div 256 div 256),
         of_nat (n div 256), of_nat n]"
    by simp
  moreover have "(4::nat) = Suc (Suc (Suc (Suc 0)))" by simp
  ultimately show ?thesis by (simp only: u32be_def)
qed

text \<open>
  The six variants with a zero session id of 32 bytes, sequence number 7 and
  acknowledgement number 9: each \<open>serialize\<close> returns, and the payload size is exact.
\<close>

theorem C2_payloadSize_exact_witness:
  "length (replicate 32 (0::byte)) = 32
   \<and> (payloadSize_exact 32 (NetTaskRejected_serialize (NetTaskRejected_new (replicate 32 0) 7 9))
   \<and> payloadSize_exact 32
       (NetTaskRegister_serialize (NetTaskRegister_new (replicate 32 0) 7 9 False [1, 2, 3]))
   \<and> payloadSize_exact 32
       (NetTaskRegisterChallenge_serialize
          (NetTaskRegisterChallenge_new (replicate 32 0) 7 9 False [1, 2, 3] [4, 5] [6]))
   \<and> payloadSize_exact 32
       (NetTaskRegisterChallenge2_serialize
          (NetTaskRegisterChallenge2_link
             (NetTaskRegisterChallenge2_new (replicate 32 0) 7 9 False [4, 5]) example_ecdhe))
   \<and> payloadSize_exact 32
       (NetTaskPushSchemas_serialize example_static example_SPACK
          (NetTaskPushSchemas_link
             (NetTaskPushSchemas_new (replicate 32 0) 7 9 False (Packed [1, 2, 3])) example_ecdhe))
   \<and> payloadSize_exact 32
       (NetTaskMetric_serialize example_static example_SPACK
          (NetTaskMetric_link
             (NetTaskMetric_new (replicate 32 0) 7 9 False [1, 2, 3] [0x63, 0x70, 0x75] (Some 0))
             example_ecdhe)))
   \<and> (\<exists>bs this'. NetTaskRejected_serialize (NetTaskRejected_new (replicate 32 0) 7 9)
         = Inr (bs, this'))
   \<and> (\<exists>bs this'. NetTaskRegister_serialize
         (NetTaskRegister_new (replicate 32 0) 7 9 False [1, 2, 3]) = Inr (bs, this'))
   \<and> (\<exists>bs this'. NetTaskRegisterChallenge_serialize
         (NetTaskRegisterChallenge_new (replicate 32 0) 7 9 False [1, 2, 3] [4, 5] [6])
         = Inr (bs, this'))
   \<and> (\<exists>bs this'. NetTaskRegisterChallenge2_serialize
         (NetTaskRegisterChallenge2_link
            (NetTaskRegisterChallenge2_new (replicate 32 0) 7 9 False [4, 5]) example_ecdhe)
         = Inr (bs, this'))
   \<and> (\<exists>bs this'. NetTaskPushSchemas_serialize example_static example_SPACK
         (NetTaskPushSchemas_link
            (NetTaskPushSchemas_new (replicate 32 0) 7 9 False (Packed [1, 2, 3])) example_ecdhe)
         = Inr (bs, this'))
   \<and> (\<exists>bs this'. NetTaskMetric_serialize example_static example_SPACK
         (NetTaskMetric_link
            (NetTaskMetric_new (replicate 32 0) 7 9 False [1, 2, 3] [0x63, 0x70, 0x75] (Some 0))
            example_ecdhe)
         = Inr (bs, this'))"
proof -
  have h: "length (replicate 32 (0::byte)) = 32" by simp
  show ?thesis
    using h C2_payloadSize_exact [OF h, of 7 9 7 9 False "[1, 2, 3]" 7 9 False "[1, 2, 3]"
        "[4, 5]" "[6]" 7 9 False "[4, 5]" example_ecdhe example_static example_SPACK
        7 9 False "Packed [1, 2, 3]" example_ecdhe example_SPACK 7 9 False "[1, 2, 3]"
        "[0x63, 0x70, 0x75]" "Some 0" example_ecdhe]
      example_handshake_returns example_encrypted_returns
    by (simp only: simp_thms)
qed

text \<open>
  Three datagrams with the stand-in collaborators: a PushSchemas with the packed schema bytes
  1, 2, 3, a PushSchemas with a task collection of the one task \<open>"cpu"\<close> (which the stand-in
  packs to the bytes of \<open>"cpu"\<close>), and a Metric with the metric bytes 1, 2, 3 of the task
  \<open>"cpu"\<close>. The returned bytes are the public header (payload size 32, 32 and 39) and the
  envelope record, whose ciphertext holds the private header and the inner record, every
  byte raised by 2; the ciphertext of the inner record is the inner cleartext, every byte
  raised by 1.
\<close>

theorem C3_encrypted_layout_witness:
  "NetTaskPushSchemas_serialize example_static example_SPACK
      (NetTaskPushSchemas_link
         (NetTaskPushSchemas_new [0xA0, 0xA1] 7 9 False (Packed [1, 2, 3])) example_ecdhe)
    = Inr ([0x4E, 0x54, 0x54, 0x4B, 0xA0, 0xA1, 0x43, 0x43, 0, 0, 0, 0x20,
            3, 4,
              2, 2, 2, 3,  2, 2, 2, 9,  2, 2, 2, 11,  2,  2, 2, 2, 6,
              2, 2, 2, 11,
              3, 4,
                3, 3, 3, 6,  4, 5, 6],
           (NetTaskPushSchemas_link
              (NetTaskPushSchemas_new [0xA0, 0xA1] 7 9 False (Packed [1, 2, 3])) example_ecdhe)
           \<lparr>payloadSize := 32\<rparr>)
   \<and> NetTaskPushSchemas_serialize example_static example_SPACK
      (NetTaskPushSchemas_link
         (NetTaskPushSchemas_new [0xA0, 0xA1] 7 9 False
            (TaskCollection [([0x63, 0x70, 0x75], [9, 9])])) example_ecdhe)
    = Inr ([0x4E, 0x54, 0x54, 0x4B, 0xA0, 0xA1, 0x43, 0x43, 0, 0, 0, 0x20,
            3, 4,
              2, 2, 2, 3,  2, 2, 2, 9,  2, 2, 2, 11,  2,  2, 2, 2, 6,
              2, 2, 2, 11,
              3, 4,
                3, 3, 3, 6,  0x66, 0x73, 0x78],
           (NetTaskPushSchemas_link
              (NetTaskPushSchemas_new [0xA0, 0xA1] 7 9 False
                 (TaskCollection [([0x63, 0x70, 0x75], [9, 9])])) example_ecdhe)
           \<lparr>payloadSize := 32\<rparr>)
   \<and> NetTaskMetric_serialize example_static example_SPACK
      (NetTaskMetric_link
         (NetTaskMetric_new [0xA0, 0xA1] 7 9 False [1, 2, 3] [0x63, 0x70, 0x75] (Some 0))
         example_ecdhe)
    = Inr ([0x4E, 0x54, 0x54, 0x4B, 0xA0, 0xA1, 0x43, 0x43, 0, 0, 0, 0x27,
            3, 4,
              2, 2, 2, 3,  2, 2, 2, 9,  2, 2, 2, 11,  2,  2, 2, 2, 7,
              2, 2, 2, 18,
              3, 4,
                3, 3, 3, 6,  0x66, 0x73, 0x78,  3, 3, 3, 6,  4, 5, 6],
           (NetTaskMetric_link
              (NetTaskMetric_new [0xA0, 0xA1] 7 9 False [1, 2, 3] [0x63, 0x70, 0x75] (Some 0))
              example_ecdhe)
           \<lparr>payloadSize := 39\<rparr>)"
  unfolding C3_encrypted_layout [THEN conjunct1] C3_encrypted_layout [THEN conjunct2, THEN conjunct1]
    C3_encrypted_layout [THEN conjunct2, THEN conjunct2]
  by (simp add: example_defs u32be_bytes list_all2_Cons1 utf8_encode.simps)

subsection \<open>UTF-8\<close>

text \<open>
  Every code unit gives at least one byte, and exactly one only when it is below 128: the
  UTF-8 byte length of a string equals its number of code units exactly when the string
  is ASCII, and then decoding the bytes gives the string back.
\<close>

lemma length_utf8_pair [simp]: "length (utf8_pair hi lo) = 4"
  by (simp add: utf8_pair_def Let_def)

declare utf8_encode.simps(2) [simp del]

lemma utf8_encode_ascii:
  "unat u < 128 \<Longrightarrow> utf8_encode (u # us) = of_nat (unat u) # utf8_encode us"
  by (subst utf8_encode.simps(2)) (simp only: if_True)

lemma utf8_encode_two:
  "\<not> unat u < 128 \<Longrightarrow> unat u < 2048 \<Longrightarrow>
   utf8_encode (u # us)
     = of_nat (192 + unat u div 64) # of_nat (128 + unat u mod 64) # utf8_encode us"
  by (subst utf8_encode.simps(2)) (simp only: if_True if_False)

lemma utf8_encode_high_end:
  "\<not> unat u < 128 \<Longrightarrow> \<not> unat u < 2048 \<Longrightarrow> 55296 \<le> unat u \<and> unat u < 56320 \<Longrightarrow>
   utf8_encode [u] = [239, 191, 189]"
  by (subst utf8_encode.simps(2)) (simp only: if_True if_False list.case simp_thms)

lemma utf8_encode_pair:
  "\<not> unat u < 128 \<Longrightarrow> \<not> unat u < 2048 \<Longrightarrow> 55296 \<le> unat u \<and> unat u < 56320 \<Longrightarrow>
   56320 \<le> unat v \<and> unat v < 57344 \<Longrightarrow>
   utf8_encode (u # v # vs) = utf8_pair (unat u) (unat v) @ utf8_encode vs"
  by (subst utf8_encode.simps(2)) (simp only: if_True if_False list.case simp_thms)

lemma utf8_encode_high_lone:
  "\<not> unat u < 128 \<Longrightarrow> \<not> unat u < 2048 \<Longrightarrow> 55296 \<le> unat u \<and> unat u < 56320 \<Longrightarrow>
   \<not> (56320 \<le> unat v \<and> unat v < 57344) \<Longrightarrow>
   utf8_encode (u # v # vs) = 239 # 191 # 189 # utf8_encode (v # vs)"
  by (subst utf8_encode.simps(2)) (simp only: if_True if_False list.case simp_thms)

lemma utf8_encode_three:
  "\<not> unat u < 128 \<Longrightarrow> \<not> unat u < 2048 \<Longrightarrow> \<not> (55296 \<le> unat u \<and> unat u < 56320) \<Longrightarrow>
   \<exists>x y z. utf8_encode (u # us) = x # y # z # utf8_encode us"
  by (subst utf8_encode.simps(2)) (simp only: if_True if_False simp_thms split: if_split, blast)

lemma utf8_encode_step:
  "\<exists>pre rest. utf8_encode (u # us) = pre @ utf8_encode rest
     \<and> length rest \<le> length us
     \<and> Suc (length us) \<le> length pre + length rest
     \<and> (\<not> unat u < 128 \<longrightarrow> Suc (length us) < length pre + length rest)"
proof (cases "unat u < 128")
  case True
  then show ?thesis
    by (intro exI [of _ "[of_nat (unat u)]"] exI [of _ us]) (simp add: utf8_encode_ascii)
next
  case a: False
  show ?thesis
  proof (cases "unat u < 2048")
    case True
    show ?thesis
      by (intro exI [of _ "[of_nat (192 + unat u div 64), of_nat (128 + unat u mod 64)]"]
          exI [of _ us]) (simp add: utf8_encode_two [OF a True])
  next
    case b: False
    show ?thesis
    proof (cases "55296 \<le> unat u \<and> unat u < 56320")
      case hi: True
      show ?thesis
      proof (cases us)
        case Nil
        show ?thesis
          unfolding Nil
          by (intro exI [of _ "[239, 191, 189]"] exI [of _ "[]"])
            (simp add: utf8_encode_high_end [OF a b hi])
      next
        case (Cons v vs)
        show ?thesis
        proof (cases "56320 \<le> unat v \<and> unat v < 57344")
          case True
          show ?thesis
            unfolding Cons
            by (intro exI [of _ "utf8_pair (unat u) (unat v)"] exI [of _ vs])
              (simp add: utf8_encode_pair [OF a b hi True])
        next
          case False
          show ?thesis
            unfolding Cons
            by (intro exI [of _ "[239, 191, 189]"] exI [of _ "v # vs"])
              (simp add: utf8_encode_high_lone [OF a b hi False])
        qed
      qed
    next
      case nhi: False
      from utf8_encode_three [OF a b nhi] obtain x y z where
        "utf8_encode (u # us) = x # y # z # utf8_encode us" by blast
      then show ?thesis
        by (intro exI [of _ "[x, y, z]"] exI [of _ us]) simp
    qed
  qed
qed

lemma utf8_encode_length_ge: "length s \<le> length (utf8_encode s)"
proof (induction s rule: length_induct)
  case (1 s)
  show ?case
  proof (cases s)
    case Nil
    then show ?thesis by simp
  next
    case (Cons u us)
    from utf8_encode_step [of u us] obtain pre rest where
      st: "utf8_encode (u # us) = pre @ utf8_encode rest" "length rest \<le> length us"
        "Suc (length us) \<le> length pre + length rest"
      by blast
    from st(2) Cons have "length rest < length s" by simp
    with 1 have "length rest \<le> length (utf8_encode rest)" by blast
    with st(1,3) show ?thesis by (simp add: Cons)
  qed
qed

lemma utf8_encode_length_eq_iff:
  "(length (utf8_encode s) = length s) = list_all (\<lambda>u. unat u < 128) s"
proof (induction s)
  case Nil
  show ?case by simp
next
  case (Cons u us)
  show ?case
  proof (cases "unat u < 128")
    case True
    with Cons show ?thesis by (simp add: utf8_encode_ascii)
  next
    case False
    from utf8_encode_step [of u us] False obtain pre rest where
      st: "utf8_encode (u # us) = pre @ utf8_encode rest"
        "Suc (length us) < length pre + length rest"
      by blast
    have "length rest \<le> length (utf8_encode rest)"
      by (rule utf8_encode_length_ge)
    with st have "length (u # us) < length (utf8_encode (u # us))" by simp
    with False show ?thesis by simp
  qed
qed

declare utf8_dec.simps(2) [simp del]

lemma utf8_dec_ascii:
  "unat b < 128 \<Longrightarrow> utf8_dec 0 cp lo hi (b # bs) = of_nat (unat b) # utf8_dec 0 0 128 191 bs"
  by (subst utf8_dec.simps(2)) (simp only: if_True simp_thms)

lemma utf8_decode_ascii:
  "list_all (\<lambda>u. unat u < 128) s \<Longrightarrow> utf8_decode (utf8_encode s) = s"
proof (induction s)
  case Nil
  show ?case by (simp add: utf8_decode_def)
next
  case (Cons u us)
  then have u: "unat u < 128" and us: "utf8_dec 0 0 128 191 (utf8_encode us) = us"
    by (simp_all add: utf8_decode_def)
  have b: "unat (of_nat (unat u) :: byte) = unat u"
    using u by (simp add: unat_of_nat del: of_nat_unat)
  have c: "(of_nat (unat u) :: 16 word) = u"
    by simp
  have "utf8_dec 0 0 128 191 (of_nat (unat u) # utf8_encode us)
      = of_nat (unat (of_nat (unat u) :: byte)) # utf8_dec 0 0 128 191 (utf8_encode us)"
    by (rule utf8_dec_ascii) (simp only: b u)
  then show ?case
    by (simp only: utf8_decode_def utf8_encode_ascii [OF u] b c us)
qed

subsection \<open>Deserialization of the encrypted variants\<close>

lemma parseMessage_prefix:
  assumes "n < 2 ^ 32" and "length raw = n"
  shows "NetTaskMetric_parseMessage S cfg (u32be n @ raw @ rest) =
     (and_then (BufferReader_readUInt32 \<lparr>buffer = u32be n @ raw @ rest, cursor = 4 + n\<rparr>)
        (\<lambda>(spackLen, mr).
      and_then (BufferReader_read spackLen mr) (\<lambda>(rawSpack, mr).
      and_then (uncaught (deserializeTaskMetric S rawSpack (cfg (utf8_decode raw)))) (\<lambda>metrics.
      Inr (utf8_decode raw, metrics)))))"
proof -
  have r1: "BufferReader_readUInt32 (BufferReader_new (u32be n @ raw @ rest))
      = Inr (n, \<lparr>buffer = u32be n @ raw @ rest, cursor = 4\<rparr>)"
    using assms(1)
    by (simp add: BufferReader_readUInt32_def BufferReader_read_def BufferReader_new_def)
  have r2: "BufferReader_read n \<lparr>buffer = u32be n @ raw @ rest, cursor = 4\<rparr>
      = Inr (raw, \<lparr>buffer = u32be n @ raw @ rest, cursor = 4 + n\<rparr>)"
    using assms(2) by (simp add: BufferReader_read_def)
  show ?thesis
    by (simp add: NetTaskMetric_parseMessage_def r1 r2 Let_def)
qed

lemma parseMessage_ok:
  assumes "length rawId < 2 ^ 32" and "length rawSpack < 2 ^ 32"
  shows "NetTaskMetric_parseMessage S cfg
           (u32be (length rawId) @ rawId @ u32be (length rawSpack) @ rawSpack) =
         and_then (uncaught (deserializeTaskMetric S rawSpack (cfg (utf8_decode rawId))))
           (\<lambda>metrics. Inr (utf8_decode rawId, metrics))"
proof -
  let ?b = "u32be (length rawId) @ rawId @ u32be (length rawSpack) @ rawSpack"
  have at: "reader_at \<lparr>buffer = ?b, cursor = 4 + length rawId\<rparr>
              (u32be (length rawSpack) @ rawSpack @ [])"
    by (simp add: reader_at_def)
  from readUInt32_ok [OF at assms(2)] obtain r3 where
    r3: "BufferReader_readUInt32 \<lparr>buffer = ?b, cursor = 4 + length rawId\<rparr>
           = Inr (length rawSpack, r3)" "reader_at r3 (rawSpack @ [])"
    by blast
  from read_ok [OF r3(2) refl] obtain r4 where
    r4: "BufferReader_read (length rawSpack) r3 = Inr (rawSpack, r4)"
    by blast
  show ?thesis
    by (simp add: parseMessage_prefix [OF assms(1) refl] r3(1) r4)
qed

lemma Metric_deserialize_frame:
  assumes "reader_at reader (u32be (length serEnc) @ serEnc @ rest)"
    and "length serEnc < 2 ^ 32" and "type dg = SEND_METRICS"
    and "deserializeEncryptedMessage E serEnc = Some dm" and "decrypt ecdhe dm = Some message"
  shows "\<exists>r'. reader_at r' rest \<and>
     NetTaskMetric_deserialize E S reader ecdhe dg cfg =
       and_then (try_catch (NetTaskMetric_parseMessage S cfg message) MalformedPayload)
         (\<lambda>(taskId, metrics).
            Inr (NetTaskMetric_new (sessionId dg) (sequenceNumber dg) (acknowledgementNumber dg)
                   True metrics taskId (cfg taskId), r'))"
proof -
  from readUInt32_ok [OF assms(1,2)] obtain r1 where
    r1: "BufferReader_readUInt32 reader = Inr (length serEnc, r1)" "reader_at r1 (serEnc @ rest)"
    by blast
  from read_ok [OF r1(2) refl] obtain r2 where
    r2: "BufferReader_read (length serEnc) r1 = Inr (serEnc, r2)" "reader_at r2 rest"
    by blast
  show ?thesis
    using r2(2) by (intro exI [of _ r2]) (simp add: NetTaskMetric_deserialize_def assms(3-5) r1(1) r2(1))
qed

lemma PushSchemas_deserialize_frame:
  assumes "reader_at reader (u32be (length serEnc) @ serEnc @ rest)"
    and "length serEnc < 2 ^ 32" and "type dg = PUSH_SCHEMAS"
    and "deserializeEncryptedMessage E serEnc = Some dm" and "decrypt ecdhe dm = Some message"
  shows "\<exists>r'. reader_at r' rest \<and>
     NetTaskPushSchemas_deserialize E S reader ecdhe dg =
       and_then (try_catch
                  (and_then (Buffer_readUInt32BE message) (\<lambda>spackLen.
                   let rawSpack = Buffer_subarray message 4 (spackLen + 4) in
                   and_then (uncaught (deserializeSPACK S rawSpack)) (\<lambda>spack.
                   uncaught (unpackTaskSchemas S spack))))
                  MalformedPayload)
         (\<lambda>tasks.
            Inr (NetTaskPushSchemas_new (sessionId dg) 123123 123123 True (TaskCollection tasks), r'))"
proof -
  from readUInt32_ok [OF assms(1,2)] obtain r1 where
    r1: "BufferReader_readUInt32 reader = Inr (length serEnc, r1)" "reader_at r1 (serEnc @ rest)"
    by blast
  from read_ok [OF r1(2) refl] obtain r2 where
    r2: "BufferReader_read (length serEnc) r1 = Inr (serEnc, r2)" "reader_at r2 rest"
    by blast
  show ?thesis
    using r2(2)
    by (intro exI [of _ r2]) (simp add: NetTaskPushSchemas_deserialize_def assms(3-5) r1(1) r2(1))
qed

lemma read_no_UnknownTask [simp]:
  "BufferReader_read n r \<noteq> Inl UnknownTask"
  "BufferReader_readUInt32 r \<noteq> Inl UnknownTask"
  by (auto simp: BufferReader_read_def BufferReader_readUInt32_def and_then_eq_Inl)

lemma uncaught_no_UnknownTask [simp]: "uncaught x \<noteq> Inl UnknownTask"
  by (cases x) simp_all

lemma try_catch_eq_Inl: "(try_catch m h = Inl e) = ((\<exists>e'. m = Inl e') \<and> e = h)"
  by (cases m) auto

lemma parseMessage_no_UnknownTask:
  "NetTaskMetric_parseMessage S cfg message \<noteq> Inl UnknownTask"
  by (auto simp: NetTaskMetric_parseMessage_def Let_def and_then_eq_Inl)

lemma Metric_deserialize_never_UnknownTask:
  "NetTaskMetric_deserialize E S reader ecdhe dg cfg \<noteq> Inl UnknownTask"
  by (auto simp: NetTaskMetric_deserialize_def and_then_eq_Inl try_catch_eq_Inl
      parseMessage_no_UnknownTask split: if_splits)

lemma Metric_deserialize_undefined_task:
  assumes a: "reader_at reader (u32be (length serEnc) @ serEnc @ rest) \<and> length serEnc < 2 ^ 32
        \<and> type dg = SEND_METRICS
        \<and> deserializeEncryptedMessage E serEnc = Some dm
        \<and> decrypt ecdhe dm
            = Some (u32be (length rawId) @ rawId @ u32be (length rawSpack) @ rawSpack)
        \<and> length rawId < 2 ^ 32 \<and> length rawSpack < 2 ^ 32
        \<and> cfg (utf8_decode rawId) = None"
  shows "\<exists>r'. reader_at r' rest \<and>
             NetTaskMetric_deserialize E S reader ecdhe dg cfg =
               (case deserializeTaskMetric S rawSpack None of
                  None \<Rightarrow> Inl MalformedPayload
                | Some metrics \<Rightarrow>
                    Inr (NetTaskMetric_new (sessionId dg) (sequenceNumber dg)
                           (acknowledgementNumber dg) True metrics (utf8_decode rawId) None, r'))"
proof -
  from a obtain r' where r': "reader_at r' rest"
     "NetTaskMetric_deserialize E S reader ecdhe dg cfg =
       and_then (try_catch (NetTaskMetric_parseMessage S cfg
                   (u32be (length rawId) @ rawId @ u32be (length rawSpack) @ rawSpack))
                   MalformedPayload)
         (\<lambda>(taskId, metrics).
            Inr (NetTaskMetric_new (sessionId dg) (sequenceNumber dg) (acknowledgementNumber dg)
                   True metrics taskId (cfg taskId), r'))"
    using Metric_deserialize_frame [of reader serEnc rest dg E dm ecdhe _ S cfg] by blast
  from a have p: "NetTaskMetric_parseMessage S cfg
                   (u32be (length rawId) @ rawId @ u32be (length rawSpack) @ rawSpack)
       = and_then (uncaught (deserializeTaskMetric S rawSpack None))
           (\<lambda>metrics. Inr (utf8_decode rawId, metrics))"
    using parseMessage_ok [of rawId rawSpack S cfg] by simp
  show ?thesis
    using a r'(1)
    by (intro exI [of _ r']) (simp add: r'(2) p split: option.splits)
qed

text \<open>
  Claim C5, amended. \<open>NetTaskMetric.deserialize\<close> never fails with \<open>UnknownTask\<close>, whatever
  the \<open>taskId\<close> and the task configuration are. For a Metric datagram whose decrypted inner
  plaintext carries a \<open>taskId\<close> for which \<open>configTasks[taskId]\<close> is undefined, it passes the
  undefined descriptor to \<open>deserializeTaskMetric\<close>: when that call throws, \<open>deserialize\<close>
  fails with \<open>MalformedPayload\<close>; when it returns, \<open>deserialize\<close> returns the metric datagram
  with an undefined task.
\<close>

theorem C5_never_UnknownTask:
  "NetTaskMetric_deserialize E S reader ecdhe dg cfg \<noteq> Inl UnknownTask
   \<and> (reader_at reader (u32be (length serEnc) @ serEnc @ rest) \<and> length serEnc < 2 ^ 32
        \<and> type dg = SEND_METRICS
        \<and> deserializeEncryptedMessage E serEnc = Some dm
        \<and> decrypt ecdhe dm
            = Some (u32be (length rawId) @ rawId @ u32be (length rawSpack) @ rawSpack)
        \<and> length rawId < 2 ^ 32 \<and> length rawSpack < 2 ^ 32
        \<and> cfg (utf8_decode rawId) = None
      \<longrightarrow> (\<exists>r'. reader_at r' rest \<and>
             NetTaskMetric_deserialize E S reader ecdhe dg cfg =
               (case deserializeTaskMetric S rawSpack None of
                  None \<Rightarrow> Inl MalformedPayload
                | Some metrics \<Rightarrow>
                    Inr (NetTaskMetric_new (sessionId dg) (sequenceNumber dg)
                           (acknowledgementNumber dg) True metrics (utf8_decode rawId) None, r'))))"
  using Metric_deserialize_never_UnknownTask Metric_deserialize_undefined_task by blast

text \<open>
  A metric frame for the task \<open>"mem"\<close> (inner plaintext: length 3, \<open>"mem"\<close>, length 3, the
  bytes 1, 2, 3), received with a configuration whose lookup is defined for \<open>"cpu"\<close> only.
\<close>

lemma example_mem_frame:
  "reader_at
     (BufferReader_new (u32be (length [1, 2, 1, 1, 1, 4, 0x6E, 0x66, 0x6E, 1, 1, 1, 4, 2, 3, 4 :: byte]) @ [1, 2, 1, 1, 1, 4, 0x6E, 0x66, 0x6E, 1, 1, 1, 4, 2, 3, 4] @ []))
     (u32be (length [1, 2, 1, 1, 1, 4, 0x6E, 0x66, 0x6E, 1, 1, 1, 4, 2, 3, 4 :: byte]) @ [1, 2, 1, 1, 1, 4, 0x6E, 0x66, 0x6E, 1, 1, 1, 4, 2, 3, 4] @ [])
   \<and> length [1, 2, 1, 1, 1, 4, 0x6E, 0x66, 0x6E, 1, 1, 1, 4, 2, 3, 4 :: byte] < 2 ^ 32
   \<and> type (NetTask_new (replicate 32 0) NET_TASK_CRYPTO 7 9 False SEND_METRICS 20) = SEND_METRICS
   \<and> deserializeEncryptedMessage example_static [1, 2, 1, 1, 1, 4, 0x6E, 0x66, 0x6E, 1, 1, 1, 4, 2, 3, 4]
       = Some \<lparr>iv = [1], tag = [2], ciphertext = [1, 1, 1, 4, 0x6E, 0x66, 0x6E, 1, 1, 1, 4, 2, 3, 4]\<rparr>
   \<and> decrypt example_ecdhe \<lparr>iv = [1], tag = [2], ciphertext = [1, 1, 1, 4, 0x6E, 0x66, 0x6E, 1, 1, 1, 4, 2, 3, 4]\<rparr>
       = Some (u32be (length [0x6D, 0x65, 0x6D :: byte]) @ [0x6D, 0x65, 0x6D]
               @ u32be (length [1, 2, 3 :: byte]) @ [1, 2, 3])
   \<and> length [0x6D, 0x65, 0x6D :: byte] < 2 ^ 32 \<and> length [1, 2, 3 :: byte] < 2 ^ 32
   \<and> example_config (utf8_decode [0x6D, 0x65, 0x6D]) = None"
  by (simp add: example_defs u32be_bytes utf8_decode_def utf8_dec_ascii NetTask_new_def
      example_config_def)

text \<open>
  Claim C5 as stated fails on this frame: \<open>configTasks[taskId]\<close> is undefined for its
  \<open>taskId\<close>, and \<open>deserialize\<close> fails with \<open>MalformedPayload\<close>, not with \<open>UnknownTask\<close>.
\<close>

theorem C5_UnknownTask_counterexample:
  "NetTaskMetric_deserialize example_static example_SPACK
     (BufferReader_new
        [0, 0, 0, 16, 1, 2, 1, 1, 1, 4, 0x6E, 0x66, 0x6E, 1, 1, 1, 4, 2, 3, 4])
     example_ecdhe (NetTask_new (replicate 32 0) NET_TASK_CRYPTO 7 9 False SEND_METRICS 20)
     example_config
   = Inl MalformedPayload
   \<and> NetTaskMetric_deserialize example_static example_SPACK
     (BufferReader_new
        [0, 0, 0, 16, 1, 2, 1, 1, 1, 4, 0x6E, 0x66, 0x6E, 1, 1, 1, 4, 2, 3, 4])
     example_ecdhe (NetTask_new (replicate 32 0) NET_TASK_CRYPTO 7 9 False SEND_METRICS 20)
     example_config
   \<noteq> Inl UnknownTask"
proof -
  have l: "u32be (length [1, 2, 1, 1, 1, 4, 0x6E, 0x66, 0x6E, 1, 1, 1, 4, 2, 3, 4 :: byte]) @ [1, 2, 1, 1, 1, 4, 0x6E, 0x66, 0x6E, 1, 1, 1, 4, 2, 3, 4] @ []
           = [0, 0, 0, 16, 1, 2, 1, 1, 1, 4, 0x6E, 0x66, 0x6E, 1, 1, 1, 4, 2, 3, 4]"
    by (simp add: u32be_bytes)
  have d: "deserializeTaskMetric example_SPACK [1, 2, 3] None = None"
    by (simp add: example_SPACK_def)
  have "\<exists>r'. reader_at r' [] \<and>
         NetTaskMetric_deserialize example_static example_SPACK
           (BufferReader_new (u32be (length [1, 2, 1, 1, 1, 4, 0x6E, 0x66, 0x6E, 1, 1, 1, 4, 2, 3, 4 :: byte]) @ [1, 2, 1, 1, 1, 4, 0x6E, 0x66, 0x6E, 1, 1, 1, 4, 2, 3, 4] @ []))
           example_ecdhe (NetTask_new (replicate 32 0) NET_TASK_CRYPTO 7 9 False SEND_METRICS 20)
           example_config
         = Inl MalformedPayload"
    using Metric_deserialize_undefined_task
        [where reader = "BufferReader_new (u32be (length [1, 2, 1, 1, 1, 4, 0x6E, 0x66, 0x6E, 1, 1, 1, 4, 2, 3, 4 :: byte]) @ [1, 2, 1, 1, 1, 4, 0x6E, 0x66, 0x6E, 1, 1, 1, 4, 2, 3, 4] @ [])"
           and serEnc = "[1, 2, 1, 1, 1, 4, 0x6E, 0x66, 0x6E, 1, 1, 1, 4, 2, 3, 4]" and rest = "[]"
           and dg = "NetTask_new (replicate 32 0) NET_TASK_CRYPTO 7 9 False SEND_METRICS 20"
           and E = example_static and dm = "\<lparr>iv = [1], tag = [2], ciphertext = [1, 1, 1, 4, 0x6E, 0x66, 0x6E, 1, 1, 1, 4, 2, 3, 4]\<rparr>"
           and ecdhe = example_ecdhe and rawId = "[0x6D, 0x65, 0x6D]" and rawSpack = "[1, 2, 3]"
           and cfg = example_config and S = example_SPACK]
      example_mem_frame
    unfolding d by (simp only: option.case simp_thms)
  then show ?thesis
    unfolding l by auto
qed

text \<open>The same frame satisfies the hypotheses of the amended claim.\<close>

theorem C5_never_UnknownTask_witness:
  "(reader_at
     (BufferReader_new (u32be (length [1, 2, 1, 1, 1, 4, 0x6E, 0x66, 0x6E, 1, 1, 1, 4, 2, 3, 4 :: byte]) @ [1, 2, 1, 1, 1, 4, 0x6E, 0x66, 0x6E, 1, 1, 1, 4, 2, 3, 4] @ []))
     (u32be (length [1, 2, 1, 1, 1, 4, 0x6E, 0x66, 0x6E, 1, 1, 1, 4, 2, 3, 4 :: byte]) @ [1, 2, 1, 1, 1, 4, 0x6E, 0x66, 0x6E, 1, 1, 1, 4, 2, 3, 4] @ [])
   \<and> length [1, 2, 1, 1, 1, 4, 0x6E, 0x66, 0x6E, 1, 1, 1, 4, 2, 3, 4 :: byte] < 2 ^ 32
   \<and> type (NetTask_new (replicate 32 0) NET_TASK_CRYPTO 7 9 False SEND_METRICS 20) = SEND_METRICS
   \<and> deserializeEncryptedMessage example_static [1, 2, 1, 1, 1, 4, 0x6E, 0x66, 0x6E, 1, 1, 1, 4, 2, 3, 4]
       = Some \<lparr>iv = [1], tag = [2], ciphertext = [1, 1, 1, 4, 0x6E, 0x66, 0x6E, 1, 1, 1, 4, 2, 3, 4]\<rparr>
   \<and> decrypt example_ecdhe \<lparr>iv = [1], tag = [2], ciphertext = [1, 1, 1, 4, 0x6E, 0x66, 0x6E, 1, 1, 1, 4, 2, 3, 4]\<rparr>
       = Some (u32be (length [0x6D, 0x65, 0x6D :: byte]) @ [0x6D, 0x65, 0x6D]
               @ u32be (length [1, 2, 3 :: byte]) @ [1, 2, 3])
   \<and> length [0x6D, 0x65, 0x6D :: byte] < 2 ^ 32 \<and> length [1, 2, 3 :: byte] < 2 ^ 32
   \<and> example_config (utf8_decode [0x6D, 0x65, 0x6D]) = None)
   \<and> (\<exists>r'. reader_at r' [] \<and>
         NetTaskMetric_deserialize example_static example_SPACK
           (BufferReader_new (u32be (length [1, 2, 1, 1, 1, 4, 0x6E, 0x66, 0x6E, 1, 1, 1, 4, 2, 3, 4 :: byte]) @ [1, 2, 1, 1, 1, 4, 0x6E, 0x66, 0x6E, 1, 1, 1, 4, 2, 3, 4] @ []))
           example_ecdhe (NetTask_new (replicate 32 0) NET_TASK_CRYPTO 7 9 False SEND_METRICS 20)
           example_config
         = Inl MalformedPayload)"
proof -
  have d: "deserializeTaskMetric example_SPACK [1, 2, 3] None = None"
    by (simp add: example_SPACK_def)
  show ?thesis
    using example_mem_frame
      C5_never_UnknownTask
        [where reader = "BufferReader_new (u32be (length [1, 2, 1, 1, 1, 4, 0x6E, 0x66, 0x6E, 1, 1, 1, 4, 2, 3, 4 :: byte]) @ [1, 2, 1, 1, 1, 4, 0x6E, 0x66, 0x6E, 1, 1, 1, 4, 2, 3, 4] @ [])"
           and serEnc = "[1, 2, 1, 1, 1, 4, 0x6E, 0x66, 0x6E, 1, 1, 1, 4, 2, 3, 4]" and rest = "[]"
           and dg = "NetTask_new (replicate 32 0) NET_TASK_CRYPTO 7 9 False SEND_METRICS 20"
           and E = example_static and dm = "\<lparr>iv = [1], tag = [2], ciphertext = [1, 1, 1, 4, 0x6E, 0x66, 0x6E, 1, 1, 1, 4, 2, 3, 4]\<rparr>"
           and ecdhe = example_ecdhe and rawId = "[0x6D, 0x65, 0x6D]" and rawSpack = "[1, 2, 3]"
           and cfg = example_config and S = example_SPACK]
    unfolding d by (simp only: option.case simp_thms)
qed

subsection \<open>The task id of a metric\<close>

lemma parseMessage_ascii:
  assumes "length taskId < 2 ^ 32" and "length pack < 2 ^ 32"
    and "length (utf8_encode taskId) = length taskId"
  shows "NetTaskMetric_parseMessage S cfg
           (u32be (length taskId) @ utf8_encode taskId @ u32be (length pack) @ pack)
         = and_then (uncaught (deserializeTaskMetric S pack (cfg taskId)))
             (\<lambda>metrics. Inr (taskId, metrics))"
proof -
  have "utf8_decode (utf8_encode taskId) = taskId"
    using assms(3) by (simp add: utf8_encode_length_eq_iff utf8_decode_ascii)
  then show ?thesis
    using parseMessage_ok [of "utf8_encode taskId" pack S cfg] assms by simp
qed

lemma Metric_deserialize_ascii:
  assumes "reader_at reader (u32be (length serEnc) @ serEnc @ rest)"
    and "length serEnc < 2 ^ 32" and "type dg = SEND_METRICS"
    and "deserializeEncryptedMessage E serEnc = Some dm"
    and "decrypt ecdhe dm
           = Some (u32be (length taskId) @ utf8_encode taskId @ u32be (length pack) @ pack)"
    and "length taskId < 2 ^ 32" and "length pack < 2 ^ 32"
    and "length (utf8_encode taskId) = length taskId"
    and "deserializeTaskMetric S pack (cfg taskId) = Some metrics"
  shows "\<exists>r'. reader_at r' rest \<and>
     NetTaskMetric_deserialize E S reader ecdhe dg cfg =
       Inr (NetTaskMetric_new (sessionId dg) (sequenceNumber dg) (acknowledgementNumber dg)
              True metrics taskId (cfg taskId), r')"
proof -
  from Metric_deserialize_frame [OF assms(1-5), of S cfg] obtain r' where
    r': "reader_at r' rest"
      "NetTaskMetric_deserialize E S reader ecdhe dg cfg =
         and_then (try_catch (NetTaskMetric_parseMessage S cfg
             (u32be (length taskId) @ utf8_encode taskId @ u32be (length pack) @ pack))
             MalformedPayload)
           (\<lambda>(taskId, metrics).
              Inr (NetTaskMetric_new (sessionId dg) (sequenceNumber dg) (acknowledgementNumber dg)
                     True metrics taskId (cfg taskId), r'))"
    by blast
  show ?thesis
    using r'(1)
    by (intro exI [of _ r'])
      (simp add: r'(2) parseMessage_ascii [OF assms(6-8)] assms(9))
qed

lemma parseMessage_taskId_field:
  assumes n: "length taskId < 2 ^ 32"
  shows "NetTaskMetric_parseMessage S cfg
           (u32be (length taskId) @ utf8_encode taskId @ u32be (length pack) @ pack)
     = and_then
         (BufferReader_readUInt32
            \<lparr>buffer = u32be (length taskId) @ utf8_encode taskId @ u32be (length pack) @ pack,
             cursor = 4 + length taskId\<rparr>)
         (\<lambda>(spackLen, mr).
       and_then (BufferReader_read spackLen mr) (\<lambda>(rawSpack, mr).
       and_then (uncaught (deserializeTaskMetric S rawSpack
                   (cfg (utf8_decode (take (length taskId) (utf8_encode taskId))))))
         (\<lambda>metrics.
       Inr (utf8_decode (take (length taskId) (utf8_encode taskId)), metrics))))"
proof -
  define enc where "enc = utf8_encode taskId"
  define tail where "tail = u32be (length pack) @ pack"
  have le: "length taskId \<le> length enc"
    unfolding enc_def by (rule utf8_encode_length_ge)
  then have l: "length (take (length taskId) enc) = length taskId"
    by simp
  have b: "u32be (length taskId) @ take (length taskId) enc @ (drop (length taskId) enc @ tail)
           = u32be (length taskId) @ enc @ tail"
    by simp
  have "NetTaskMetric_parseMessage S cfg (u32be (length taskId) @ enc @ tail)
     = and_then
         (BufferReader_readUInt32
            \<lparr>buffer = u32be (length taskId) @ enc @ tail, cursor = 4 + length taskId\<rparr>)
         (\<lambda>(spackLen, mr).
       and_then (BufferReader_read spackLen mr) (\<lambda>(rawSpack, mr).
       and_then (uncaught (deserializeTaskMetric S rawSpack
                   (cfg (utf8_decode (take (length taskId) enc)))))
         (\<lambda>metrics.
       Inr (utf8_decode (take (length taskId) enc), metrics))))"
    using parseMessage_prefix [OF n l, of S cfg "drop (length taskId) enc @ tail"]
    unfolding b .
  then show ?thesis
    unfolding enc_def tail_def .
qed

lemma taskId_field_aligned:
  "(take (length taskId) (utf8_encode taskId) = utf8_encode taskId)
      = (length (utf8_encode taskId) = length taskId)"
  "(drop (4 + length taskId)
      (u32be (length taskId) @ utf8_encode taskId @ u32be (length pack) @ pack)
      = u32be (length pack) @ pack)
      = (length (utf8_encode taskId) = length taskId)"
proof -
  have le: "length taskId \<le> length (utf8_encode taskId)"
    by (rule utf8_encode_length_ge)
  show "(take (length taskId) (utf8_encode taskId) = utf8_encode taskId)
      = (length (utf8_encode taskId) = length taskId)"
    using le by (metis length_take min.absorb2 take_all order_refl)
  have "drop (4 + length taskId)
      (u32be (length taskId) @ utf8_encode taskId @ u32be (length pack) @ pack)
      = drop (length taskId) (utf8_encode taskId) @ u32be (length pack) @ pack"
    using le by simp
  then show "(drop (4 + length taskId)
      (u32be (length taskId) @ utf8_encode taskId @ u32be (length pack) @ pack)
      = u32be (length pack) @ pack)
      = (length (utf8_encode taskId) = length taskId)"
    using le by auto
qed

lemma be_nat_take4_lower:
  assumes "4 \<le> length xs"
  shows "unat (hd xs) * 2 ^ 24 \<le> be_nat (take 4 xs)"
proof -
  have four: "(4 :: nat) = Suc (Suc (Suc (Suc 0)))"
    by simp
  obtain a b c d r where xs: "xs = a # b # c # d # r"
    using assms unfolding four by (auto simp: Suc_le_length_iff)
  show ?thesis
    unfolding xs by (simp add: be_nat_def)
qed

lemma parseMessage_misaligned:
  assumes lt: "length taskId < length (utf8_encode taskId)"
    and hi: "128 \<le> unat (utf8_encode taskId ! length taskId)"
    and small: "length (utf8_encode taskId) + length pack < 2 ^ 31"
  shows "NetTaskMetric_parseMessage S cfg
           (u32be (length taskId) @ utf8_encode taskId @ u32be (length pack) @ pack)
         = Inl TruncatedFrame"
proof -
  define enc where "enc = utf8_encode taskId"
  define n where "n = length taskId"
  define inner where "inner = u32be n @ enc @ u32be (length pack) @ pack"
  have n32: "length taskId < 2 ^ 32"
    using lt small by simp
  have li: "length inner = 8 + length enc + length pack"
    by (simp add: inner_def)
  have d: "drop (4 + n) inner = drop n enc @ u32be (length pack) @ pack"
    using lt by (simp add: inner_def n_def enc_def)
  have hd: "hd (drop (4 + n) inner) = enc ! n"
    unfolding d using lt by (simp add: hd_append hd_drop_conv_nth n_def enc_def)
  have l4: "4 \<le> length (drop (4 + n) inner)"
    unfolding d by simp
  define L where "L = be_nat (take 4 (drop (4 + n) inner))"
  have Lbig: "2 ^ 31 \<le> L"
  proof -
    have "128 * 2 ^ 24 \<le> unat (enc ! n) * (2 ^ 24 :: nat)"
      using hi unfolding enc_def n_def by simp
    also have "\<dots> \<le> L"
      unfolding L_def using be_nat_take4_lower [OF l4] unfolding hd .
    finally show ?thesis by simp
  qed
  have r1: "BufferReader_readUInt32 \<lparr>buffer = inner, cursor = 4 + n\<rparr>
              = Inr (L, \<lparr>buffer = inner, cursor = 8 + n\<rparr>)"
    using lt
    by (simp add: BufferReader_readUInt32_def BufferReader_read_def li L_def n_def enc_def)
  have r2: "BufferReader_read L \<lparr>buffer = inner, cursor = 8 + n\<rparr> = Inl TruncatedFrame"
    using Lbig small by (simp add: BufferReader_read_def li enc_def)
  show ?thesis
    using parseMessage_taskId_field [OF n32, of S cfg pack]
    unfolding enc_def [symmetric] n_def [symmetric] inner_def [symmetric]
    by (simp add: r1 r2)
qed

lemma Metric_new_fields:
  "Metric_taskId (NetTaskMetric_new sid seqNo ackNo frag spack taskId task) = taskId"
  "Metric_spack (NetTaskMetric_new sid seqNo ackNo frag spack taskId task) = spack"
  "Metric_task (NetTaskMetric_new sid seqNo ackNo frag spack taskId task) = task"
  "Metric_ecdhe (NetTaskMetric_new sid seqNo ackNo frag spack taskId task) = None"
  "sequenceNumber (NetTaskMetric_new sid seqNo ackNo frag spack taskId task) = seqNo"
  "acknowledgementNumber (NetTaskMetric_new sid seqNo ackNo frag spack taskId task) = ackNo"
  "fragmented (NetTaskMetric_new sid seqNo ackNo frag spack taskId task) = frag"
  "type (NetTaskMetric_new sid seqNo ackNo frag spack taskId task) = SEND_METRICS"
  by (simp_all add: variant_new_defs)

lemma Metric_deserialize_misaligned:
  assumes "reader_at reader (u32be (length serEnc) @ serEnc @ rest)"
    and "length serEnc < 2 ^ 32" and "type dg = SEND_METRICS"
    and "deserializeEncryptedMessage E serEnc = Some dm"
    and "decrypt ecdhe dm
           = Some (u32be (length taskId) @ utf8_encode taskId @ u32be (length pack) @ pack)"
    and "length taskId < length (utf8_encode taskId)"
    and "128 \<le> unat (utf8_encode taskId ! length taskId)"
    and "length (utf8_encode taskId) + length pack < 2 ^ 31"
  shows "NetTaskMetric_deserialize E S reader ecdhe dg cfg = Inl MalformedPayload"
proof -
  from Metric_deserialize_frame [OF assms(1-5), of S cfg] obtain r' where
    r': "NetTaskMetric_deserialize E S reader ecdhe dg cfg =
         and_then (try_catch (NetTaskMetric_parseMessage S cfg
             (u32be (length taskId) @ utf8_encode taskId @ u32be (length pack) @ pack))
             MalformedPayload)
           (\<lambda>(taskId, metrics).
              Inr (NetTaskMetric_new (sessionId dg) (sequenceNumber dg) (acknowledgementNumber dg)
                     True metrics taskId (cfg taskId), r'))"
    by blast
  show ?thesis
    unfolding r' parseMessage_misaligned [OF assms(6-8)]
    by (simp add: try_catch_def)
qed

text \<open>
  Claim C9. \<open>NetTaskMetric.serialize\<close> returns bytes exactly when every step of the layout
  succeeds, and the inner plaintext it encrypts is then u32 \<open>taskId.length\<close> (the number of
  UTF-16 code units of \<open>taskId\<close>), the UTF-8 encoding of \<open>taskId\<close>, u32 \<open>spackLen\<close>, \<open>spack\<close>. For
  every \<open>taskId\<close> whose UTF-8 byte length equals its number of code units, the parse of that
  plaintext in \<open>NetTaskMetric.deserialize\<close> recovers \<open>taskId\<close> and the metric bytes, and
  \<open>deserialize\<close> returns a datagram whose \<open>taskId\<close> is the original one. The precondition is
  necessary for a consistent parse: for every \<open>taskId\<close> the parse takes the first
  \<open>taskId.length\<close> bytes of the encoding as the task id and reads the length of the metric
  bytes at offset \<open>4 + taskId.length\<close>; those bytes are the whole encoding, and that offset is
  the one of \<open>spackLen\<close>, only if the two lengths agree. If the encoding is longer and its byte
  at index \<open>taskId.length\<close> is 128 or more (the plaintext being shorter than \<open>2^31\<close> bytes), the
  length read there runs past the end: the parse fails and \<open>deserialize\<close> throws
  "Malformed schema payload".
\<close>

theorem C9_taskId_length_prefix:
  "((NetTaskMetric_serialize E S
       (NetTaskMetric_link
                    (NetTaskMetric_new sid seqNo ackNo frag spack taskId task) ecdhe)
       = Inr (bs, this'))
    = (\<exists>rawPack inner innerEnc_record innerEnc payload outerEnc_record outerEnc.
         serializeTaskMetric S spack task = Some rawPack
       \<and> length taskId < 2 ^ 32
       \<and> length rawPack < 2 ^ 32
       \<and> inner = u32be (length taskId) @ utf8_encode taskId @ u32be (length rawPack) @ rawPack
       \<and> encrypt ecdhe inner = Some innerEnc_record
       \<and> serializeEncryptedMessage E innerEnc_record = Some innerEnc
       \<and> length innerEnc < 2 ^ 32 \<and> seqNo < 2 ^ 32 \<and> ackNo < 2 ^ 32
       \<and> payload = (u32be 1 @ u32be seqNo @ u32be ackNo @ [if frag then 1 else 0] @ u32be 5)
                     @ u32be (length innerEnc) @ innerEnc
       \<and> envelope ecdhe payload = Some outerEnc_record
       \<and> serializeEncryptedMessage E outerEnc_record = Some outerEnc
       \<and> length outerEnc < 2 ^ 32
       \<and> this' = (NetTaskMetric_link
                    (NetTaskMetric_new sid seqNo ackNo frag spack taskId task) ecdhe)
                 \<lparr>payloadSize := length outerEnc\<rparr>
       \<and> bs = ([0x4E, 0x54, 0x54, 0x4B] @ sid @ [0x43, 0x43] @ u32be (length outerEnc))
               @ outerEnc))
   \<and> (length taskId < 2 ^ 32 \<and> length pack < 2 ^ 32
        \<and> length (utf8_encode taskId) = length taskId
      \<longrightarrow> NetTaskMetric_parseMessage S cfg
            (u32be (length taskId) @ utf8_encode taskId @ u32be (length pack) @ pack)
          = and_then (uncaught (deserializeTaskMetric S pack (cfg taskId)))
              (\<lambda>metrics. Inr (taskId, metrics)))
   \<and> (reader_at reader (u32be (length serEnc) @ serEnc @ rest) \<and> length serEnc < 2 ^ 32
        \<and> type dg = SEND_METRICS
        \<and> deserializeEncryptedMessage E serEnc = Some dm
        \<and> decrypt ecdhe dm
            = Some (u32be (length taskId) @ utf8_encode taskId @ u32be (length pack) @ pack)
        \<and> length taskId < 2 ^ 32 \<and> length pack < 2 ^ 32
        \<and> length (utf8_encode taskId) = length taskId
        \<and> deserializeTaskMetric S pack (cfg taskId) = Some metrics
      \<longrightarrow> (\<exists>y r'. reader_at r' rest
           \<and> NetTaskMetric_deserialize E S reader ecdhe dg cfg = Inr (y, r')
           \<and> Metric_taskId y = taskId \<and> Metric_spack y = metrics
           \<and> Metric_task y = cfg taskId \<and> Metric_ecdhe y = None
           \<and> sessionId y = sessionId dg \<and> sequenceNumber y = sequenceNumber dg
           \<and> acknowledgementNumber y = acknowledgementNumber dg
           \<and> fragmented y = True \<and> type y = SEND_METRICS))
   \<and> (length taskId < 2 ^ 32
      \<longrightarrow> NetTaskMetric_parseMessage S cfg
             (u32be (length taskId) @ utf8_encode taskId @ u32be (length pack) @ pack)
           = and_then
               (BufferReader_readUInt32
                  \<lparr>buffer = u32be (length taskId) @ utf8_encode taskId
                              @ u32be (length pack) @ pack,
                   cursor = 4 + length taskId\<rparr>)
               (\<lambda>(spackLen, mr).
             and_then (BufferReader_read spackLen mr) (\<lambda>(rawSpack, mr).
             and_then (uncaught (deserializeTaskMetric S rawSpack
                         (cfg (utf8_decode (take (length taskId) (utf8_encode taskId))))))
               (\<lambda>metrics.
             Inr (utf8_decode (take (length taskId) (utf8_encode taskId)), metrics))))
         \<and> (take (length taskId) (utf8_encode taskId) = utf8_encode taskId)
             = (length (utf8_encode taskId) = length taskId)
         \<and> (drop (4 + length taskId)
              (u32be (length taskId) @ utf8_encode taskId @ u32be (length pack) @ pack)
             = u32be (length pack) @ pack)
             = (length (utf8_encode taskId) = length taskId))
   \<and> (length taskId < length (utf8_encode taskId)
        \<and> 128 \<le> unat (utf8_encode taskId ! length taskId)
        \<and> length (utf8_encode taskId) + length pack < 2 ^ 31
      \<longrightarrow> NetTaskMetric_parseMessage S cfg
            (u32be (length taskId) @ utf8_encode taskId @ u32be (length pack) @ pack)
          = Inl TruncatedFrame)
   \<and> (reader_at reader (u32be (length serEnc) @ serEnc @ rest) \<and> length serEnc < 2 ^ 32
        \<and> type dg = SEND_METRICS
        \<and> deserializeEncryptedMessage E serEnc = Some dm
        \<and> decrypt ecdhe dm
            = Some (u32be (length taskId) @ utf8_encode taskId @ u32be (length pack) @ pack)
        \<and> length taskId < length (utf8_encode taskId)
        \<and> 128 \<le> unat (utf8_encode taskId ! length taskId)
        \<and> length (utf8_encode taskId) + length pack < 2 ^ 31
      \<longrightarrow> NetTaskMetric_deserialize E S reader ecdhe dg cfg = Inl MalformedPayload)"
proof (intro conjI impI)
  show "((NetTaskMetric_serialize E S
       (NetTaskMetric_link
                    (NetTaskMetric_new sid seqNo ackNo frag spack taskId task) ecdhe)
       = Inr (bs, this'))
    = (\<exists>rawPack inner innerEnc_record innerEnc payload outerEnc_record outerEnc.
         serializeTaskMetric S spack task = Some rawPack
       \<and> length taskId < 2 ^ 32
       \<and> length rawPack < 2 ^ 32
       \<and> inner = u32be (length taskId) @ utf8_encode taskId @ u32be (length rawPack) @ rawPack
       \<and> encrypt ecdhe inner = Some innerEnc_record
       \<and> serializeEncryptedMessage E innerEnc_record = Some innerEnc
       \<and> length innerEnc < 2 ^ 32 \<and> seqNo < 2 ^ 32 \<and> ackNo < 2 ^ 32
       \<and> payload = (u32be 1 @ u32be seqNo @ u32be ackNo @ [if frag then 1 else 0] @ u32be 5)
                     @ u32be (length innerEnc) @ innerEnc
       \<and> envelope ecdhe payload = Some outerEnc_record
       \<and> serializeEncryptedMessage E outerEnc_record = Some outerEnc
       \<and> length outerEnc < 2 ^ 32
       \<and> this' = (NetTaskMetric_link
                    (NetTaskMetric_new sid seqNo ackNo frag spack taskId task) ecdhe)
                 \<lparr>payloadSize := length outerEnc\<rparr>
       \<and> bs = ([0x4E, 0x54, 0x54, 0x4B] @ sid @ [0x43, 0x43] @ u32be (length outerEnc))
               @ outerEnc))"
    by (rule Metric_serialize_layout)
next
  assume "length taskId < 2 ^ 32 \<and> length pack < 2 ^ 32
        \<and> length (utf8_encode taskId) = length taskId"
  then show "NetTaskMetric_parseMessage S cfg
            (u32be (length taskId) @ utf8_encode taskId @ u32be (length pack) @ pack)
          = and_then (uncaught (deserializeTaskMetric S pack (cfg taskId)))
              (\<lambda>metrics. Inr (taskId, metrics))"
    using parseMessage_ascii by blast
next
  assume a: "reader_at reader (u32be (length serEnc) @ serEnc @ rest) \<and> length serEnc < 2 ^ 32
        \<and> type dg = SEND_METRICS
        \<and> deserializeEncryptedMessage E serEnc = Some dm
        \<and> decrypt ecdhe dm
            = Some (u32be (length taskId) @ utf8_encode taskId @ u32be (length pack) @ pack)
        \<and> length taskId < 2 ^ 32 \<and> length pack < 2 ^ 32
        \<and> length (utf8_encode taskId) = length taskId
        \<and> deserializeTaskMetric S pack (cfg taskId) = Some metrics"
  with Metric_deserialize_ascii [of reader serEnc rest dg E dm ecdhe taskId pack S cfg metrics]
  obtain r' where r': "reader_at r' rest"
    "NetTaskMetric_deserialize E S reader ecdhe dg cfg =
       Inr (NetTaskMetric_new (sessionId dg) (sequenceNumber dg) (acknowledgementNumber dg)
              True metrics taskId (cfg taskId), r')"
    by blast
  show "(\<exists>y r'. reader_at r' rest
           \<and> NetTaskMetric_deserialize E S reader ecdhe dg cfg = Inr (y, r')
           \<and> Metric_taskId y = taskId \<and> Metric_spack y = metrics
           \<and> Metric_task y = cfg taskId \<and> Metric_ecdhe y = None
           \<and> sessionId y = sessionId dg \<and> sequenceNumber y = sequenceNumber dg
           \<and> acknowledgementNumber y = acknowledgementNumber dg
           \<and> fragmented y = True \<and> type y = SEND_METRICS)"
    using r' by (simp add: Metric_new_fields)
next
  assume "length taskId < 2 ^ 32"
  then show "NetTaskMetric_parseMessage S cfg
             (u32be (length taskId) @ utf8_encode taskId @ u32be (length pack) @ pack)
           = and_then
               (BufferReader_readUInt32
                  \<lparr>buffer = u32be (length taskId) @ utf8_encode taskId
                              @ u32be (length pack) @ pack,
                   cursor = 4 + length taskId\<rparr>)
               (\<lambda>(spackLen, mr).
             and_then (BufferReader_read spackLen mr) (\<lambda>(rawSpack, mr).
             and_then (uncaught (deserializeTaskMetric S rawSpack
                         (cfg (utf8_decode (take (length taskId) (utf8_encode taskId))))))
               (\<lambda>metrics.
             Inr (utf8_decode (take (length taskId) (utf8_encode taskId)), metrics))))"
    by (rule parseMessage_taskId_field)
next
  show "(take (length taskId) (utf8_encode taskId) = utf8_encode taskId)
             = (length (utf8_encode taskId) = length taskId)"
    by (rule taskId_field_aligned(1))
next
  show "(drop (4 + length taskId)
              (u32be (length taskId) @ utf8_encode taskId @ u32be (length pack) @ pack)
             = u32be (length pack) @ pack)
             = (length (utf8_encode taskId) = length taskId)"
    by (rule taskId_field_aligned(2))
next
  assume "length taskId < length (utf8_encode taskId)
        \<and> 128 \<le> unat (utf8_encode taskId ! length taskId)
        \<and> length (utf8_encode taskId) + length pack < 2 ^ 31"
  then show "NetTaskMetric_parseMessage S cfg
            (u32be (length taskId) @ utf8_encode taskId @ u32be (length pack) @ pack)
          = Inl TruncatedFrame"
    using parseMessage_misaligned by blast
next
  assume "reader_at reader (u32be (length serEnc) @ serEnc @ rest) \<and> length serEnc < 2 ^ 32
        \<and> type dg = SEND_METRICS
        \<and> deserializeEncryptedMessage E serEnc = Some dm
        \<and> decrypt ecdhe dm
            = Some (u32be (length taskId) @ utf8_encode taskId @ u32be (length pack) @ pack)
        \<and> length taskId < length (utf8_encode taskId)
        \<and> 128 \<le> unat (utf8_encode taskId ! length taskId)
        \<and> length (utf8_encode taskId) + length pack < 2 ^ 31"
  then show "NetTaskMetric_deserialize E S reader ecdhe dg cfg = Inl MalformedPayload"
    using Metric_deserialize_misaligned [of reader serEnc rest dg E dm ecdhe taskId pack S cfg]
    by blast
qed

text \<open>
  A metric frame for the task \<open>"cpu"\<close>, received with the configuration whose lookup is
  defined for it.
\<close>

lemma example_cpu_frame:
  "reader_at (BufferReader_new (u32be (length [1, 2, 1, 1, 1, 4, 0x64, 0x71, 0x76, 1, 1, 1, 4, 2, 3, 4 :: byte]) @ [1, 2, 1, 1, 1, 4, 0x64, 0x71, 0x76, 1, 1, 1, 4, 2, 3, 4] @ []))
       (u32be (length [1, 2, 1, 1, 1, 4, 0x64, 0x71, 0x76, 1, 1, 1, 4, 2, 3, 4 :: byte]) @ [1, 2, 1, 1, 1, 4, 0x64, 0x71, 0x76, 1, 1, 1, 4, 2, 3, 4] @ [])
   \<and> length [1, 2, 1, 1, 1, 4, 0x64, 0x71, 0x76, 1, 1, 1, 4, 2, 3, 4 :: byte] < 2 ^ 32
   \<and> type (NetTask_new (replicate 32 0) NET_TASK_CRYPTO 7 9 False SEND_METRICS 20) = SEND_METRICS
   \<and> deserializeEncryptedMessage example_static [1, 2, 1, 1, 1, 4, 0x64, 0x71, 0x76, 1, 1, 1, 4, 2, 3, 4]
       = Some \<lparr>iv = [1], tag = [2], ciphertext = [1, 1, 1, 4, 0x64, 0x71, 0x76, 1, 1, 1, 4, 2, 3, 4]\<rparr>
   \<and> decrypt example_ecdhe \<lparr>iv = [1], tag = [2], ciphertext = [1, 1, 1, 4, 0x64, 0x71, 0x76, 1, 1, 1, 4, 2, 3, 4]\<rparr>
       = Some (u32be (length [0x63, 0x70, 0x75 :: 16 word]) @ utf8_encode [0x63, 0x70, 0x75]
               @ u32be (length [1, 2, 3 :: byte]) @ [1, 2, 3])
   \<and> length [0x63, 0x70, 0x75 :: 16 word] < 2 ^ 32 \<and> length [1, 2, 3 :: byte] < 2 ^ 32
   \<and> length (utf8_encode [0x63, 0x70, 0x75]) = length [0x63, 0x70, 0x75 :: 16 word]
   \<and> deserializeTaskMetric example_SPACK [1, 2, 3] (example_config [0x63, 0x70, 0x75])
       = Some [1, 2, 3]"
  by (simp add: example_defs u32be_bytes utf8_encode_ascii NetTask_new_def example_config_def)

text \<open>
  A metric frame for the task id \<open>"U+00E9"\<close> (one code unit, two bytes in UTF-8): the parser
  takes the byte \<open>C3\<close> as the task id, reads the next length from \<open>A9 00 00 00\<close> and runs
  past the end.
\<close>

lemma example_e9_frame:
  "reader_at (BufferReader_new (u32be (length [1, 2, 1, 1, 1, 2, 0xC4, 0xAA, 1, 1, 1, 4, 2, 3, 4 :: byte]) @ [1, 2, 1, 1, 1, 2, 0xC4, 0xAA, 1, 1, 1, 4, 2, 3, 4] @ []))
       (u32be (length [1, 2, 1, 1, 1, 2, 0xC4, 0xAA, 1, 1, 1, 4, 2, 3, 4 :: byte]) @ [1, 2, 1, 1, 1, 2, 0xC4, 0xAA, 1, 1, 1, 4, 2, 3, 4] @ [])
   \<and> length [1, 2, 1, 1, 1, 2, 0xC4, 0xAA, 1, 1, 1, 4, 2, 3, 4 :: byte] < 2 ^ 32
   \<and> type (NetTask_new (replicate 32 0) NET_TASK_CRYPTO 7 9 False SEND_METRICS 20) = SEND_METRICS
   \<and> deserializeEncryptedMessage example_static [1, 2, 1, 1, 1, 2, 0xC4, 0xAA, 1, 1, 1, 4, 2, 3, 4]
       = Some \<lparr>iv = [1], tag = [2], ciphertext = [1, 1, 1, 2, 0xC4, 0xAA, 1, 1, 1, 4, 2, 3, 4]\<rparr>
   \<and> decrypt example_ecdhe \<lparr>iv = [1], tag = [2], ciphertext = [1, 1, 1, 2, 0xC4, 0xAA, 1, 1, 1, 4, 2, 3, 4]\<rparr>
       = Some (u32be (length [0xE9 :: 16 word]) @ utf8_encode [0xE9]
               @ u32be (length [1, 2, 3 :: byte]) @ [1, 2, 3])
   \<and> length [0xE9 :: 16 word] < length (utf8_encode [0xE9])
   \<and> 128 \<le> unat (utf8_encode [0xE9] ! length [0xE9 :: 16 word])
   \<and> length (utf8_encode [0xE9]) + length [1, 2, 3 :: byte] < 2 ^ 31"
  by (simp add: example_defs u32be_bytes utf8_encode.simps NetTask_new_def)

text \<open>
  Both task ids with the stand-in collaborators: \<open>serialize\<close> writes the length prefix 3 before
  the three bytes of \<open>"cpu"\<close> and the length prefix 1 before the two bytes of \<open>"U+00E9"\<close>; the
  first frame is parsed back to \<open>"cpu"\<close> and the metric bytes, the parse of the second fails.
\<close>

theorem C9_taskId_length_prefix_witness:
  "NetTaskMetric_serialize example_static example_SPACK
      (NetTaskMetric_link
         (NetTaskMetric_new [0xA0, 0xA1] 7 9 False [1, 2, 3] [0x63, 0x70, 0x75] (Some 0))
         example_ecdhe)
    = Inr ([0x4E, 0x54, 0x54, 0x4B, 0xA0, 0xA1, 0x43, 0x43, 0, 0, 0, 0x27,
            3, 4,
              2, 2, 2, 3,  2, 2, 2, 9,  2, 2, 2, 11,  2,  2, 2, 2, 7,
              2, 2, 2, 18,
              3, 4,
                3, 3, 3, 6,  0x66, 0x73, 0x78,  3, 3, 3, 6,  4, 5, 6],
           (NetTaskMetric_link
              (NetTaskMetric_new [0xA0, 0xA1] 7 9 False [1, 2, 3] [0x63, 0x70, 0x75] (Some 0))
              example_ecdhe)
           \<lparr>payloadSize := 39\<rparr>)
   \<and> NetTaskMetric_serialize example_static example_SPACK
      (NetTaskMetric_link
         (NetTaskMetric_new [0xA0, 0xA1] 7 9 False [1, 2, 3] [0xE9] (Some 0))
         example_ecdhe)
    = Inr ([0x4E, 0x54, 0x54, 0x4B, 0xA0, 0xA1, 0x43, 0x43, 0, 0, 0, 0x26,
            3, 4,
              2, 2, 2, 3,  2, 2, 2, 9,  2, 2, 2, 11,  2,  2, 2, 2, 7,
              2, 2, 2, 17,
              3, 4,
                3, 3, 3, 4,  0xC6, 0xAC,  3, 3, 3, 6,  4, 5, 6],
           (NetTaskMetric_link
              (NetTaskMetric_new [0xA0, 0xA1] 7 9 False [1, 2, 3] [0xE9] (Some 0))
              example_ecdhe)
           \<lparr>payloadSize := 38\<rparr>)
   \<and> (reader_at (BufferReader_new (u32be (length [1, 2, 1, 1, 1, 4, 0x64, 0x71, 0x76, 1, 1, 1, 4, 2, 3, 4 :: byte]) @ [1, 2, 1, 1, 1, 4, 0x64, 0x71, 0x76, 1, 1, 1, 4, 2, 3, 4] @ []))
       (u32be (length [1, 2, 1, 1, 1, 4, 0x64, 0x71, 0x76, 1, 1, 1, 4, 2, 3, 4 :: byte]) @ [1, 2, 1, 1, 1, 4, 0x64, 0x71, 0x76, 1, 1, 1, 4, 2, 3, 4] @ [])
   \<and> length [1, 2, 1, 1, 1, 4, 0x64, 0x71, 0x76, 1, 1, 1, 4, 2, 3, 4 :: byte] < 2 ^ 32
   \<and> type (NetTask_new (replicate 32 0) NET_TASK_CRYPTO 7 9 False SEND_METRICS 20) = SEND_METRICS
   \<and> deserializeEncryptedMessage example_static [1, 2, 1, 1, 1, 4, 0x64, 0x71, 0x76, 1, 1, 1, 4, 2, 3, 4]
       = Some \<lparr>iv = [1], tag = [2], ciphertext = [1, 1, 1, 4, 0x64, 0x71, 0x76, 1, 1, 1, 4, 2, 3, 4]\<rparr>
   \<and> decrypt example_ecdhe \<lparr>iv = [1], tag = [2], ciphertext = [1, 1, 1, 4, 0x64, 0x71, 0x76, 1, 1, 1, 4, 2, 3, 4]\<rparr>
       = Some (u32be (length [0x63, 0x70, 0x75 :: 16 word]) @ utf8_encode [0x63, 0x70, 0x75]
               @ u32be (length [1, 2, 3 :: byte]) @ [1, 2, 3])
   \<and> length [0x63, 0x70, 0x75 :: 16 word] < 2 ^ 32 \<and> length [1, 2, 3 :: byte] < 2 ^ 32
   \<and> length (utf8_encode [0x63, 0x70, 0x75]) = length [0x63, 0x70, 0x75 :: 16 word]
   \<and> deserializeTaskMetric example_SPACK [1, 2, 3] (example_config [0x63, 0x70, 0x75])
       = Some [1, 2, 3])
   \<and> NetTaskMetric_parseMessage example_SPACK example_config
         (u32be (length [0x63, 0x70, 0x75 :: 16 word]) @ utf8_encode [0x63, 0x70, 0x75]
          @ u32be (length [1, 2, 3 :: byte]) @ [1, 2, 3])
       = and_then (uncaught (deserializeTaskMetric example_SPACK [1, 2, 3]
                     (example_config [0x63, 0x70, 0x75])))
           (\<lambda>metrics. Inr ([0x63, 0x70, 0x75], metrics))
   \<and> (\<exists>y r'. reader_at r' []
         \<and> NetTaskMetric_deserialize example_static example_SPACK
             (BufferReader_new (u32be (length [1, 2, 1, 1, 1, 4, 0x64, 0x71, 0x76, 1, 1, 1, 4, 2, 3, 4 :: byte]) @ [1, 2, 1, 1, 1, 4, 0x64, 0x71, 0x76, 1, 1, 1, 4, 2, 3, 4] @ []))
             example_ecdhe (NetTask_new (replicate 32 0) NET_TASK_CRYPTO 7 9 False SEND_METRICS 20) example_config
           = Inr (y, r')
         \<and> Metric_taskId y = [0x63, 0x70, 0x75] \<and> Metric_spack y = [1, 2, 3]
         \<and> Metric_task y = example_config [0x63, 0x70, 0x75] \<and> Metric_ecdhe y = None
         \<and> sessionId y = sessionId (NetTask_new (replicate 32 0) NET_TASK_CRYPTO 7 9 False SEND_METRICS 20)
         \<and> sequenceNumber y = sequenceNumber (NetTask_new (replicate 32 0) NET_TASK_CRYPTO 7 9 False SEND_METRICS 20)
         \<and> acknowledgementNumber y = acknowledgementNumber (NetTask_new (replicate 32 0) NET_TASK_CRYPTO 7 9 False SEND_METRICS 20)
         \<and> fragmented y = True \<and> type y = SEND_METRICS)
   \<and> (reader_at (BufferReader_new (u32be (length [1, 2, 1, 1, 1, 2, 0xC4, 0xAA, 1, 1, 1, 4, 2, 3, 4 :: byte]) @ [1, 2, 1, 1, 1, 2, 0xC4, 0xAA, 1, 1, 1, 4, 2, 3, 4] @ []))
       (u32be (length [1, 2, 1, 1, 1, 2, 0xC4, 0xAA, 1, 1, 1, 4, 2, 3, 4 :: byte]) @ [1, 2, 1, 1, 1, 2, 0xC4, 0xAA, 1, 1, 1, 4, 2, 3, 4] @ [])
   \<and> length [1, 2, 1, 1, 1, 2, 0xC4, 0xAA, 1, 1, 1, 4, 2, 3, 4 :: byte] < 2 ^ 32
   \<and> type (NetTask_new (replicate 32 0) NET_TASK_CRYPTO 7 9 False SEND_METRICS 20) = SEND_METRICS
   \<and> deserializeEncryptedMessage example_static [1, 2, 1, 1, 1, 2, 0xC4, 0xAA, 1, 1, 1, 4, 2, 3, 4]
       = Some \<lparr>iv = [1], tag = [2], ciphertext = [1, 1, 1, 2, 0xC4, 0xAA, 1, 1, 1, 4, 2, 3, 4]\<rparr>
   \<and> decrypt example_ecdhe \<lparr>iv = [1], tag = [2], ciphertext = [1, 1, 1, 2, 0xC4, 0xAA, 1, 1, 1, 4, 2, 3, 4]\<rparr>
       = Some (u32be (length [0xE9 :: 16 word]) @ utf8_encode [0xE9]
               @ u32be (length [1, 2, 3 :: byte]) @ [1, 2, 3])
   \<and> length [0xE9 :: 16 word] < length (utf8_encode [0xE9])
   \<and> 128 \<le> unat (utf8_encode [0xE9] ! length [0xE9 :: 16 word])
   \<and> length (utf8_encode [0xE9]) + length [1, 2, 3 :: byte] < 2 ^ 31)
   \<and> NetTaskMetric_parseMessage example_SPACK example_config
         (u32be (length [0xE9 :: 16 word]) @ utf8_encode [0xE9]
          @ u32be (length [1, 2, 3 :: byte]) @ [1, 2, 3])
       = Inl TruncatedFrame
   \<and> NetTaskMetric_deserialize example_static example_SPACK
         (BufferReader_new (u32be (length [1, 2, 1, 1, 1, 2, 0xC4, 0xAA, 1, 1, 1, 4, 2, 3, 4 :: byte]) @ [1, 2, 1, 1, 1, 2, 0xC4, 0xAA, 1, 1, 1, 4, 2, 3, 4] @ []))
         example_ecdhe (NetTask_new (replicate 32 0) NET_TASK_CRYPTO 7 9 False SEND_METRICS 20) example_config
       = Inl MalformedPayload"
proof -
  have ser: "NetTaskMetric_serialize example_static example_SPACK
      (NetTaskMetric_link
         (NetTaskMetric_new [0xA0, 0xA1] 7 9 False [1, 2, 3] [0x63, 0x70, 0x75] (Some 0))
         example_ecdhe)
    = Inr ([0x4E, 0x54, 0x54, 0x4B, 0xA0, 0xA1, 0x43, 0x43, 0, 0, 0, 0x27,
            3, 4,
              2, 2, 2, 3,  2, 2, 2, 9,  2, 2, 2, 11,  2,  2, 2, 2, 7,
              2, 2, 2, 18,
              3, 4,
                3, 3, 3, 6,  0x66, 0x73, 0x78,  3, 3, 3, 6,  4, 5, 6],
           (NetTaskMetric_link
              (NetTaskMetric_new [0xA0, 0xA1] 7 9 False [1, 2, 3] [0x63, 0x70, 0x75] (Some 0))
              example_ecdhe)
           \<lparr>payloadSize := 39\<rparr>)"
    "NetTaskMetric_serialize example_static example_SPACK
      (NetTaskMetric_link
         (NetTaskMetric_new [0xA0, 0xA1] 7 9 False [1, 2, 3] [0xE9] (Some 0))
         example_ecdhe)
    = Inr ([0x4E, 0x54, 0x54, 0x4B, 0xA0, 0xA1, 0x43, 0x43, 0, 0, 0, 0x26,
            3, 4,
              2, 2, 2, 3,  2, 2, 2, 9,  2, 2, 2, 11,  2,  2, 2, 2, 7,
              2, 2, 2, 17,
              3, 4,
                3, 3, 3, 4,  0xC6, 0xAC,  3, 3, 3, 6,  4, 5, 6],
           (NetTaskMetric_link
              (NetTaskMetric_new [0xA0, 0xA1] 7 9 False [1, 2, 3] [0xE9] (Some 0))
              example_ecdhe)
           \<lparr>payloadSize := 38\<rparr>)"
    unfolding C9_taskId_length_prefix [THEN conjunct1]
    by (simp_all add: example_defs u32be_bytes utf8_encode.simps)
  have cpu: "(reader_at (BufferReader_new (u32be (length [1, 2, 1, 1, 1, 4, 0x64, 0x71, 0x76, 1, 1, 1, 4, 2, 3, 4 :: byte]) @ [1, 2, 1, 1, 1, 4, 0x64, 0x71, 0x76, 1, 1, 1, 4, 2, 3, 4] @ []))
       (u32be (length [1, 2, 1, 1, 1, 4, 0x64, 0x71, 0x76, 1, 1, 1, 4, 2, 3, 4 :: byte]) @ [1, 2, 1, 1, 1, 4, 0x64, 0x71, 0x76, 1, 1, 1, 4, 2, 3, 4] @ [])
   \<and> length [1, 2, 1, 1, 1, 4, 0x64, 0x71, 0x76, 1, 1, 1, 4, 2, 3, 4 :: byte] < 2 ^ 32
   \<and> type (NetTask_new (replicate 32 0) NET_TASK_CRYPTO 7 9 False SEND_METRICS 20) = SEND_METRICS
   \<and> deserializeEncryptedMessage example_static [1, 2, 1, 1, 1, 4, 0x64, 0x71, 0x76, 1, 1, 1, 4, 2, 3, 4]
       = Some \<lparr>iv = [1], tag = [2], ciphertext = [1, 1, 1, 4, 0x64, 0x71, 0x76, 1, 1, 1, 4, 2, 3, 4]\<rparr>
   \<and> decrypt example_ecdhe \<lparr>iv = [1], tag = [2], ciphertext = [1, 1, 1, 4, 0x64, 0x71, 0x76, 1, 1, 1, 4, 2, 3, 4]\<rparr>
       = Some (u32be (length [0x63, 0x70, 0x75 :: 16 word]) @ utf8_encode [0x63, 0x70, 0x75]
               @ u32be (length [1, 2, 3 :: byte]) @ [1, 2, 3])
   \<and> length [0x63, 0x70, 0x75 :: 16 word] < 2 ^ 32 \<and> length [1, 2, 3 :: byte] < 2 ^ 32
   \<and> length (utf8_encode [0x63, 0x70, 0x75]) = length [0x63, 0x70, 0x75 :: 16 word]
   \<and> deserializeTaskMetric example_SPACK [1, 2, 3] (example_config [0x63, 0x70, 0x75])
       = Some [1, 2, 3])
   \<and> NetTaskMetric_parseMessage example_SPACK example_config
         (u32be (length [0x63, 0x70, 0x75 :: 16 word]) @ utf8_encode [0x63, 0x70, 0x75]
          @ u32be (length [1, 2, 3 :: byte]) @ [1, 2, 3])
       = and_then (uncaught (deserializeTaskMetric example_SPACK [1, 2, 3]
                     (example_config [0x63, 0x70, 0x75])))
           (\<lambda>metrics. Inr ([0x63, 0x70, 0x75], metrics))
   \<and> (\<exists>y r'. reader_at r' []
         \<and> NetTaskMetric_deserialize example_static example_SPACK
             (BufferReader_new (u32be (length [1, 2, 1, 1, 1, 4, 0x64, 0x71, 0x76, 1, 1, 1, 4, 2, 3, 4 :: byte]) @ [1, 2, 1, 1, 1, 4, 0x64, 0x71, 0x76, 1, 1, 1, 4, 2, 3, 4] @ []))
             example_ecdhe (NetTask_new (replicate 32 0) NET_TASK_CRYPTO 7 9 False SEND_METRICS 20) example_config
           = Inr (y, r')
         \<and> Metric_taskId y = [0x63, 0x70, 0x75] \<and> Metric_spack y = [1, 2, 3]
         \<and> Metric_task y = example_config [0x63, 0x70, 0x75] \<and> Metric_ecdhe y = None
         \<and> sessionId y = sessionId (NetTask_new (replicate 32 0) NET_TASK_CRYPTO 7 9 False SEND_METRICS 20)
         \<and> sequenceNumber y = sequenceNumber (NetTask_new (replicate 32 0) NET_TASK_CRYPTO 7 9 False SEND_METRICS 20)
         \<and> acknowledgementNumber y = acknowledgementNumber (NetTask_new (replicate 32 0) NET_TASK_CRYPTO 7 9 False SEND_METRICS 20)
         \<and> fragmented y = True \<and> type y = SEND_METRICS)"
    using example_cpu_frame
      C9_taskId_length_prefix [where reader = "BufferReader_new (u32be (length [1, 2, 1, 1, 1, 4, 0x64, 0x71, 0x76, 1, 1, 1, 4, 2, 3, 4 :: byte]) @ [1, 2, 1, 1, 1, 4, 0x64, 0x71, 0x76, 1, 1, 1, 4, 2, 3, 4] @ [])"
         and serEnc = "[1, 2, 1, 1, 1, 4, 0x64, 0x71, 0x76, 1, 1, 1, 4, 2, 3, 4]" and rest = "[]" and dg = "NetTask_new (replicate 32 0) NET_TASK_CRYPTO 7 9 False SEND_METRICS 20"
         and E = example_static and dm = "\<lparr>iv = [1], tag = [2], ciphertext = [1, 1, 1, 4, 0x64, 0x71, 0x76, 1, 1, 1, 4, 2, 3, 4]\<rparr>"
         and ecdhe = example_ecdhe and taskId = "[0x63, 0x70, 0x75]" and pack = "[1, 2, 3]"
         and cfg = example_config and S = example_SPACK and metrics = "[1, 2, 3]"]
    by (simp only: simp_thms)
  have e9: "(reader_at (BufferReader_new (u32be (length [1, 2, 1, 1, 1, 2, 0xC4, 0xAA, 1, 1, 1, 4, 2, 3, 4 :: byte]) @ [1, 2, 1, 1, 1, 2, 0xC4, 0xAA, 1, 1, 1, 4, 2, 3, 4] @ []))
       (u32be (length [1, 2, 1, 1, 1, 2, 0xC4, 0xAA, 1, 1, 1, 4, 2, 3, 4 :: byte]) @ [1, 2, 1, 1, 1, 2, 0xC4, 0xAA, 1, 1, 1, 4, 2, 3, 4] @ [])
   \<and> length [1, 2, 1, 1, 1, 2, 0xC4, 0xAA, 1, 1, 1, 4, 2, 3, 4 :: byte] < 2 ^ 32
   \<and> type (NetTask_new (replicate 32 0) NET_TASK_CRYPTO 7 9 False SEND_METRICS 20) = SEND_METRICS
   \<and> deserializeEncryptedMessage example_static [1, 2, 1, 1, 1, 2, 0xC4, 0xAA, 1, 1, 1, 4, 2, 3, 4]
       = Some \<lparr>iv = [1], tag = [2], ciphertext = [1, 1, 1, 2, 0xC4, 0xAA, 1, 1, 1, 4, 2, 3, 4]\<rparr>
   \<and> decrypt example_ecdhe \<lparr>iv = [1], tag = [2], ciphertext = [1, 1, 1, 2, 0xC4, 0xAA, 1, 1, 1, 4, 2, 3, 4]\<rparr>
       = Some (u32be (length [0xE9 :: 16 word]) @ utf8_encode [0xE9]
               @ u32be (length [1, 2, 3 :: byte]) @ [1, 2, 3])
   \<and> length [0xE9 :: 16 word] < length (utf8_encode [0xE9])
   \<and> 128 \<le> unat (utf8_encode [0xE9] ! length [0xE9 :: 16 word])
   \<and> length (utf8_encode [0xE9]) + length [1, 2, 3 :: byte] < 2 ^ 31)
   \<and> NetTaskMetric_parseMessage example_SPACK example_config
         (u32be (length [0xE9 :: 16 word]) @ utf8_encode [0xE9]
          @ u32be (length [1, 2, 3 :: byte]) @ [1, 2, 3])
       = Inl TruncatedFrame
   \<and> NetTaskMetric_deserialize example_static example_SPACK
         (BufferReader_new (u32be (length [1, 2, 1, 1, 1, 2, 0xC4, 0xAA, 1, 1, 1, 4, 2, 3, 4 :: byte]) @ [1, 2, 1, 1, 1, 2, 0xC4, 0xAA, 1, 1, 1, 4, 2, 3, 4] @ []))
         example_ecdhe (NetTask_new (replicate 32 0) NET_TASK_CRYPTO 7 9 False SEND_METRICS 20) example_config
       = Inl MalformedPayload"
    using example_e9_frame
      C9_taskId_length_prefix [where reader = "BufferReader_new (u32be (length [1, 2, 1, 1, 1, 2, 0xC4, 0xAA, 1, 1, 1, 4, 2, 3, 4 :: byte]) @ [1, 2, 1, 1, 1, 2, 0xC4, 0xAA, 1, 1, 1, 4, 2, 3, 4] @ [])"
         and serEnc = "[1, 2, 1, 1, 1, 2, 0xC4, 0xAA, 1, 1, 1, 4, 2, 3, 4]" and rest = "[]" and dg = "NetTask_new (replicate 32 0) NET_TASK_CRYPTO 7 9 False SEND_METRICS 20"
         and E = example_static and dm = "\<lparr>iv = [1], tag = [2], ciphertext = [1, 1, 1, 2, 0xC4, 0xAA, 1, 1, 1, 4, 2, 3, 4]\<rparr>"
         and ecdhe = example_ecdhe and taskId = "[0xE9]" and pack = "[1, 2, 3]"
         and cfg = example_config and S = example_SPACK]
    by (simp only: simp_thms)
  show ?thesis
    using ser cpu e9 by (simp only: simp_thms)
qed

subsection \<open>Receiving a datagram\<close>

lemma verifySignature_ok:
  assumes "reader_at reader (NET_TASK_SIGNATURE @ rest)"
  shows "\<exists>r'. NetTask_verifySignature reader = Inr (True, r') \<and> reader_at r' rest"
proof -
  have "length NET_TASK_SIGNATURE = 4" by (simp add: NET_TASK_SIGNATURE_def)
  from read_ok [OF assms this] obtain r' where
    "BufferReader_read 4 reader = Inr (NET_TASK_SIGNATURE, r')" "reader_at r' rest" by blast
  then show ?thesis by (simp add: NetTask_verifySignature_def)
qed

lemma deserializePublicHeader_ok:
  assumes "reader_at reader (sid @ mark @ u32be p @ rest)" and "length sid = HASH_LEN"
    and "mark = NET_TASK_CRYPTO \<or> mark = NET_TASK_NOCRYPTO" and "p < 2 ^ 32"
  shows "\<exists>r'. NetTask_deserializePublicHeader HASH_LEN reader =
            Inr (\<lparr>ph_cryptoMark = mark, ph_sessionId = sid, ph_payloadSize = p\<rparr>, r')
          \<and> reader_at r' rest"
proof -
  have lm: "length mark = 2"
    using assms(3) by auto
  from read_ok [OF assms(1,2)] obtain r1 where
    r1: "BufferReader_read HASH_LEN reader = Inr (sid, r1)"
      "reader_at r1 (mark @ u32be p @ rest)" by blast
  from read_ok [OF r1(2) lm] obtain r2 where
    r2: "BufferReader_read 2 r1 = Inr (mark, r2)"
      "reader_at r2 (u32be p @ rest)" by blast
  from readUInt32_ok [OF r2(2) assms(4)] obtain r3 where
    r3: "BufferReader_readUInt32 r2 = Inr (p, r3)" "reader_at r3 rest" by blast
  show ?thesis
    using assms(3) r3(2)
    by (intro exI [of _ r3]) (auto simp: NetTask_deserializePublicHeader_def r1(1) r2(1) r3(1))
qed

lemma deserializePrivateHeader_ok:
  assumes "reader_at reader
             (u32be 1 @ u32be seqNo @ u32be ackNo @ [if frag then 1 else 0] @ u32be ty @ rest)"
    and "seqNo < 2 ^ 32" and "ackNo < 2 ^ 32" and "ty < 2 ^ 32"
  shows "\<exists>r'. NetTask_deserializePrivateHeader reader ph =
            Inr (NetTask_new (ph_sessionId ph) (ph_cryptoMark ph) seqNo ackNo frag ty
                   (ph_payloadSize ph), r')
          \<and> reader_at r' rest"
proof -
  from readUInt32_ok [OF assms(1)] obtain r1 where
    r1: "BufferReader_readUInt32 reader = Inr (1, r1)"
      "reader_at r1 (u32be seqNo @ u32be ackNo @ [if frag then 1 else 0] @ u32be ty @ rest)"
    by auto
  from readUInt32_ok [OF r1(2) assms(2)] obtain r2 where
    r2: "BufferReader_readUInt32 r1 = Inr (seqNo, r2)"
      "reader_at r2 (u32be ackNo @ [if frag then 1 else 0] @ u32be ty @ rest)"
    by blast
  from readUInt32_ok [OF r2(2) assms(3)] obtain r3 where
    r3: "BufferReader_readUInt32 r2 = Inr (ackNo, r3)"
      "reader_at r3 ((if frag then 1 else 0) # u32be ty @ rest)"
    by auto
  from readInt8_ok [OF r3(2)] obtain r4 where
    r4: "BufferReader_readInt8 r3 = Inr (sint (if frag then 1 else 0 :: byte), r4)"
      "reader_at r4 (u32be ty @ rest)"
    by blast
  from readUInt32_ok [OF r4(2) assms(4)] obtain r5 where
    r5: "BufferReader_readUInt32 r4 = Inr (ty, r5)" "reader_at r5 rest"
    by blast
  show ?thesis
    using r5(2)
    by (intro exI [of _ r5])
      (simp add: NetTask_deserializePrivateHeader_def NET_TASK_VERSION_def
        r1(1) r2(1) r3(1) r4(1) r5(1))
qed

lemma receive_header_cleartext:
  assumes "length sid = HASH_LEN" and "p < 2 ^ 32"
    and "seqNo < 2 ^ 32" and "ackNo < 2 ^ 32" and "ty < 2 ^ 32"
  shows "\<exists>r'. receive_header HASH_LEN E session
            (NET_TASK_SIGNATURE @ sid @ NET_TASK_NOCRYPTO @ u32be p
               @ (u32be 1 @ u32be seqNo @ u32be ackNo @ [if frag then 1 else 0] @ u32be ty)
               @ rest)
          = Inr (NetTask_new sid NET_TASK_NOCRYPTO seqNo ackNo frag ty p, r')
        \<and> reader_at r' rest"
proof -
  let ?priv = "u32be 1 @ u32be seqNo @ u32be ackNo @ [if frag then 1 else 0] @ u32be ty @ rest"
  let ?bs = "NET_TASK_SIGNATURE @ sid @ NET_TASK_NOCRYPTO @ u32be p
               @ (u32be 1 @ u32be seqNo @ u32be ackNo @ [if frag then 1 else 0] @ u32be ty)
               @ rest"
  have "reader_at (BufferReader_new ?bs)
          (NET_TASK_SIGNATURE @ (sid @ NET_TASK_NOCRYPTO @ u32be p @ ?priv))"
    by (simp add: reader_at_def BufferReader_new_def)
  from verifySignature_ok [OF this] obtain r1 where
    r1: "NetTask_verifySignature (BufferReader_new ?bs) = Inr (True, r1)"
      "reader_at r1 (sid @ NET_TASK_NOCRYPTO @ u32be p @ ?priv)" by blast
  from deserializePublicHeader_ok [OF r1(2) assms(1) _ assms(2)] obtain r2 where
    r2: "NetTask_deserializePublicHeader HASH_LEN r1 =
            Inr (\<lparr>ph_cryptoMark = NET_TASK_NOCRYPTO, ph_sessionId = sid, ph_payloadSize = p\<rparr>, r2)"
      "reader_at r2 ?priv" by blast
  from deserializePrivateHeader_ok [OF r2(2) assms(3-5),
      where ph = "\<lparr>ph_cryptoMark = NET_TASK_NOCRYPTO, ph_sessionId = sid, ph_payloadSize = p\<rparr>"]
  have "\<exists>r3. NetTask_deserializePrivateHeader r2
           \<lparr>ph_cryptoMark = NET_TASK_NOCRYPTO, ph_sessionId = sid, ph_payloadSize = p\<rparr> =
            Inr (NetTask_new sid NET_TASK_NOCRYPTO seqNo ackNo frag ty p, r3)
          \<and> reader_at r3 rest"
    by (simp only: NetTaskPublicHeader.simps)
  then obtain r3 where
    r3: "NetTask_deserializePrivateHeader r2
           \<lparr>ph_cryptoMark = NET_TASK_NOCRYPTO, ph_sessionId = sid, ph_payloadSize = p\<rparr> =
            Inr (NetTask_new sid NET_TASK_NOCRYPTO seqNo ackNo frag ty p, r3)"
      "reader_at r3 rest" by blast
  have ne: "NET_TASK_CRYPTO \<noteq> NET_TASK_NOCRYPTO"
    by (simp add: NET_TASK_CRYPTO_def NET_TASK_NOCRYPTO_def)
  have "receive_header HASH_LEN E session ?bs
          = Inr (NetTask_new sid NET_TASK_NOCRYPTO seqNo ackNo frag ty p, r3)"
    unfolding receive_header_def r1(1)
    by (simp add: r2(1) r3(1) NetTask_isEncrypted_header_def ne)
  with r3(2) show ?thesis by blast
qed

lemma receive_header_encrypted:
  assumes "length sid = HASH_LEN" and "length outerEnc < 2 ^ 32"
    and "deserializeEncryptedMessage E outerEnc = Some msg"
    and "openEnvelope ecdhe msg
           = Some ((u32be 1 @ u32be seqNo @ u32be ackNo @ [if frag then 1 else 0] @ u32be ty)
                   @ rest)"
    and "seqNo < 2 ^ 32" and "ackNo < 2 ^ 32" and "ty < 2 ^ 32"
  shows "\<exists>r'. receive_header HASH_LEN E (Some ecdhe)
            (NET_TASK_SIGNATURE @ sid @ NET_TASK_CRYPTO @ u32be (length outerEnc) @ outerEnc)
          = Inr (NetTask_new sid NET_TASK_CRYPTO seqNo ackNo frag ty (length outerEnc), r')
        \<and> reader_at r' rest"
proof -
  let ?priv = "u32be 1 @ u32be seqNo @ u32be ackNo @ [if frag then 1 else 0] @ u32be ty @ rest"
  let ?bs = "NET_TASK_SIGNATURE @ sid @ NET_TASK_CRYPTO @ u32be (length outerEnc) @ outerEnc"
  let ?ph = "\<lparr>ph_cryptoMark = NET_TASK_CRYPTO, ph_sessionId = sid,
              ph_payloadSize = length outerEnc\<rparr>"
  have "reader_at (BufferReader_new ?bs)
          (NET_TASK_SIGNATURE @ (sid @ NET_TASK_CRYPTO @ u32be (length outerEnc) @ outerEnc @ []))"
    by (simp add: reader_at_def BufferReader_new_def)
  from verifySignature_ok [OF this] obtain r1 where
    r1: "NetTask_verifySignature (BufferReader_new ?bs) = Inr (True, r1)"
      "reader_at r1 (sid @ NET_TASK_CRYPTO @ u32be (length outerEnc) @ outerEnc @ [])" by blast
  from deserializePublicHeader_ok [OF r1(2) assms(1) _ assms(2)] obtain r2 where
    r2: "NetTask_deserializePublicHeader HASH_LEN r1 = Inr (?ph, r2)"
      "reader_at r2 (outerEnc @ [])" by blast
  from read_ok [OF r2(2) refl] obtain r3 where
    r3: "BufferReader_read (length outerEnc) r2 = Inr (outerEnc, r3)" by blast
  define payload where
    "payload = (u32be 1 @ u32be seqNo @ u32be ackNo @ [if frag then 1 else 0] @ u32be ty) @ rest"
  have oe: "openEnvelope ecdhe msg = Some payload"
    using assms(4) by (simp only: payload_def)
  have "reader_at (BufferReader_new payload) ?priv"
    by (simp add: payload_def reader_at_def BufferReader_new_def)
  from deserializePrivateHeader_ok [OF this assms(5-7), where ph = ?ph]
  have "\<exists>r4. NetTask_deserializePrivateHeader (BufferReader_new payload) ?ph
         = Inr (NetTask_new sid NET_TASK_CRYPTO seqNo ackNo frag ty (length outerEnc), r4)
       \<and> reader_at r4 rest"
    by (simp only: NetTaskPublicHeader.simps)
  then obtain r4 where
    r4: "NetTask_deserializePrivateHeader (BufferReader_new payload) ?ph
         = Inr (NetTask_new sid NET_TASK_CRYPTO seqNo ackNo frag ty (length outerEnc), r4)"
      "reader_at r4 rest" by blast
  have "receive_header HASH_LEN E (Some ecdhe) ?bs
          = Inr (NetTask_new sid NET_TASK_CRYPTO seqNo ackNo frag ty (length outerEnc), r4)"
    unfolding receive_header_def r1(1)
    by (simp add: r2(1) r3 NetTask_isEncrypted_header_def assms(3) oe r4(1))
  with r4(2) show ?thesis by blast
qed

subsection \<open>Round trips\<close>

lemma NetTask_new_fields [simp]:
  "sessionId (NetTask_new sid mark seqNo ackNo frag ty p) = sid"
  "cryptoMark (NetTask_new sid mark seqNo ackNo frag ty p) = mark"
  "version (NetTask_new sid mark seqNo ackNo frag ty p) = 1"
  "sequenceNumber (NetTask_new sid mark seqNo ackNo frag ty p) = seqNo"
  "acknowledgementNumber (NetTask_new sid mark seqNo ackNo frag ty p) = ackNo"
  "fragmented (NetTask_new sid mark seqNo ackNo frag ty p) = frag"
  "type (NetTask_new sid mark seqNo ackNo frag ty p) = ty"
  "payloadSize (NetTask_new sid mark seqNo ackNo frag ty p) = p"
  by (simp_all add: NetTask_new_def NET_TASK_VERSION_def)

text \<open>
  Whatever the base datagram holds, \<open>NetTaskPushSchemas.deserialize\<close> builds its result with
  the literals \<open>123123, 123123, true\<close>, and \<open>NetTaskMetric.deserialize\<close> with the literal
  \<open>true\<close> for the fragmented flag.
\<close>

lemma PushSchemas_deserialize_fixed:
  assumes "NetTaskPushSchemas_deserialize E S reader ecdhe dg = Inr (y, r')"
  shows "sequenceNumber y = 123123 \<and> acknowledgementNumber y = 123123 \<and> fragmented y"
  using assms
  by (auto simp: NetTaskPushSchemas_deserialize_def and_then_eq_Inr variant_new_defs
      split: if_splits)

lemma Metric_deserialize_fragmented:
  assumes "NetTaskMetric_deserialize E S reader ecdhe dg cfg = Inr (y, r')"
  shows "fragmented y"
  using assms
  by (auto simp: NetTaskMetric_deserialize_def and_then_eq_Inr variant_new_defs
      split: if_splits)

text \<open>
  A PushSchemas datagram with a zero session id of 32 bytes, sequence number 7,
  acknowledgement number 9, not fragmented, carrying the task collection \<open>{cpu: ...}\<close>,
  linked to the stand-in ECDHE: first the bytes that \<open>serialize\<close> returns, then what the
  receiving side makes of them.
\<close>

lemma example_PushSchemas_serialize:
  "NetTaskPushSchemas_serialize example_static example_SPACK
     (NetTaskPushSchemas_link (NetTaskPushSchemas_new (replicate 32 0) 7 9 False (TaskCollection [([0x63, 0x70, 0x75], [0x63, 0x70, 0x75])])) example_ecdhe)
   = Inr ([0x4E, 0x54, 0x54, 0x4B] @ replicate 32 0 @ [0x43, 0x43, 0, 0, 0, 32] @ [3, 4, 2, 2, 2, 3, 2, 2, 2, 9, 2, 2, 2, 11, 2, 2, 2, 2, 6, 2, 2, 2, 11, 3, 4, 3, 3, 3, 6, 0x66, 0x73, 0x78],
          (NetTaskPushSchemas_link (NetTaskPushSchemas_new (replicate 32 0) 7 9 False (TaskCollection [([0x63, 0x70, 0x75], [0x63, 0x70, 0x75])])) example_ecdhe)
          \<lparr>payloadSize := 32\<rparr>)"
  unfolding PushSchemas_serialize_eq_Inr encrypted_serialize_eq_Inr serializePrivateHeader_eq_Inr
  by (simp add: NetTaskPushSchemas_link_def variant_new_defs constant_defs
      NetTaskPushSchemas_pack_def example_defs u32be_bytes utf8_encode_ascii)

lemma example_PushSchemas_receive:
  "receive_PushSchemas 32 example_static example_SPACK example_ecdhe
     ([0x4E, 0x54, 0x54, 0x4B] @ replicate 32 0 @ [0x43, 0x43, 0, 0, 0, 32] @ [3, 4, 2, 2, 2, 3, 2, 2, 2, 9, 2, 2, 2, 11, 2, 2, 2, 2, 6, 2, 2, 2, 11, 3, 4, 3, 3, 3, 6, 0x66, 0x73, 0x78])
   = Inr (NetTaskPushSchemas_new (replicate 32 0) 123123 123123 True
            (TaskCollection [([0x63, 0x70, 0x75], [0x63, 0x70, 0x75])]))"
proof -
  define outerEnc :: bytes where "outerEnc = [3, 4, 2, 2, 2, 3, 2, 2, 2, 9, 2, 2, 2, 11, 2, 2, 2, 2, 6, 2, 2, 2, 11, 3, 4, 3, 3, 3, 6, 0x66, 0x73, 0x78]"
  define innerEnc :: bytes where "innerEnc = [1, 2, 1, 1, 1, 4, 0x64, 0x71, 0x76]"
  have bs: "[0x4E, 0x54, 0x54, 0x4B] @ replicate 32 0 @ [0x43, 0x43, 0, 0, 0, 32] @ [3, 4, 2, 2, 2, 3, 2, 2, 2, 9, 2, 2, 2, 11, 2, 2, 2, 2, 6, 2, 2, 2, 11, 3, 4, 3, 3, 3, 6, 0x66, 0x73, 0x78]
      = NET_TASK_SIGNATURE @ replicate 32 0 @ NET_TASK_CRYPTO @ u32be (length outerEnc) @ outerEnc"
    by (simp add: outerEnc_def constant_defs u32be_bytes)
  have d1: "deserializeEncryptedMessage example_static outerEnc
      = Some \<lparr>iv = [3], tag = [4], ciphertext = [2, 2, 2, 3, 2, 2, 2, 9, 2, 2, 2, 11, 2, 2, 2, 2, 6, 2, 2, 2, 11, 3, 4, 3, 3, 3, 6, 0x66, 0x73, 0x78]\<rparr>"
    by (simp add: outerEnc_def example_defs)
  have o1: "openEnvelope example_ecdhe \<lparr>iv = [3], tag = [4], ciphertext = [2, 2, 2, 3, 2, 2, 2, 9, 2, 2, 2, 11, 2, 2, 2, 2, 6, 2, 2, 2, 11, 3, 4, 3, 3, 3, 6, 0x66, 0x73, 0x78]\<rparr>
      = Some ((u32be 1 @ u32be 7 @ u32be 9 @ [if False then 1 else 0] @ u32be 4)
              @ (u32be (length innerEnc) @ innerEnc @ []))"
    by (simp add: innerEnc_def example_defs u32be_bytes)
  from receive_header_encrypted [of "replicate 32 0" 32 outerEnc example_static _ example_ecdhe
      7 9 False 4, OF _ _ d1 o1]
  obtain r1 where
    r1: "receive_header 32 example_static (Some example_ecdhe)
           (NET_TASK_SIGNATURE @ replicate 32 0 @ NET_TASK_CRYPTO @ u32be (length outerEnc)
              @ outerEnc)
         = Inr (NetTask_new (replicate 32 0) NET_TASK_CRYPTO 7 9 False 4 (length outerEnc), r1)"
      "reader_at r1 (u32be (length innerEnc) @ innerEnc @ [])"
    by (auto simp: outerEnc_def)
  have d2: "deserializeEncryptedMessage example_static innerEnc
      = Some \<lparr>iv = [1], tag = [2], ciphertext = [1, 1, 1, 4, 0x64, 0x71, 0x76]\<rparr>"
    by (simp add: innerEnc_def example_defs)
  have o2: "decrypt example_ecdhe \<lparr>iv = [1], tag = [2], ciphertext = [1, 1, 1, 4, 0x64, 0x71, 0x76]\<rparr>
      = Some [0, 0, 0, 3, 0x63, 0x70, 0x75]"
    by (simp add: example_defs)
  have li: "length innerEnc < 2 ^ 32"
    by (simp add: innerEnc_def)
  have ty: "type (NetTask_new (replicate 32 0) NET_TASK_CRYPTO 7 9 False 4 (length outerEnc))
      = PUSH_SCHEMAS"
    by (simp add: PUSH_SCHEMAS_def)
  from PushSchemas_deserialize_frame [OF r1(2) li ty d2 o2, of example_SPACK]
  obtain r2 where
    r2: "NetTaskPushSchemas_deserialize example_static example_SPACK r1 example_ecdhe
           (NetTask_new (replicate 32 0) NET_TASK_CRYPTO 7 9 False 4 (length outerEnc))
         = and_then (try_catch
                  (and_then (Buffer_readUInt32BE [0, 0, 0, 3, 0x63, 0x70, 0x75]) (\<lambda>spackLen.
                   let rawSpack = Buffer_subarray [0, 0, 0, 3, 0x63, 0x70, 0x75] 4 (spackLen + 4) in
                   and_then (uncaught (deserializeSPACK example_SPACK rawSpack)) (\<lambda>spack.
                   uncaught (unpackTaskSchemas example_SPACK spack))))
                  MalformedPayload)
         (\<lambda>tasks.
            Inr (NetTaskPushSchemas_new
                   (sessionId (NetTask_new (replicate 32 0) NET_TASK_CRYPTO 7 9 False 4
                      (length outerEnc)))
                   123123 123123 True (TaskCollection tasks), r2))"
    by blast
  have p: "and_then (Buffer_readUInt32BE [0, 0, 0, 3, 0x63, 0x70, 0x75]) (\<lambda>spackLen.
                   let rawSpack = Buffer_subarray [0, 0, 0, 3, 0x63, 0x70, 0x75] 4 (spackLen + 4) in
                   and_then (uncaught (deserializeSPACK example_SPACK rawSpack)) (\<lambda>spack.
                   uncaught (unpackTaskSchemas example_SPACK spack)))
      = Inr [([0x63, 0x70, 0x75], [0x63, 0x70, 0x75])]"
    by (simp add: Buffer_readUInt32BE_def Buffer_subarray_def be_nat_def example_SPACK_def
        utf8_decode_def utf8_dec_ascii)
  show ?thesis
    unfolding bs receive_PushSchemas_def r1(1) and_then_Inr prod.case r2 p by simp
qed

text \<open>
  Claim C1 says that deserializing the bytes of \<open>x.serialize()\<close> yields a datagram equal
  to \<open>x\<close> on \<open>sessionId\<close>, \<open>sequenceNumber\<close>, \<open>acknowledgementNumber\<close>, fragmented flag,
  type and payload. The code does not do that for the PushSchemas datagram above: the
  session id and the task collection come back, but the datagram sent with sequence
  number 7, acknowledgement number 9 and fragmented flag false comes back with 123123,
  123123 and true.
\<close>

theorem C1_PushSchemas_roundtrip_loses_numbers:
  "NetTaskPushSchemas_serialize example_static example_SPACK
     (NetTaskPushSchemas_link (NetTaskPushSchemas_new (replicate 32 0) 7 9 False (TaskCollection [([0x63, 0x70, 0x75], [0x63, 0x70, 0x75])])) example_ecdhe)
   = Inr ([0x4E, 0x54, 0x54, 0x4B] @ replicate 32 0 @ [0x43, 0x43, 0, 0, 0, 32] @ [3, 4, 2, 2, 2, 3, 2, 2, 2, 9, 2, 2, 2, 11, 2, 2, 2, 2, 6, 2, 2, 2, 11, 3, 4, 3, 3, 3, 6, 0x66, 0x73, 0x78],
          (NetTaskPushSchemas_link (NetTaskPushSchemas_new (replicate 32 0) 7 9 False (TaskCollection [([0x63, 0x70, 0x75], [0x63, 0x70, 0x75])])) example_ecdhe)
          \<lparr>payloadSize := 32\<rparr>)
   \<and> receive_PushSchemas 32 example_static example_SPACK example_ecdhe
       ([0x4E, 0x54, 0x54, 0x4B] @ replicate 32 0 @ [0x43, 0x43, 0, 0, 0, 32] @ [3, 4, 2, 2, 2, 3, 2, 2, 2, 9, 2, 2, 2, 11, 2, 2, 2, 2, 6, 2, 2, 2, 11, 3, 4, 3, 3, 3, 6, 0x66, 0x73, 0x78])
     = Inr (NetTaskPushSchemas_new (replicate 32 0) 123123 123123 True
              (TaskCollection [([0x63, 0x70, 0x75], [0x63, 0x70, 0x75])]))
   \<and> sequenceNumber (NetTaskPushSchemas_link (NetTaskPushSchemas_new (replicate 32 0) 7 9 False (TaskCollection [([0x63, 0x70, 0x75], [0x63, 0x70, 0x75])])) example_ecdhe) = 7
   \<and> acknowledgementNumber (NetTaskPushSchemas_link (NetTaskPushSchemas_new (replicate 32 0) 7 9 False (TaskCollection [([0x63, 0x70, 0x75], [0x63, 0x70, 0x75])])) example_ecdhe) = 9
   \<and> fragmented (NetTaskPushSchemas_link (NetTaskPushSchemas_new (replicate 32 0) 7 9 False (TaskCollection [([0x63, 0x70, 0x75], [0x63, 0x70, 0x75])])) example_ecdhe) = False
   \<and> sequenceNumber (NetTaskPushSchemas_new (replicate 32 0) 123123 123123 True
              (TaskCollection [([0x63, 0x70, 0x75], [0x63 :: 8 word, 0x70, 0x75])])) = 123123
   \<and> acknowledgementNumber (NetTaskPushSchemas_new (replicate 32 0) 123123 123123 True
              (TaskCollection [([0x63, 0x70, 0x75], [0x63 :: 8 word, 0x70, 0x75])])) = 123123
   \<and> fragmented (NetTaskPushSchemas_new (replicate 32 0) 123123 123123 True
              (TaskCollection [([0x63, 0x70, 0x75], [0x63 :: 8 word, 0x70, 0x75])])) = True"
  using example_PushSchemas_serialize example_PushSchemas_receive
  by (simp add: NetTaskPushSchemas_link_def variant_new_defs)

text \<open>
  The three handshake variants with a payload do come back unchanged: whenever
  \<open>serialize\<close> returns, the receiving side rebuilds the datagram that the constructor built.
\<close>

lemma read_field_ok:
  assumes "reader_at r (u32be (length xs) @ xs @ rest)" and "length xs < 2 ^ 32"
  shows "\<exists>r1 r2. BufferReader_readUInt32 r = Inr (length xs, r1)
           \<and> BufferReader_read (length xs) r1 = Inr (xs, r2) \<and> reader_at r2 rest"
proof -
  from readUInt32_ok [OF assms] obtain r1 where
    r1: "BufferReader_readUInt32 r = Inr (length xs, r1)" "reader_at r1 (xs @ rest)" by blast
  from read_ok [OF r1(2) refl] obtain r2 where
    "BufferReader_read (length xs) r1 = Inr (xs, r2)" "reader_at r2 rest" by blast
  with r1(1) show ?thesis by blast
qed

lemma Register_roundtrip:
  assumes ser: "NetTaskRegister_serialize (NetTaskRegister_new sid seqNo ackNo frag pk)
                  = Inr (bs, this')"
    and sid: "length sid = HASH_LEN"
  shows "receive_Register HASH_LEN E bs = Inr (NetTaskRegister_new sid seqNo ackNo frag pk)"
proof -
  define x where "x = NetTaskRegister_new sid seqNo ackNo frag pk"
  have f: "version x = 1" "sequenceNumber x = seqNo" "acknowledgementNumber x = ackNo"
    "fragmented x = frag" "type x = 0" "sessionId x = sid" "cryptoMark x = NET_TASK_NOCRYPTO"
    "Register_publicKey x = pk"
    by (simp_all add: x_def variant_new_defs constant_defs)
  from ser have "\<exists>priv. NetTask_serializePrivateHeader x = Inr priv
        \<and> 17 + 4 + length pk < 2 ^ 32
        \<and> bs = NET_TASK_SIGNATURE @ sid @ NET_TASK_NOCRYPTO
               @ u32be (17 + 4 + length pk) @ priv @ u32be (length pk) @ pk"
    unfolding x_def [symmetric] Register_serialize_eq_Inr f by blast
  then have b: "seqNo < 2 ^ 32" "ackNo < 2 ^ 32" "17 + 4 + length pk < 2 ^ 32"
    "bs = NET_TASK_SIGNATURE @ sid @ NET_TASK_NOCRYPTO @ u32be (17 + 4 + length pk)
            @ (u32be 1 @ u32be seqNo @ u32be ackNo @ [if frag then 1 else 0] @ u32be 0)
            @ (u32be (length pk) @ pk @ [])"
    unfolding serializePrivateHeader_new [OF f(1)] f by auto
  from receive_header_cleartext [OF sid b(3,1,2), of 0 E None frag "u32be (length pk) @ pk @ []"]
  obtain r where
    r: "receive_header HASH_LEN E None bs
          = Inr (NetTask_new sid NET_TASK_NOCRYPTO seqNo ackNo frag 0 (17 + 4 + length pk), r)"
      "reader_at r (u32be (length pk) @ pk @ [])"
    unfolding b(4) by auto
  from b(3) have "length pk < 2 ^ 32" by simp
  from read_field_ok [OF r(2) this] obtain r1 r2 where
    rd: "BufferReader_readUInt32 r = Inr (length pk, r1)"
      "BufferReader_read (length pk) r1 = Inr (pk, r2)" by blast
  show ?thesis
    unfolding receive_Register_def r(1)
    by (simp add: NetTaskRegister_deserialize_def REQUEST_REGISTER_def rd)
qed

lemma RegisterChallenge_roundtrip:
  assumes ser: "NetTaskRegisterChallenge_serialize
                  (NetTaskRegisterChallenge_new sid seqNo ackNo frag pk ch slt) = Inr (bs, this')"
    and sid: "length sid = HASH_LEN"
  shows "receive_RegisterChallenge HASH_LEN E bs
           = Inr (NetTaskRegisterChallenge_new sid seqNo ackNo frag pk ch slt)"
proof -
  define x where "x = NetTaskRegisterChallenge_new sid seqNo ackNo frag pk ch slt"
  define p where "p = 17 + length pk + length ch + length slt + 12"
  have f: "version x = 1" "sequenceNumber x = seqNo" "acknowledgementNumber x = ackNo"
    "fragmented x = frag" "type x = 1" "sessionId x = sid" "cryptoMark x = NET_TASK_NOCRYPTO"
    "RegisterChallenge_publicKey x = pk" "RegisterChallenge_challenge x = ch"
    "RegisterChallenge_salt x = slt"
    by (simp_all add: x_def variant_new_defs constant_defs)
  from ser have "\<exists>priv. NetTask_serializePrivateHeader x = Inr priv
        \<and> p < 2 ^ 32
        \<and> bs = NET_TASK_SIGNATURE @ sid @ NET_TASK_NOCRYPTO @ u32be p @ priv
               @ u32be (length pk) @ pk @ u32be (length ch) @ ch @ u32be (length slt) @ slt"
    unfolding x_def [symmetric] RegisterChallenge_serialize_eq_Inr f p_def by blast
  then have b: "seqNo < 2 ^ 32" "ackNo < 2 ^ 32" "p < 2 ^ 32"
    "bs = NET_TASK_SIGNATURE @ sid @ NET_TASK_NOCRYPTO @ u32be p
            @ (u32be 1 @ u32be seqNo @ u32be ackNo @ [if frag then 1 else 0] @ u32be 1)
            @ (u32be (length pk) @ pk @ u32be (length ch) @ ch @ u32be (length slt) @ slt @ [])"
    unfolding serializePrivateHeader_new [OF f(1)] f by auto
  from receive_header_cleartext [OF sid b(3,1,2), of 1 E None frag
      "u32be (length pk) @ pk @ u32be (length ch) @ ch @ u32be (length slt) @ slt @ []"]
  obtain r where
    r: "receive_header HASH_LEN E None bs
          = Inr (NetTask_new sid NET_TASK_NOCRYPTO seqNo ackNo frag 1 p, r)"
      "reader_at r (u32be (length pk) @ pk @ u32be (length ch) @ ch @ u32be (length slt) @ slt @ [])"
    unfolding b(4) by auto
  from b(3) have l: "length pk < 2 ^ 32" "length ch < 2 ^ 32" "length slt < 2 ^ 32"
    by (simp_all add: p_def)
  from read_field_ok [OF r(2) l(1)] obtain r1 r2 where
    rd1: "BufferReader_readUInt32 r = Inr (length pk, r1)"
      "BufferReader_read (length pk) r1 = Inr (pk, r2)"
      "reader_at r2 (u32be (length ch) @ ch @ u32be (length slt) @ slt @ [])" by blast
  from read_field_ok [OF rd1(3) l(2)] obtain r3 r4 where
    rd2: "BufferReader_readUInt32 r2 = Inr (length ch, r3)"
      "BufferReader_read (length ch) r3 = Inr (ch, r4)"
      "reader_at r4 (u32be (length slt) @ slt @ [])" by blast
  from read_field_ok [OF rd2(3) l(3)] obtain r5 r6 where
    rd3: "BufferReader_readUInt32 r4 = Inr (length slt, r5)"
      "BufferReader_read (length slt) r5 = Inr (slt, r6)" by blast
  show ?thesis
    unfolding receive_RegisterChallenge_def r(1)
    by (simp add: NetTaskRegisterChallenge_deserialize_def REGISTER_CHALLENGE_def
        rd1(1,2) rd2(1,2) rd3)
qed

lemma RegisterChallenge2_roundtrip:
  assumes ser: "NetTaskRegisterChallenge2_serialize
                  (NetTaskRegisterChallenge2_link
                     (NetTaskRegisterChallenge2_new sid seqNo ackNo frag ch) ecdhe)
                  = Inr (bs, this')"
    and sid: "length sid = HASH_LEN"
  shows "receive_RegisterChallenge2 HASH_LEN E bs
           = Inr (NetTaskRegisterChallenge2_new sid seqNo ackNo frag ch)"
proof -
  define x where "x = NetTaskRegisterChallenge2_link
                     (NetTaskRegisterChallenge2_new sid seqNo ackNo frag ch) ecdhe"
  have f: "version x = 1" "sequenceNumber x = seqNo" "acknowledgementNumber x = ackNo"
    "fragmented x = frag" "type x = 2" "sessionId x = sid" "cryptoMark x = NET_TASK_NOCRYPTO"
    "RegisterChallenge2_challenge x = ch"
    by (simp_all add: x_def NetTaskRegisterChallenge2_link_def variant_new_defs constant_defs)
  from ser have "\<exists>priv. NetTask_serializePrivateHeader x = Inr priv
        \<and> 17 + length ch + 4 < 2 ^ 32
        \<and> bs = NET_TASK_SIGNATURE @ sid @ NET_TASK_NOCRYPTO
               @ u32be (17 + length ch + 4) @ priv @ u32be (length ch) @ ch"
    unfolding x_def [symmetric] RegisterChallenge2_serialize_eq_Inr f by blast
  then have b: "seqNo < 2 ^ 32" "ackNo < 2 ^ 32" "17 + length ch + 4 < 2 ^ 32"
    "bs = NET_TASK_SIGNATURE @ sid @ NET_TASK_NOCRYPTO @ u32be (17 + length ch + 4)
            @ (u32be 1 @ u32be seqNo @ u32be ackNo @ [if frag then 1 else 0] @ u32be 2)
            @ (u32be (length ch) @ ch @ [])"
    unfolding serializePrivateHeader_new [OF f(1)] f by auto
  from receive_header_cleartext [OF sid b(3,1,2), of 2 E None frag "u32be (length ch) @ ch @ []"]
  obtain r where
    r: "receive_header HASH_LEN E None bs
          = Inr (NetTask_new sid NET_TASK_NOCRYPTO seqNo ackNo frag 2 (17 + length ch + 4), r)"
      "reader_at r (u32be (length ch) @ ch @ [])"
    unfolding b(4) by auto
  from b(3) have "length ch < 2 ^ 32" by simp
  from read_field_ok [OF r(2) this] obtain r1 r2 where
    rd: "BufferReader_readUInt32 r = Inr (length ch, r1)"
      "BufferReader_read (length ch) r1 = Inr (ch, r2)" by blast
  show ?thesis
    unfolding receive_RegisterChallenge2_def r(1)
    by (simp add: NetTaskRegisterChallenge2_deserialize_def REGISTER_CHALLENGE2_def rd)
qed

end
